(* ===== verification/BGP_Prelude.thy ===== *)
theory BGP_Prelude
  imports Main "HOL-Library.AList" "HOL-Library.Sublist"
begin

text \<open>
  Shared material of the development: the collections of unfolding rules, expressions
  that may raise (a sum, \<open>Inl\<close> the exception), statements that change a state and may
  raise (the state is kept when they do, as Python keeps every mutation made before an
  exception), the \<open>for\<close> loop over such statements, and Python's insertion-ordered
  dictionaries as association lists.

  A Python \<open>dict\<close> keeps its keys in insertion order and holds every key once, so a
  dictionary is a list of pairs whose keys are distinct (\<open>wf_dict\<close>); \<open>d.get(k, v)\<close> is
  \<open>dict_get\<close>, \<open>d[k] = v\<close> is \<open>AList.update\<close> (a present key keeps its place, a new key
  goes to the end) and \<open>d.setdefault(k, v)\<close> is \<open>setdefault\<close>; \<open>first_seen\<close> gives the
  order of the keys after a row of assignments.

  For the proofs of the components: \<open>keeps\<close> says that a statement keeps a predicate
  whether it raises or not, \<open>agrees\<close> that it does the same in two related states,
  and \<open>visits\<close> that it is the visit of the elements of a reading (\<open>read_then\<close>,
  \<open>read_seq\<close>, \<open>read_each\<close>: what a loop gets to before it stops, computed without a
  state), each with one rule for each way of building statements;
  \<open>first_failure_cases\<close> splits a list at the first element on which a loop stops,
  \<open>tried\<close> is the part of a list that such a loop gets to; and
  \<open>final_steps_unique\<close> says that a deterministic relation reaches one final state, by
  paths of one length.
\<close>

section \<open>Collections of rules\<close>

named_theorems bgp_defs \<open>unfolding rules of the script's operations\<close>
named_theorems raise_iff \<open>when a computation that may raise returns, and what\<close>
named_theorems bgp_eval \<open>rules that evaluate the model on a concrete input\<close>

section \<open>Computations that may raise\<close>

type_synonym ('e, 'a) raising = "'e + 'a"

definition ebind :: "('e, 'a) raising \<Rightarrow> ('a \<Rightarrow> ('e, 'b) raising) \<Rightarrow> ('e, 'b) raising" where
  "ebind m f = (case m of Inl e \<Rightarrow> Inl e | Inr x \<Rightarrow> f x)"

definition returns :: "('e, 'a) raising \<Rightarrow> bool" where
  "returns m = (case m of Inl _ \<Rightarrow> False | Inr _ \<Rightarrow> True)"

section \<open>Statements\<close>

type_synonym ('s, 'e) stmt = "'s \<Rightarrow> 's \<times> 'e option"

definition eval_then :: "('e, 'a) raising \<Rightarrow> ('a \<Rightarrow> ('s, 'e) stmt) \<Rightarrow> ('s, 'e) stmt" where
  "eval_then m k s = (case m of Inl e \<Rightarrow> (s, Some e) | Inr x \<Rightarrow> k x s)"

definition seq :: "('s, 'e) stmt \<Rightarrow> ('s, 'e) stmt \<Rightarrow> ('s, 'e) stmt" where
  "seq a b s = (case a s of (s', None) \<Rightarrow> b s' | (s', Some e) \<Rightarrow> (s', Some e))"

primrec for_each :: "('a \<Rightarrow> ('s, 'e) stmt) \<Rightarrow> 'a list \<Rightarrow> ('s, 'e) stmt" where
  "for_each body [] s = (s, None)"
| "for_each body (x # xs) s = seq (body x) (for_each body xs) s"

section \<open>What a statement keeps, agrees on and visits\<close>

text \<open>
  A statement keeps a predicate when the state it leaves satisfies the predicate
  whenever the state it started in does, whether it raised or not.
\<close>

definition keeps :: "('s \<Rightarrow> bool) \<Rightarrow> ('s, 'e) stmt \<Rightarrow> bool" where
  "keeps P f = (\<forall>s. P s \<longrightarrow> P (fst (f s)))"

text \<open>
  A statement agrees on a relation between states when, run in two related states, it
  leaves related states and ends in the same way.
\<close>

definition agrees :: "('s \<Rightarrow> 's \<Rightarrow> bool) \<Rightarrow> ('s, 'e) stmt \<Rightarrow> bool" where
  "agrees R f = (\<forall>s t. R s t \<longrightarrow> R (fst (f s)) (fst (f t)) \<and> snd (f s) = snd (f t))"

text \<open>
  What a loop reads, without a state: a reading is the list of the elements a statement
  got to, in order, and the exception at which it stopped, if any. \<open>read_then\<close>,
  \<open>read_seq\<close> and \<open>read_each\<close> build the reading of a statement the way
  \<open>eval_then\<close>, \<open>seq\<close> and \<open>for_each\<close> build the statement. A statement visits a
  reading when, from every state, it leaves the state after visiting the elements of the
  reading one after the other and ends with the exception of the reading.
\<close>

type_synonym ('x, 'e) reading = "'x list \<times> 'e option"

definition read_then :: "('e, 'a) raising \<Rightarrow> ('a \<Rightarrow> ('x, 'e) reading) \<Rightarrow> ('x, 'e) reading" where
  "read_then m k = (case m of Inl e \<Rightarrow> ([], Some e) | Inr x \<Rightarrow> k x)"

definition read_seq :: "('x, 'e) reading \<Rightarrow> ('x, 'e) reading \<Rightarrow> ('x, 'e) reading" where
  "read_seq a b = (case snd a of None \<Rightarrow> (fst a @ fst b, snd b) | Some e \<Rightarrow> a)"

primrec read_each :: "('a \<Rightarrow> ('x, 'e) reading) \<Rightarrow> 'a list \<Rightarrow> ('x, 'e) reading" where
  "read_each rd [] = ([], None)"
| "read_each rd (x # xs) = read_seq (rd x) (read_each rd xs)"

definition visits :: "('x \<Rightarrow> 's \<Rightarrow> 's) \<Rightarrow> ('x, 'e) reading \<Rightarrow> ('s, 'e) stmt \<Rightarrow> bool" where
  "visits vis r f = (\<forall>s. f s = (fold vis (fst r) s, snd r))"

section \<open>Dictionaries\<close>

type_synonym ('k, 'v) dict = "('k \<times> 'v) list"

definition wf_dict :: "('k, 'v) dict \<Rightarrow> bool" where
  "wf_dict d = distinct (map fst d)"

definition dict_get :: "('k, 'v) dict \<Rightarrow> 'k \<Rightarrow> 'v \<Rightarrow> 'v" where
  "dict_get d k v = (case map_of d k of None \<Rightarrow> v | Some w \<Rightarrow> w)"

definition setdefault :: "'k \<Rightarrow> 'v \<Rightarrow> ('k, 'v) dict \<Rightarrow> ('k, 'v) dict" where
  "setdefault k v d = (case map_of d k of None \<Rightarrow> d @ [(k, v)] | Some _ \<Rightarrow> d)"

text \<open>
  The keys of a dictionary that was written under the keys \<open>xs\<close> in this order: every
  key once, at the place where it was first written.
\<close>

definition first_seen :: "'a list \<Rightarrow> 'a list" where
  "first_seen xs = rev (remdups (rev xs))"

section \<open>The elements a loop gets to\<close>

text \<open>
  A loop that stops at the first element on which its body fails runs the body on the
  elements before that one and on that one: \<open>tried P xs\<close>, where \<open>P\<close> says on which
  elements the body does not fail.
\<close>

definition tried :: "('a \<Rightarrow> bool) \<Rightarrow> 'a list \<Rightarrow> 'a list" where
  "tried P xs = takeWhile P xs @ take 1 (dropWhile P xs)"

section \<open>Lemmas on raising computations\<close>

lemma ebind_Inl [simp]: "ebind (Inl e) f = Inl e"
  by (simp add: ebind_def)

lemma ebind_Inr [simp]: "ebind (Inr x) f = f x"
  by (simp add: ebind_def)

lemma ebind_Inr_right [simp]: "ebind m Inr = m"
  by (cases m) simp_all

lemma ebind_eq_Inr_iff [raise_iff]:
  "ebind m f = Inr y \<longleftrightarrow> (\<exists>x. m = Inr x \<and> f x = Inr y)"
  by (cases m) simp_all

lemma ebind_eq_Inl_iff [raise_iff]:
  "ebind m f = Inl e \<longleftrightarrow> m = Inl e \<or> (\<exists>x. m = Inr x \<and> f x = Inl e)"
  by (cases m) simp_all

lemma ebind_cong [fundef_cong]:
  "m = m' \<Longrightarrow> (\<And>x. m' = Inr x \<Longrightarrow> f x = f' x) \<Longrightarrow> ebind m f = ebind m' f'"
  by (cases m') simp_all

lemma returns_simps [simp]:
  "returns (Inr x)" "\<not> returns (Inl e)"
  by (simp_all add: returns_def)

lemma returns_iff: "returns m \<longleftrightarrow> (\<exists>x. m = Inr x)"
  by (cases m) simp_all

lemma returns_ebind [simp]:
  "returns (ebind m f) \<longleftrightarrow> (\<exists>x. m = Inr x \<and> returns (f x))"
  by (cases m) simp_all

section \<open>Lemmas on statements and the loop\<close>

lemma eval_then_simps [simp]:
  "eval_then (Inl e) k s = (s, Some e)"
  "eval_then (Inr x) k s = k x s"
  by (simp_all add: eval_then_def)

lemma seq_None [simp]: "a s = (s', None) \<Longrightarrow> seq a b s = b s'"
  by (simp add: seq_def)

lemma seq_Some [simp]: "a s = (s', Some e) \<Longrightarrow> seq a b s = (s', Some e)"
  by (simp add: seq_def)

lemma seq_assoc: "seq (seq a b) c = seq a (seq b c)"
  by (auto simp: seq_def fun_eq_iff split: prod.splits option.splits)

lemma for_each_Nil_eta [simp]: "for_each body [] = (\<lambda>s. (s, None))"
  by (simp add: fun_eq_iff)

lemma seq_skip [simp]: "seq a (\<lambda>s. (s, None)) = a" "seq (\<lambda>s. (s, None)) a = a"
  by (auto simp: seq_def fun_eq_iff split: prod.splits option.splits)

lemma for_each_Cons_eta: "for_each body (x # xs) = seq (body x) (for_each body xs)"
  by (simp add: fun_eq_iff)

lemma for_each_append: "for_each body (xs @ ys) = seq (for_each body xs) (for_each body ys)"
  by (induction xs) (simp_all add: for_each_Cons_eta seq_assoc del: for_each.simps)

lemma for_each_cong [fundef_cong]:
  "xs = ys \<Longrightarrow> (\<And>x s. x \<in> set ys \<Longrightarrow> f x s = g x s) \<Longrightarrow> for_each f xs s = for_each g ys s"
  by (induction ys arbitrary: xs s) (auto simp: seq_def split: prod.splits option.splits)

text \<open>
  A body that never raises turns the loop into \<open>fold\<close>: the closed form of the loops
  of the script on well-shaped input.
\<close>

lemma for_each_total:
  "(\<And>x s. x \<in> set xs \<Longrightarrow> body x s = (g x s, None)) \<Longrightarrow>
     for_each body xs s = (fold g xs s, None)"
  by (induction xs arbitrary: s) simp_all

text \<open>
  The loop rule. What every iteration keeps holds of the state the loop leaves, whether
  it ran to the end or stopped at an exception.
\<close>

lemma for_each_invariant:
  assumes "P s" and "\<And>x s. x \<in> set xs \<Longrightarrow> P s \<Longrightarrow> P (fst (body x s))"
  shows "P (fst (for_each body xs s))"
  using assms
proof (induction xs arbitrary: s)
  case Nil
  then show ?case by simp
next
  case (Cons x xs)
  have step: "P (fst (body x s))"
    by (rule Cons.prems(2)) (simp_all add: Cons.prems(1))
  show ?case
  proof (cases "body x s")
    case (Pair t r)
    with step have t: "P t" by simp
    show ?thesis
    proof (cases r)
      case None
      have "P (fst (for_each body xs t))"
        by (rule Cons.IH [OF t]) (simp add: Cons.prems(2))
      with Pair None show ?thesis by simp
    next
      case (Some e)
      with Pair t show ?thesis by simp
    qed
  qed
qed

section \<open>Lemmas on dictionaries\<close>

lemma wf_dict_Nil [simp]: "wf_dict []"
  by (simp add: wf_dict_def)

lemma wf_dict_Cons [simp]: "wf_dict ((k, v) # d) \<longleftrightarrow> k \<notin> fst ` set d \<and> wf_dict d"
  by (simp add: wf_dict_def)

lemma wf_dict_update [simp]: "wf_dict d \<Longrightarrow> wf_dict (AList.update k v d)"
  by (simp add: wf_dict_def distinct_update)

lemma wf_dict_map_entry [simp]: "wf_dict d \<Longrightarrow> wf_dict (AList.map_entry k f d)"
  by (simp add: wf_dict_def distinct_map_entry)

lemma wf_dict_setdefault [simp]: "wf_dict d \<Longrightarrow> wf_dict (setdefault k v d)"
  by (auto simp: wf_dict_def setdefault_def map_of_eq_None_iff split: option.splits)

lemma dict_get_Nil [simp]: "dict_get [] k v = v"
  by (simp add: dict_get_def)

lemma dict_get_Cons [simp]:
  "dict_get ((k', w) # d) k v = (if k = k' then w else dict_get d k v)"
  by (simp add: dict_get_def)

lemma dict_get_update [simp]:
  "dict_get (AList.update k w d) k' v = (if k' = k then w else dict_get d k' v)"
  by (simp add: dict_get_def update_conv')

lemma dict_get_zip_nth:
  "distinct ks \<Longrightarrow> length ks = length vs \<Longrightarrow> i < length ks \<Longrightarrow>
     dict_get (zip ks vs) (ks ! i) d = vs ! i"
  by (simp add: dict_get_def map_of_zip_nth)

lemma dict_get_zip_notin:
  "length ks = length vs \<Longrightarrow> k \<notin> set ks \<Longrightarrow> dict_get (zip ks vs) k d = d"
  by (simp add: dict_get_def map_of_zip_is_None [THEN iffD2])

text \<open>
  \<open>d.setdefault(k, v)[k'] = w\<close> in one step: the entry of \<open>k\<close> is made if it is missing,
  then updated in place.
\<close>

lemma remdups_snoc: "remdups (xs @ [x]) = filter (\<lambda>y. y \<noteq> x) (remdups xs) @ [x]"
  by (induction xs) auto

lemma first_seen_simps [simp]:
  "first_seen [] = []"
  "first_seen (x # xs) = x # filter (\<lambda>y. y \<noteq> x) (first_seen xs)"
  by (simp_all add: first_seen_def remdups_snoc rev_filter)

text \<open>Assignments \<open>d[k] = v\<close> in a row: a key keeps its first place and its last value.\<close>

lemma keys_fold_update:
  "map fst (fold (\<lambda>x. AList.update (k x) (v x)) xs d) =
     map fst d @ filter (\<lambda>n. n \<notin> fst ` set d) (first_seen (map k xs))"
proof (induction xs arbitrary: d)
  case Nil
  then show ?case by simp
next
  case (Cons x xs)
  show ?case
    by (auto simp: Cons.IH update_keys dom_update intro!: filter_cong)
qed

lemma map_of_fold_update:
  "map_of (fold (\<lambda>x. AList.update (k x) (v x)) xs d) =
     map_of (rev (map (\<lambda>x. (k x, v x)) xs) @ d)"
proof (induction xs arbitrary: d)
  case Nil
  then show ?case by simp
next
  case (Cons x xs)
  show ?case
    by (rule ext) (simp add: Cons.IH update_conv' map_add_def split: option.splits)
qed

lemma map_entry_setdefault:
  "AList.map_entry k f (setdefault k v d) = AList.map_default k (f v) f d"
  by (induction d) (auto simp: setdefault_def split: option.splits)

lemma map_default_eq_Nil [simp]: "AList.map_default k v f d \<noteq> []"
  by (cases d) simp_all

text \<open>
  A loop whose body may raise ends at the first element on which it does: every list is
  all good elements, or good ones and then a first bad one.
\<close>

lemma first_failure_cases:
  obtains (all) "list_all P xs"
  | (first) pre x post where "xs = pre @ x # post" "list_all P pre" "\<not> P x"
proof (cases "list_all P xs")
  case True
  then show ?thesis by (rule all)
next
  case False
  then obtain pre x post where "xs = pre @ x # post" "\<not> P x" "\<forall>y\<in>set pre. P y"
    by (auto simp: list_all_iff dest!: split_list_first_prop [where P = "\<lambda>x. \<not> P x"])
  then show ?thesis by (auto intro: first simp: list_all_iff)
qed

lemma all_good_simps:
  assumes "list_all P xs"
  shows "takeWhile P xs = xs" "dropWhile P xs = []" "tried P xs = xs"
  using assms
  by (simp_all add: tried_def list_all_iff takeWhile_eq_all_conv [THEN iffD2]
      dropWhile_eq_Nil_conv [THEN iffD2])

lemma first_failure_simps:
  assumes "list_all P pre" and "\<not> P x"
  shows "takeWhile P (pre @ x # post) = pre" "dropWhile P (pre @ x # post) = x # post"
    "tried P (pre @ x # post) = pre @ [x]" "\<not> list_all P (pre @ x # post)"
  using assms by (simp_all add: tried_def list_all_iff)

lemma takeWhile_takeWhile_conj:
  "takeWhile P (takeWhile Q xs) = takeWhile (\<lambda>x. Q x \<and> P x) xs"
  by (induction xs) simp_all

text \<open>A predicate on the entries of a dictionary, through the three ways of changing it.\<close>

lemma list_all_update:
  "P (k, v) \<Longrightarrow> list_all P d \<Longrightarrow> list_all P (AList.update k v d)"
  by (induction d) auto

lemma list_all_map_entry:
  "(\<And>v. P (k, v) \<Longrightarrow> P (k, f v)) \<Longrightarrow> list_all P d \<Longrightarrow> list_all P (AList.map_entry k f d)"
  by (induction d) auto

lemma list_all_setdefault:
  "P (k, v) \<Longrightarrow> list_all P d \<Longrightarrow> list_all P (setdefault k v d)"
  by (simp add: setdefault_def split: option.splits)

section \<open>Predicates that statements keep\<close>

lemma keepsI [intro?]: "(\<And>s. P s \<Longrightarrow> P (fst (f s))) \<Longrightarrow> keeps P f"
  by (simp add: keeps_def)

lemma keepsD: "keeps P f \<Longrightarrow> P s \<Longrightarrow> P (fst (f s))"
  by (simp add: keeps_def)

lemma keeps_eval_then: "(\<And>x. m = Inr x \<Longrightarrow> keeps P (k x)) \<Longrightarrow> keeps P (eval_then m k)"
  by (cases m) (auto simp: keeps_def eval_then_def fun_eq_iff)

lemma keeps_seq: "keeps P a \<Longrightarrow> keeps P b \<Longrightarrow> keeps P (seq a b)"
  unfolding keeps_def seq_def
  by (auto split: prod.splits option.splits)

lemma keeps_for_each: "(\<And>x. x \<in> set xs \<Longrightarrow> keeps P (body x)) \<Longrightarrow> keeps P (for_each body xs)"
  by (rule keepsI) (auto intro: for_each_invariant dest: keepsD)

section \<open>Relations that statements agree on\<close>

lemma agreesI [intro?]:
  "(\<And>s t. R s t \<Longrightarrow> R (fst (f s)) (fst (f t)) \<and> snd (f s) = snd (f t)) \<Longrightarrow> agrees R f"
  by (simp add: agrees_def)

lemma agreesD: "agrees R f \<Longrightarrow> R s t \<Longrightarrow> R (fst (f s)) (fst (f t)) \<and> snd (f s) = snd (f t)"
  by (simp add: agrees_def)

lemma agrees_eval_then: "(\<And>x. agrees R (k x)) \<Longrightarrow> agrees R (eval_then m k)"
  by (cases m) (auto simp: agrees_def eval_then_def)

lemma seq_unfold:
  "seq a b s = (case snd (a s) of None \<Rightarrow> b (fst (a s)) | Some e \<Rightarrow> (fst (a s), Some e))"
  by (simp add: seq_def split: prod.splits option.splits)

lemma agrees_seq:
  assumes "agrees R a" and "agrees R b"
  shows "agrees R (seq a b)"
proof
  fix s t
  assume "R s t"
  with assms(1) have a: "R (fst (a s)) (fst (a t))" "snd (a s) = snd (a t)"
    by (auto dest: agreesD)
  show "R (fst (seq a b s)) (fst (seq a b t)) \<and> snd (seq a b s) = snd (seq a b t)"
  proof (cases "snd (a s)")
    case None
    with a(2) have "snd (a t) = None"
      by simp
    with None have "seq a b s = b (fst (a s))" "seq a b t = b (fst (a t))"
      by (simp_all add: seq_unfold)
    with a(1) assms(2) show ?thesis
      by (auto dest: agreesD)
  next
    case (Some e)
    with a(2) have "snd (a t) = Some e"
      by simp
    with Some a(1) show ?thesis
      by (simp add: seq_unfold)
  qed
qed

lemma agrees_for_each:
  "(\<And>x. x \<in> set xs \<Longrightarrow> agrees R (body x)) \<Longrightarrow> agrees R (for_each body xs)"
proof (induction xs)
  case Nil
  show ?case
    by (rule agreesI) simp
next
  case (Cons x xs)
  then have "agrees R (seq (body x) (for_each body xs))"
    by (intro agrees_seq) simp_all
  then show ?case
    by (simp add: agrees_def)
qed

section \<open>Readings\<close>

lemma read_then_simps [simp]:
  "read_then (Inl e) k = ([], Some e)"
  "read_then (Inr x) k = k x"
  by (simp_all add: read_then_def)

lemma read_seq_simps [simp]:
  "read_seq (xs, None) b = (xs @ fst b, snd b)"
  "read_seq (xs, Some e) b = (xs, Some e)"
  "read_seq ([], None) b = b"
  by (simp_all add: read_seq_def)

lemma snd_read_seq: "snd (read_seq a b) = None \<longleftrightarrow> snd a = None \<and> snd b = None"
  by (simp add: read_seq_def split: option.splits)

lemma read_each_returns_iff:
  "snd (read_each rd xs) = None \<longleftrightarrow> list_all (\<lambda>x. snd (rd x) = None) xs"
  by (induction xs) (simp_all add: snd_read_seq)

lemma read_each_total:
  "(\<And>x. x \<in> set xs \<Longrightarrow> rd x = (out x, None)) \<Longrightarrow> read_each rd xs = (concat (map out xs), None)"
  by (induction xs) simp_all

lemma read_each_raises:
  "snd (read_each rd xs) = Some e \<Longrightarrow> \<exists>x \<in> set xs. snd (rd x) = Some e"
  by (induction xs) (auto simp: read_seq_def split: option.splits)

lemma read_each_subset:
  "e \<in> set (fst (read_each rd xs)) \<Longrightarrow> \<exists>x \<in> set xs. e \<in> set (fst (rd x))"
  by (induction xs) (auto simp: read_seq_def split: option.splits)

lemma prefix_read_seq:
  "prefix (fst a) xs \<Longrightarrow> prefix (fst b) ys \<Longrightarrow> (snd a = None \<Longrightarrow> fst a = xs) \<Longrightarrow>
     prefix (fst (read_seq a b)) (xs @ ys)"
  by (auto simp: read_seq_def prefix_prefix split: option.splits)

lemma prefix_read_each:
  assumes "\<And>x. x \<in> set xs \<Longrightarrow> prefix (fst (rd x)) (out x)"
    and "\<And>x. x \<in> set xs \<Longrightarrow> snd (rd x) = None \<Longrightarrow> fst (rd x) = out x"
  shows "prefix (fst (read_each rd xs)) (concat (map out xs))"
  using assms by (induction xs) (simp_all add: prefix_read_seq)

section \<open>Statements that visit a reading\<close>

lemma visitsI [intro?]: "(\<And>s. f s = (fold vis (fst r) s, snd r)) \<Longrightarrow> visits vis r f"
  by (simp add: visits_def)

lemma visitsD: "visits vis r f \<Longrightarrow> f s = (fold vis (fst r) s, snd r)"
  by (simp add: visits_def)

lemma visits_eval_then:
  assumes "\<And>x. m = Inr x \<Longrightarrow> visits vis (r x) (k x)"
  shows "visits vis (read_then m r) (eval_then m k)"
proof (cases m)
  case (Inl e)
  show ?thesis
    unfolding visits_def Inl by simp
next
  case (Inr x)
  from assms [OF Inr] show ?thesis
    unfolding visits_def Inr by simp
qed

lemma visits_seq:
  assumes "visits vis r a" and "visits vis r' b"
  shows "visits vis (read_seq r r') (seq a b)"
proof
  fix s
  show "seq a b s = (fold vis (fst (read_seq r r')) s, snd (read_seq r r'))"
    using visitsD [OF assms(1), of s] visitsD [OF assms(2), of "fold vis (fst r) s"]
    by (cases r; cases "snd r") simp_all
qed

lemma visits_for_each:
  "(\<And>x. x \<in> set xs \<Longrightarrow> visits vis (rd x) (body x)) \<Longrightarrow>
     visits vis (read_each rd xs) (for_each body xs)"
proof (induction xs)
  case Nil
  show ?case by (simp add: visits_def)
next
  case (Cons x xs)
  have "visits vis (read_seq (rd x) (read_each rd xs)) (seq (body x) (for_each body xs))"
    by (intro visits_seq Cons.IH Cons.prems) simp_all
  then show ?case
    by (simp only: for_each_Cons_eta read_each.simps)
qed

section \<open>Deterministic relations\<close>

text \<open>
  Two paths of a deterministic relation that both end where no step is possible have
  the same length and end in the same place.
\<close>

lemma final_steps_unique:
  assumes det: "\<And>a b c. R a b \<Longrightarrow> R a c \<Longrightarrow> b = c"
    and "(R ^^ n) a b" and "(R ^^ m) a c" and "\<And>d. \<not> R b d" and "\<And>d. \<not> R c d"
  shows "n = m \<and> b = c"
  using assms(2,3)
proof (induction n arbitrary: a m)
  case 0
  show ?case
  proof (cases m)
    case 0
    with "0.prems" show ?thesis by simp
  next
    case (Suc k)
    with "0.prems"(2) obtain z where "R a z"
      by (blast dest: relpowp_Suc_D2)
    with "0.prems"(1) assms(4) show ?thesis by simp
  qed
next
  case (Suc n)
  from Suc.prems(1) obtain y where y: "R a y" "(R ^^ n) y b"
    by (blast dest: relpowp_Suc_D2)
  show ?case
  proof (cases m)
    case 0
    with Suc.prems(2) y(1) assms(5) show ?thesis
      by simp
  next
    case (Suc k)
    with Suc.prems(2) obtain z where "R a z" "(R ^^ k) z c"
      by (blast dest: relpowp_Suc_D2)
    with y(1) have "(R ^^ k) y c"
      by (auto dest: det)
    from Suc.IH [OF y(2) this] Suc show ?thesis
      by simp
  qed
qed

end
