(* ===== verification/Py_Values.thy ===== *)
theory Py_Values
  imports BGP_Prelude
begin

text \<open>
  The Python values the script handles and the methods it calls on them.

  A BGP snapshot (\<open>bgp.info\<close>) is a nested dictionary whose leaves are strings, numbers,
  booleans, \<open>None\<close> or lists: the type \<open>pyval\<close>. The script never checks a type: it
  calls \<open>.get\<close>, \<open>.items\<close> and \<open>.lower\<close> on what it finds, and Python raises
  \<open>AttributeError\<close> when the value has no such method. \<open>py_get\<close>, \<open>py_items\<close> and
  \<open>py_lower\<close> are these calls, with the exception as a value.

  The type \<open>exn\<close> holds every exception the script can meet: \<open>AttributeError\<close> (type
  name, attribute), \<open>KeyError\<close> (key), any exception of an external call with its text,
  and the two result signals that \<open>self.passed\<close> and \<open>self.failed\<close> raise to hand the
  result of a section (a reason, and the sections to go to) to the harness.

  Strings are ASCII text: \<open>str_lower\<close> and \<open>str_capitalize\<close> change the letters
  \<open>A\<close> to \<open>Z\<close> and \<open>a\<close> to \<open>z\<close> and leave every other character alone.
\<close>

section \<open>Values and exceptions\<close>

datatype pyval =
    PNone
  | PBool bool
  | PInt int
  | PStr string
  | PList "pyval list"
  | PDict "(string \<times> pyval) list"

datatype exn =
    AttributeError string string
  | KeyError string
  | Exception string
  | Passed_signal string
  | Failed_signal string "string list"

fun type_name :: "pyval \<Rightarrow> string" where
  "type_name PNone = ''NoneType''"
| "type_name (PBool _) = ''bool''"
| "type_name (PInt _) = ''int''"
| "type_name (PStr _) = ''str''"
| "type_name (PList _) = ''list''"
| "type_name (PDict _) = ''dict''"

fun is_dict :: "pyval \<Rightarrow> bool" where
  "is_dict (PDict _) = True"
| "is_dict _ = False"

fun is_str :: "pyval \<Rightarrow> bool" where
  "is_str (PStr _) = True"
| "is_str _ = False"

text \<open>
  The \<open>AttributeError\<close> of a method call on a value of a snapshot: the name of the type
  of the value and the name of one of the three methods the script calls.
\<close>

definition type_names :: "string list" where
  "type_names = [''NoneType'', ''bool'', ''int'', ''str'', ''list'', ''dict'']"

definition method_names :: "string list" where
  "method_names = [''get'', ''items'', ''lower'']"

fun method_error :: "exn \<Rightarrow> bool" where
  "method_error (AttributeError t a) = (t \<in> set type_names \<and> a \<in> set method_names)"
| "method_error _ = False"

text \<open>Every dictionary inside a value holds each key once.\<close>

fun wf_pyval :: "pyval \<Rightarrow> bool" where
  "wf_pyval (PDict d) = (wf_dict d \<and> list_all (\<lambda>kv. wf_pyval (snd kv)) d)"
| "wf_pyval (PList vs) = list_all wf_pyval vs"
| "wf_pyval _ = True"

section \<open>Strings\<close>

definition ascii_uppercase :: string where
  "ascii_uppercase = ''ABCDEFGHIJKLMNOPQRSTUVWXYZ''"

definition ascii_lowercase :: string where
  "ascii_lowercase = ''abcdefghijklmnopqrstuvwxyz''"

definition lower_char :: "char \<Rightarrow> char" where
  "lower_char c = dict_get (zip ascii_uppercase ascii_lowercase) c c"

definition upper_char :: "char \<Rightarrow> char" where
  "upper_char c = dict_get (zip ascii_lowercase ascii_uppercase) c c"

definition str_lower :: "string \<Rightarrow> string" where
  "str_lower s = map lower_char s"

definition str_capitalize :: "string \<Rightarrow> string" where
  "str_capitalize s = (case s of [] \<Rightarrow> [] | c # cs \<Rightarrow> upper_char c # map lower_char cs)"

section \<open>Method calls\<close>

fun py_get :: "pyval \<Rightarrow> string \<Rightarrow> pyval \<Rightarrow> (exn, pyval) raising" where
  "py_get (PDict d) k v = Inr (dict_get d k v)"
| "py_get x k v = Inl (AttributeError (type_name x) ''get'')"

fun py_items :: "pyval \<Rightarrow> (exn, (string, pyval) dict) raising" where
  "py_items (PDict d) = Inr d"
| "py_items x = Inl (AttributeError (type_name x) ''items'')"

fun py_lower :: "pyval \<Rightarrow> (exn, string) raising" where
  "py_lower (PStr s) = Inr (str_lower s)"
| "py_lower x = Inl (AttributeError (type_name x) ''lower'')"

section \<open>Lemmas on characters and strings\<close>

lemmas case_tables = ascii_uppercase_def ascii_lowercase_def

lemmas string_eval [bgp_eval] = lower_char_def upper_char_def case_tables str_capitalize_def

lemma length_ascii [simp]: "length ascii_uppercase = 26" "length ascii_lowercase = 26"
  by (simp_all add: case_tables)

lemma distinct_ascii [simp]: "distinct ascii_uppercase" "distinct ascii_lowercase"
  by (simp_all add: case_tables)

lemma ascii_cases_disjoint: "set ascii_uppercase \<inter> set ascii_lowercase = {}"
  by (simp add: case_tables)

lemma lower_not_upper [simp]: "c \<in> set ascii_lowercase \<Longrightarrow> c \<notin> set ascii_uppercase"
  using ascii_cases_disjoint by blast

lemma ascii_nth_neq [simp]:
  "i < 26 \<Longrightarrow> j < 26 \<Longrightarrow> ascii_uppercase ! j \<noteq> ascii_lowercase ! i"
  using lower_not_upper [of "ascii_lowercase ! i"] by (metis length_ascii nth_mem)

lemma lower_char_capital: "i < 26 \<Longrightarrow> lower_char (ascii_uppercase ! i) = ascii_lowercase ! i"
  by (simp add: lower_char_def dict_get_zip_nth)

lemma upper_char_small: "i < 26 \<Longrightarrow> upper_char (ascii_lowercase ! i) = ascii_uppercase ! i"
  by (simp add: upper_char_def dict_get_zip_nth)

lemma lower_char_other [simp]: "c \<notin> set ascii_uppercase \<Longrightarrow> lower_char c = c"
  by (simp add: lower_char_def dict_get_zip_notin)

lemma upper_char_other [simp]: "c \<notin> set ascii_lowercase \<Longrightarrow> upper_char c = c"
  by (simp add: upper_char_def dict_get_zip_notin)

text \<open>The two cases of lowering a character: a capital, by its index, or anything else.\<close>

lemma lower_char_cases:
  obtains (capital) i where "i < 26" "c = ascii_uppercase ! i" "lower_char c = ascii_lowercase ! i"
  | (other) "c \<notin> set ascii_uppercase" "lower_char c = c"
proof (cases "c \<in> set ascii_uppercase")
  case True
  then obtain i where "i < 26" "c = ascii_uppercase ! i"
    by (auto simp: in_set_conv_nth)
  then show ?thesis
    by (auto intro: capital simp: lower_char_capital)
next
  case False
  then show ?thesis by (auto intro: other)
qed

lemma lower_char_not_capital [simp]: "lower_char c \<notin> set ascii_uppercase"
  by (cases c rule: lower_char_cases) (auto simp: nth_mem)

lemma lower_char_idem [simp]: "lower_char (lower_char c) = lower_char c"
  by simp

lemma lower_upper_char [simp]: "lower_char (upper_char c) = lower_char c"
proof (cases "c \<in> set ascii_lowercase")
  case True
  then obtain i where "i < 26" "c = ascii_lowercase ! i"
    by (auto simp: in_set_conv_nth)
  then show ?thesis
    by (simp add: upper_char_small lower_char_capital)
next
  case False
  then show ?thesis by simp
qed

lemma upper_not_lower [simp]: "c \<in> set ascii_uppercase \<Longrightarrow> c \<notin> set ascii_lowercase"
  using ascii_cases_disjoint by blast

lemma upper_lower_char [simp]: "upper_char (lower_char c) = upper_char c"
  by (cases c rule: lower_char_cases) (simp_all add: upper_char_small nth_mem)

lemma length_str_lower [simp]: "length (str_lower s) = length s"
  by (simp add: str_lower_def)

lemma str_lower_Nil [simp]: "str_lower [] = []"
  by (simp add: str_lower_def)

lemma str_lower_Cons [simp]: "str_lower (c # cs) = lower_char c # str_lower cs"
  by (simp add: str_lower_def)

lemma str_lower_append [simp]: "str_lower (s @ t) = str_lower s @ str_lower t"
  by (simp add: str_lower_def)

lemma str_lower_idem [simp]: "str_lower (str_lower s) = str_lower s"
  by (induction s) simp_all

lemma str_lower_eq_Nil [simp]: "str_lower s = [] \<longleftrightarrow> s = []"
  by (simp add: str_lower_def)

lemma length_str_capitalize [simp]: "length (str_capitalize s) = length s"
  by (simp add: str_capitalize_def split: list.splits)

lemma str_lower_capitalize [simp]: "str_lower (str_capitalize s) = str_lower s"
  by (cases s) (simp_all add: str_capitalize_def str_lower_def)

lemma str_capitalize_lower [simp]: "str_capitalize (str_lower s) = str_capitalize s"
  by (cases s) (simp_all add: str_capitalize_def str_lower_def)

text \<open>
  A character is lowered to a lower-case letter exactly by that letter and by its
  capital: the preimage of \<open>lower_char\<close> on the letters.
\<close>

lemma lower_char_eq_letter:
  assumes "d \<in> set ascii_lowercase"
  shows "lower_char c = d \<longleftrightarrow> c = d \<or> c = upper_char d"
proof -
  from assms obtain i where i: "i < 26" "d = ascii_lowercase ! i"
    by (auto simp: in_set_conv_nth)
  show ?thesis
  proof (cases c rule: lower_char_cases)
    case (capital j)
    with i show ?thesis
      by (auto simp: upper_char_small lower_char_capital nth_eq_iff_index_eq)
  next
    case other
    with assms i show ?thesis
      by (auto simp: upper_char_small nth_mem)
  qed
qed

lemma str_lower_eq_letters:
  "list_all (\<lambda>d. d \<in> set ascii_lowercase) t \<Longrightarrow>
     str_lower s = t \<longleftrightarrow> list_all2 (\<lambda>c d. c = d \<or> c = upper_char d) s t"
proof (induction s arbitrary: t)
  case Nil
  then show ?case by auto
next
  case (Cons c s)
  then show ?case
    by (cases t) (auto simp: lower_char_eq_letter)
qed

section \<open>Lemmas on the method calls\<close>

lemma py_get_Inr_iff [raise_iff]:
  "py_get x k v = Inr y \<longleftrightarrow> (\<exists>d. x = PDict d \<and> y = dict_get d k v)"
  by (cases x) auto

lemma py_items_Inr_iff [raise_iff]: "py_items x = Inr d \<longleftrightarrow> x = PDict d"
  by (cases x) auto

lemma py_lower_Inr_iff [raise_iff]: "py_lower x = Inr t \<longleftrightarrow> (\<exists>s. x = PStr s \<and> t = str_lower s)"
  by (cases x) auto

lemma type_name_known [simp]: "type_name x \<in> set type_names"
  by (cases x) (simp_all add: type_names_def)

lemma method_names_simps [simp]:
  "''get'' \<in> set method_names" "''items'' \<in> set method_names" "''lower'' \<in> set method_names"
  by (simp_all add: method_names_def)

lemma py_get_raises: "py_get x k v = Inl e \<Longrightarrow> method_error e"
  by (cases x) (auto simp: type_names_def)

lemma py_items_raises: "py_items x = Inl e \<Longrightarrow> method_error e"
  by (cases x) (auto simp: type_names_def)

lemma py_lower_raises: "py_lower x = Inl e \<Longrightarrow> method_error e"
  by (cases x) (auto simp: type_names_def)

lemmas method_raises = py_get_raises py_items_raises py_lower_raises

lemma method_error_iff:
  "method_error e \<longleftrightarrow>
     (\<exists>t a. e = AttributeError t a \<and> t \<in> set type_names \<and> a \<in> set method_names)"
  by (cases e) simp_all

lemma returns_py_get [simp]: "returns (py_get x k v) \<longleftrightarrow> is_dict x"
  by (cases x) simp_all

lemma returns_py_items [simp]: "returns (py_items x) \<longleftrightarrow> is_dict x"
  by (cases x) simp_all

lemma returns_py_lower [simp]: "returns (py_lower x) \<longleftrightarrow> is_str x"
  by (cases x) simp_all

lemma wf_pyval_dict_get:
  "wf_pyval (PDict d) \<Longrightarrow> wf_pyval v \<Longrightarrow> wf_pyval (dict_get d k v)"
  by (auto simp: dict_get_def list_all_iff split: option.splits dest!: map_of_SomeD)

lemma wf_pyval_py_get:
  "wf_pyval x \<Longrightarrow> wf_pyval v \<Longrightarrow> py_get x k v = Inr y \<Longrightarrow> wf_pyval y"
  by (auto simp: raise_iff intro: wf_pyval_dict_get)

lemma wf_pyval_py_items:
  "wf_pyval x \<Longrightarrow> py_items x = Inr kvs \<Longrightarrow> list_all (\<lambda>kv. wf_pyval (snd kv)) kvs"
  by (auto simp: raise_iff)

end
