(* ===== verification/Harness.thy ===== *)
theory Harness
  imports Py_Values
begin

text \<open>
  What the script shares with its surroundings: the devices of the testbed, the log,
  and the state the sections of the script hand to each other.

  A device is its name and what its external calls do in this run: \<open>device.connect()\<close>
  returns or raises an exception with a text, and learning its BGP state
  (\<open>Bgp(device).learn()\<close>) raises, or returns and leaves the attribute \<open>info\<close> set or
  unset. Each call is made at most once for a device, so its outcome is a field of the
  device.

  The log is the list of the calls of \<open>log.info\<close> and \<open>log.error\<close> in order. The text
  that \<open>banner\<close>, \<open>tabulate\<close> and \<open>json.dumps\<close> render is not modelled: an event holds
  the arguments they are given.

  The record \<open>script\<close> is the state of one run: the parameters of the script
  (\<open>self.parent.parameters\<close>; a key that was never set is \<open>None\<close>), the attribute
  \<open>all_bgp_sessions\<close> of the testcase, the log, and the local variables of the sections
  that their loops change (\<open>device_list\<close>, \<open>failed_dict\<close>, \<open>results_table\<close>), each set
  by the assignment that opens its section.

  \<open>ignores_locals\<close> names the predicates on the state that do not depend on the locals
  of \<open>check_bgp\<close> or on the log.
\<close>

section \<open>Devices, log and state\<close>

record device =
  name :: string
  connect_result :: "(string, unit) raising"
  learn_result :: "(string, pyval option) raising"

type_synonym row = "string list"
type_synonym failures = "(string, (string, pyval) dict) dict"

datatype log_event =
    Info string
  | Banner string
  | Tabulate "row list" "string list"
  | Error_json failures

record script =
  testbed :: "device list option"
  devices :: "device list option"
  all_bgp_sessions :: "(string, pyval) dict option"
  log :: "log_event list"
  device_list :: "device list"
  failed_dict :: failures
  results_table :: "row list"

definition start :: script where
  "start = \<lparr>testbed = None, devices = None, all_bgp_sessions = None, log = [],
     device_list = [], failed_dict = [], results_table = []\<rparr>"

definition log_info :: "log_event \<Rightarrow> script \<Rightarrow> script" where
  "log_info ev s = s\<lparr>log := log s @ [ev]\<rparr>"

definition quoted :: "string \<Rightarrow> string" where
  "quoted s = CHR 0x27 # s @ [CHR 0x27]"

text \<open>
  A predicate on the state that does not look at the locals of \<open>check_bgp\<close> or at the
  log: what it says of a state stays true while the test runs.
\<close>

definition ignores_locals :: "(script \<Rightarrow> bool) \<Rightarrow> bool" where
  "ignores_locals P =
     (\<forall>s fd rt lg. P (s\<lparr>failed_dict := fd, results_table := rt, log := lg\<rparr>) = P s)"

section \<open>Lemmas\<close>

lemma log_info_fields [simp]:
  "testbed (log_info ev s) = testbed s"
  "devices (log_info ev s) = devices s"
  "all_bgp_sessions (log_info ev s) = all_bgp_sessions s"
  "device_list (log_info ev s) = device_list s"
  "failed_dict (log_info ev s) = failed_dict s"
  "results_table (log_info ev s) = results_table s"
  "log (log_info ev s) = log s @ [ev]"
  by (simp_all add: log_info_def)


lemma ignores_localsD:
  assumes "ignores_locals P"
  shows "P (s\<lparr>failed_dict := fd\<rparr>) = P s" "P (s\<lparr>results_table := rt\<rparr>) = P s"
    "P (s\<lparr>log := lg\<rparr>) = P s" "P (log_info ev s) = P s"
    "P (s\<lparr>failed_dict := fd, results_table := rt\<rparr>) = P s"
proof -
  note P = assms [unfolded ignores_locals_def, rule_format]
  show "P (s\<lparr>failed_dict := fd\<rparr>) = P s"
    using P [where s = s and fd = fd and rt = "results_table s" and lg = "log s"] by simp
  show "P (s\<lparr>results_table := rt\<rparr>) = P s"
    using P [where s = s and fd = "failed_dict s" and rt = rt and lg = "log s"] by simp
  show "P (s\<lparr>log := lg\<rparr>) = P s"
    using P [where s = s and fd = "failed_dict s" and rt = "results_table s" and lg = lg] by simp
  show "P (log_info ev s) = P s"
    using P [where s = s and fd = "failed_dict s" and rt = "results_table s"
        and lg = "log s @ [ev]"]
    by (simp add: log_info_def)
  show "P (s\<lparr>failed_dict := fd, results_table := rt\<rparr>) = P s"
    using P [where s = s and fd = fd and rt = rt and lg = "log s"] by simp
qed

lemma ignores_locals_fields [simp]:
  "ignores_locals (\<lambda>s. all_bgp_sessions s = x)"
  "ignores_locals (\<lambda>s. devices s = y)"
  "ignores_locals (\<lambda>s. testbed s = z)"
  "ignores_locals (\<lambda>s. device_list s = ds)"
  by (simp_all add: ignores_locals_def)

lemma start_fields [simp]:
  "testbed start = None" "devices start = None" "all_bgp_sessions start = None"
  "log start = []" "device_list start = []" "failed_dict start = []" "results_table start = []"
  by (simp_all add: start_def)

end
