(* ===== verification/Failure_Index.thy ===== *)
theory Failure_Index
  imports Harness
begin

text \<open>
  The dictionary \<open>failed_dict\<close> of \<open>check_bgp\<close>: device name to neighbour address to
  the properties of the neighbour. Its one operation is
  \<open>failed_dict.setdefault(device, {})[nbr] = props\<close>: the entry of the device is made if
  it is missing and the neighbour is stored in it, over an older neighbour of the same
  address.

  \<open>fd_lookup\<close> reads the dictionary as a map of two keys, \<open>fd_inv\<close> is what the
  operation keeps (distinct keys at both levels, no device without a neighbour) and
  \<open>fd_size\<close> counts the neighbours it holds.
\<close>

section \<open>The operation and its readings\<close>

definition record_failure :: "string \<Rightarrow> string \<Rightarrow> pyval \<Rightarrow> failures \<Rightarrow> failures" where
  "record_failure device nbr props fd =
     AList.map_entry device (AList.update nbr props) (setdefault device [] fd)"

definition record_all :: "string \<Rightarrow> (string \<times> pyval) list \<Rightarrow> failures \<Rightarrow> failures" where
  "record_all device nps fd = fold (\<lambda>np. record_failure device (fst np) (snd np)) nps fd"

definition fd_lookup :: "failures \<Rightarrow> string \<Rightarrow> string \<Rightarrow> pyval option" where
  "fd_lookup fd device nbr =
     (case map_of fd device of None \<Rightarrow> None | Some inner \<Rightarrow> map_of inner nbr)"

definition fd_inv :: "failures \<Rightarrow> bool" where
  "fd_inv fd = (wf_dict fd \<and> list_all (\<lambda>di. wf_dict (snd di) \<and> snd di \<noteq> []) fd)"

definition fd_size :: "failures \<Rightarrow> nat" where
  "fd_size fd = sum_list (map (\<lambda>di. length (snd di)) fd)"

text \<open>
  A predicate on every value the dictionary holds, and the dictionary as the Python
  value that \<open>json.dumps\<close> is given.
\<close>

definition fd_all :: "(pyval \<Rightarrow> bool) \<Rightarrow> failures \<Rightarrow> bool" where
  "fd_all Q fd = list_all (\<lambda>di. list_all (\<lambda>np. Q (snd np)) (snd di)) fd"

definition fd_value :: "failures \<Rightarrow> pyval" where
  "fd_value fd = PDict (map (\<lambda>di. (fst di, PDict (snd di))) fd)"

section \<open>One failure\<close>

lemma record_failure_map_default:
  "record_failure device nbr props fd =
     AList.map_default device [(nbr, props)] (AList.update nbr props) fd"
  by (simp add: record_failure_def map_entry_setdefault)

lemma record_failure_Nil [simp]:
  "record_failure device nbr props [] = [(device, [(nbr, props)])]"
  by (simp add: record_failure_map_default)

lemma record_failure_Cons [simp]:
  "record_failure device nbr props ((d, inner) # fd) =
     (if d = device then (d, AList.update nbr props inner) # fd
      else (d, inner) # record_failure device nbr props fd)"
  by (simp add: record_failure_map_default)

lemma record_failure_nonempty [simp]: "record_failure device nbr props fd \<noteq> []"
  by (simp add: record_failure_map_default)

lemma dom_record_failure [simp]:
  "fst ` set (record_failure device nbr props fd) = insert device (fst ` set fd)"
  by (simp add: record_failure_map_default dom_map_default)

lemma map_of_record_failure:
  "map_of (record_failure device nbr props fd) =
     (map_of fd)(device \<mapsto> AList.update nbr props (dict_get fd device []))"
  by (auto simp: record_failure_map_default map_of_map_default dict_get_def fun_eq_iff
      split: option.splits)

lemma fd_lookup_record_failure [simp]:
  "fd_lookup (record_failure device nbr props fd) d n =
     (if d = device \<and> n = nbr then Some props else fd_lookup fd d n)"
  by (auto simp: fd_lookup_def map_of_record_failure update_conv' dict_get_def
      split: option.splits)

lemma fd_lookup_Nil [simp]: "fd_lookup [] d n = None"
  by (simp add: fd_lookup_def)

lemma fd_inv_Nil [simp]: "fd_inv []"
  by (simp add: fd_inv_def)

lemma fd_inv_record_failure [simp]: "fd_inv fd \<Longrightarrow> fd_inv (record_failure device nbr props fd)"
  by (induction fd) (auto simp: fd_inv_def)

text \<open>
  A failure adds one neighbour to the dictionary, unless the device already holds a
  neighbour of this address: then the older entry is overwritten.
\<close>

lemma fd_size_record_failure:
  "fd_inv fd \<Longrightarrow>
     fd_size (record_failure device nbr props fd) =
       (if fd_lookup fd device nbr = None then Suc (fd_size fd) else fd_size fd)"
proof (induction fd)
  case Nil
  then show ?case by (simp add: fd_size_def)
next
  case (Cons di fd)
  obtain d inner where di: "di = (d, inner)" by (cases di)
  show ?case
  proof (cases "d = device")
    case True
    have "length (AList.update nbr props inner) =
        (if map_of inner nbr = None then Suc (length inner) else length inner)"
      by (induction inner) auto
    with True di show ?thesis
      by (simp add: fd_size_def fd_lookup_def)
  next
    case False
    with Cons di show ?thesis
      by (simp add: fd_size_def fd_lookup_def fd_inv_def)
  qed
qed

lemma fd_all_Nil [simp]: "fd_all Q []"
  by (simp add: fd_all_def)

lemma fd_all_record_failure:
  "Q props \<Longrightarrow> fd_all Q fd \<Longrightarrow> fd_all Q (record_failure device nbr props fd)"
  unfolding fd_all_def record_failure_def
  by (intro list_all_map_entry list_all_setdefault) (simp_all add: list_all_update)

section \<open>The failures of one device\<close>

lemma record_all_Nil [simp]: "record_all device [] fd = fd"
  by (simp add: record_all_def)

lemma record_all_Cons [simp]:
  "record_all device (np # nps) fd =
     record_all device nps (record_failure device (fst np) (snd np) fd)"
  by (simp add: record_all_def)

lemma record_all_append [simp]:
  "record_all device (nps @ nps') fd = record_all device nps' (record_all device nps fd)"
  by (simp add: record_all_def)

lemma dom_record_all:
  "fst ` set (record_all device nps fd) =
     (if nps = [] then fst ` set fd else insert device (fst ` set fd))"
  by (induction nps arbitrary: fd) auto

lemma record_all_eq_Nil [simp]: "record_all device nps fd = [] \<longleftrightarrow> nps = [] \<and> fd = []"
  by (induction nps arbitrary: fd) auto

lemma fd_inv_record_all [simp]: "fd_inv fd \<Longrightarrow> fd_inv (record_all device nps fd)"
  by (induction nps arbitrary: fd) auto

lemma fd_all_record_all:
  "list_all (\<lambda>np. Q (snd np)) nps \<Longrightarrow> fd_all Q fd \<Longrightarrow> fd_all Q (record_all device nps fd)"
  by (induction nps arbitrary: fd) (simp_all add: fd_all_record_failure)

text \<open>
  With distinct keys at both levels and well-formed values, the dictionary is a
  well-formed Python value.
\<close>

lemma wf_pyval_fd_value: "fd_inv fd \<Longrightarrow> fd_all wf_pyval fd \<Longrightarrow> wf_pyval (fd_value fd)"
  by (auto simp: fd_value_def fd_inv_def fd_all_def wf_dict_def list_all_iff o_def)

text \<open>The neighbour recorded last wins; the entries of other devices are untouched.\<close>

lemma fd_lookup_record_all:
  "fd_lookup (record_all device nps fd) d n =
     (if d = device
      then (case map_of (rev nps) n of None \<Rightarrow> fd_lookup fd d n | Some props \<Rightarrow> Some props)
      else fd_lookup fd d n)"
  by (induction nps arbitrary: fd) (auto simp: map_add_def split: option.splits)

section \<open>How many neighbours the dictionary holds\<close>

lemma fd_size_Nil [simp]: "fd_size [] = 0"
  by (simp add: fd_size_def)

lemma fd_lookup_notin: "device \<notin> fst ` set fd \<Longrightarrow> fd_lookup fd device n = None"
  by (simp add: fd_lookup_def map_of_eq_None_iff [THEN iffD2])

text \<open>
  The failures of a device add as many neighbours as they have addresses that the
  device does not hold yet: a second failure of an address adds nothing.
\<close>

lemma fd_size_record_all:
  "fd_inv fd \<Longrightarrow>
     fd_size (record_all device nps fd) =
       fd_size fd + card {n \<in> fst ` set nps. fd_lookup fd device n = None}"
proof (induction nps arbitrary: fd)
  case Nil
  then show ?case by simp
next
  case (Cons np nps)
  let ?fd = "record_failure device (fst np) (snd np) fd"
  let ?A = "{n \<in> fst ` set nps. fd_lookup fd device n = None}"
  have new: "{n \<in> fst ` set nps. fd_lookup ?fd device n = None} = ?A - {fst np}"
    by auto
  have all: "{n \<in> fst ` set (np # nps). fd_lookup fd device n = None} =
      (if fd_lookup fd device (fst np) = None then insert (fst np) ?A else ?A)"
    by auto
  have size: "fd_size (record_all device nps ?fd) = fd_size ?fd + card (?A - {fst np})"
    using Cons.IH [of ?fd] Cons.prems by (simp add: new del: fd_lookup_record_failure)
  have step: "fd_size ?fd = (if fd_lookup fd device (fst np) = None then Suc (fd_size fd) else fd_size fd)"
    using Cons.prems by (rule fd_size_record_failure)
  show ?case
    unfolding record_all_Cons all
  proof (cases "fd_lookup fd device (fst np) = None")
    case True
    have "card (insert (fst np) ?A) = Suc (card (?A - {fst np}))"
      by (rule card.insert_remove) simp
    with True size step show "fd_size (record_all device nps ?fd) =
        fd_size fd + card (if fd_lookup fd device (fst np) = None then insert (fst np) ?A else ?A)"
      by simp
  next
    case False
    then obtain p where p: "fd_lookup fd device (fst np) = Some p" by auto
    then have "?A - {fst np} = ?A" by auto
    with p size step show "fd_size (record_all device nps ?fd) =
        fd_size fd + card (if fd_lookup fd device (fst np) = None then insert (fst np) ?A else ?A)"
      by simp
  qed
qed

lemma fd_size_record_all_new:
  "fd_inv fd \<Longrightarrow> device \<notin> fst ` set fd \<Longrightarrow>
     fd_size (record_all device nps fd) = fd_size fd + length (remdups (map fst nps))"
  by (simp add: fd_size_record_all fd_lookup_notin card_set [symmetric])

end
