(* ===== verification/Snapshot.thy ===== *)
theory Snapshot
  imports Py_Values
begin

text \<open>
  How \<open>check_bgp\<close> reads a BGP snapshot: the three expressions that walk from the
  snapshot to its VRFs (\<open>vrfs_dict\<close>: line 79 and the \<open>.items()\<close> of the loop header in
  line 81), from a VRF to its neighbours (\<open>neighbors\<close>: line 82 and the \<open>.items()\<close> of
  line 84) and from a neighbour to its lowered session state (\<open>session_state\<close>); the snapshots on which
  none of them raises (\<open>snapshot_ok\<close>); the neighbours of a snapshot in the order the
  loops visit them (\<open>entries\<close>); and, for any snapshot, the neighbours the loops get to
  before an accessor raises, with the exception (\<open>read_snapshot\<close>).

  A missing key is never an error: \<open>.get\<close> hands back its default, an empty dictionary
  or the state \<open>Unknown\<close>. A key that is present with a value of another type is one:
  the next method call raises \<open>AttributeError\<close>.
\<close>

section \<open>The accessors of the code\<close>

definition vrfs_dict :: "pyval \<Rightarrow> (exn, (string, pyval) dict) raising" where
  "vrfs_dict bgp_info =
     ebind (py_get bgp_info ''instance'' (PDict [])) (\<lambda>instance.
     ebind (py_get instance ''default'' (PDict [])) (\<lambda>dflt.
     ebind (py_get dflt ''vrf'' (PDict [])) py_items))"

definition neighbors :: "pyval \<Rightarrow> (exn, (string, pyval) dict) raising" where
  "neighbors vrf_data = ebind (py_get vrf_data ''neighbor'' (PDict [])) py_items"

definition session_state :: "pyval \<Rightarrow> (exn, string) raising" where
  "session_state props = ebind (py_get props ''session_state'' (PStr ''Unknown'')) py_lower"

definition result :: "string \<Rightarrow> string" where
  "result state = (if state = ''established'' then ''Passed'' else ''Failed'')"

lemmas accessor_defs [bgp_defs] = vrfs_dict_def neighbors_def session_state_def result_def

section \<open>Snapshots that the code reads without an exception\<close>

definition props_ok :: "pyval \<Rightarrow> bool" where
  "props_ok props = returns (session_state props)"

definition vrf_ok :: "pyval \<Rightarrow> bool" where
  "vrf_ok vrf_data =
     (case neighbors vrf_data of Inl _ \<Rightarrow> False | Inr ns \<Rightarrow> list_all (\<lambda>np. props_ok (snd np)) ns)"

definition snapshot_ok :: "pyval \<Rightarrow> bool" where
  "snapshot_ok bgp_info =
     (case vrfs_dict bgp_info of Inl _ \<Rightarrow> False | Inr vs \<Rightarrow> list_all (\<lambda>vd. vrf_ok (snd vd)) vs)"

section \<open>The neighbours of a snapshot, in the order of the loops\<close>

definition state_of :: "pyval \<Rightarrow> string" where
  "state_of props = (case session_state props of Inl _ \<Rightarrow> [] | Inr state \<Rightarrow> state)"

definition vrf_entries :: "string \<times> pyval \<Rightarrow> (string \<times> string \<times> pyval) list" where
  "vrf_entries vd =
     (case neighbors (snd vd) of Inl _ \<Rightarrow> [] | Inr ns \<Rightarrow> map (\<lambda>np. (fst vd, fst np, snd np)) ns)"

definition entries :: "pyval \<Rightarrow> (string \<times> string \<times> pyval) list" where
  "entries bgp_info =
     (case vrfs_dict bgp_info of Inl _ \<Rightarrow> [] | Inr vs \<Rightarrow> concat (map vrf_entries vs))"

definition failing :: "string \<times> string \<times> pyval \<Rightarrow> bool" where
  "failing e = (result (state_of (snd (snd e))) = ''Failed'')"

text \<open>
  What the loops read of a snapshot: the neighbours they get to before the first value
  that makes an accessor raise, and the exception of that accessor. The three readings
  follow the three loops of \<open>check_bgp\<close>.
\<close>

definition read_neighbor ::
  "string \<Rightarrow> string \<times> pyval \<Rightarrow> (string \<times> string \<times> pyval, exn) reading" where
  "read_neighbor vrf_name np =
     read_then (session_state (snd np)) (\<lambda>state. ([(vrf_name, fst np, snd np)], None))"

definition read_vrf :: "string \<times> pyval \<Rightarrow> (string \<times> string \<times> pyval, exn) reading" where
  "read_vrf vd = read_then (neighbors (snd vd)) (read_each (read_neighbor (fst vd)))"

definition read_snapshot :: "pyval \<Rightarrow> (string \<times> string \<times> pyval, exn) reading" where
  "read_snapshot bgp_info = read_then (vrfs_dict bgp_info) (read_each read_vrf)"

section \<open>The accessors on each shape of input\<close>

text \<open>The path \<open>instance\<close>, \<open>default\<close>, \<open>vrf\<close> of dictionaries, each level optional.\<close>

lemma vrfs_dict_missing [simp]:
  "map_of d ''instance'' = None \<Longrightarrow> vrfs_dict (PDict d) = Inr []"
  by (simp add: vrfs_dict_def dict_get_def)

lemma vrfs_dict_path:
  "map_of d ''instance'' = Some (PDict i) \<Longrightarrow> map_of i ''default'' = Some (PDict f) \<Longrightarrow>
   map_of f ''vrf'' = Some (PDict vs) \<Longrightarrow> vrfs_dict (PDict d) = Inr vs"
  by (simp add: vrfs_dict_def dict_get_def)

lemma neighbors_missing [simp]: "map_of d ''neighbor'' = None \<Longrightarrow> neighbors (PDict d) = Inr []"
  by (simp add: neighbors_def dict_get_def)

lemma neighbors_present:
  "map_of d ''neighbor'' = Some (PDict ns) \<Longrightarrow> neighbors (PDict d) = Inr ns"
  by (simp add: neighbors_def dict_get_def)

lemma session_state_missing [simp]:
  "map_of d ''session_state'' = None \<Longrightarrow> session_state (PDict d) = Inr ''unknown''"
  by (simp add: session_state_def dict_get_def str_lower_def lower_char_def case_tables)

lemma session_state_present:
  "map_of d ''session_state'' = Some (PStr st) \<Longrightarrow> session_state (PDict d) = Inr (str_lower st)"
  by (simp add: session_state_def dict_get_def)

lemma session_state_not_str:
  "map_of d ''session_state'' = Some v \<Longrightarrow> \<not> is_str v \<Longrightarrow>
     session_state (PDict d) = Inl (AttributeError (type_name v) ''lower'')"
  by (cases v) (simp_all add: session_state_def dict_get_def)

lemma session_state_not_dict:
  "\<not> is_dict props \<Longrightarrow> session_state props = Inl (AttributeError (type_name props) ''get'')"
  by (cases props) (simp_all add: session_state_def)

text \<open>The accessors raise nothing but \<open>AttributeError\<close>.\<close>

lemma vrfs_dict_raises: "vrfs_dict bgp_info = Inl e \<Longrightarrow> method_error e"
  by (auto simp: vrfs_dict_def raise_iff dest: method_raises)

lemma neighbors_raises: "neighbors vrf_data = Inl e \<Longrightarrow> method_error e"
  by (auto simp: neighbors_def raise_iff dest: method_raises)

lemma session_state_raises: "session_state props = Inl e \<Longrightarrow> method_error e"
  by (auto simp: session_state_def raise_iff dest: method_raises)

text \<open>A state that the code has lowered holds no capital letter.\<close>

lemma session_state_lowered: "session_state props = Inr state \<Longrightarrow> str_lower state = state"
  by (auto simp: session_state_def raise_iff)

lemma result_Passed_iff [simp]: "result state = ''Passed'' \<longleftrightarrow> state = ''established''"
  by (simp add: result_def)

lemma result_Failed_iff [simp]: "result state = ''Failed'' \<longleftrightarrow> state \<noteq> ''established''"
  by (simp add: result_def)

section \<open>Shapes and entries\<close>

lemma props_ok_iff:
  "props_ok props \<longleftrightarrow> (\<exists>d. props = PDict d \<and> is_str (dict_get d ''session_state'' (PStr ''Unknown'')))"
  by (cases props) (simp_all add: props_ok_def session_state_def)

lemma props_ok_state: "props_ok props \<Longrightarrow> session_state props = Inr (state_of props)"
  by (auto simp: props_ok_def state_of_def returns_iff)

lemma vrf_ok_neighbors:
  "vrf_ok vrf_data \<Longrightarrow> \<exists>ns. neighbors vrf_data = Inr ns \<and> list_all (\<lambda>np. props_ok (snd np)) ns"
  by (auto simp: vrf_ok_def split: sum.splits)

lemma snapshot_ok_vrfs:
  "snapshot_ok bgp_info \<Longrightarrow> \<exists>vs. vrfs_dict bgp_info = Inr vs \<and> list_all (\<lambda>vd. vrf_ok (snd vd)) vs"
  by (auto simp: snapshot_ok_def split: sum.splits)

lemma entries_props_ok:
  "snapshot_ok bgp_info \<Longrightarrow> e \<in> set (entries bgp_info) \<Longrightarrow> props_ok (snd (snd e))"
  by (fastforce simp: entries_def vrf_entries_def list_all_iff
      dest!: snapshot_ok_vrfs vrf_ok_neighbors)

lemma snapshot_ok_empty [simp]: "snapshot_ok (PDict [])"
  by (simp add: snapshot_ok_def)

lemma entries_empty [simp]: "entries (PDict []) = []"
  by (simp add: entries_def)

section \<open>What is read of a snapshot\<close>

lemma read_neighbor_ok:
  "props_ok (snd np) \<Longrightarrow> read_neighbor vrf_name np = ([(vrf_name, fst np, snd np)], None)"
  by (auto simp: read_neighbor_def props_ok_def returns_iff)

lemma read_neighbor_returns_iff: "snd (read_neighbor vrf_name np) = None \<longleftrightarrow> props_ok (snd np)"
  by (cases "session_state (snd np)") (simp_all add: read_neighbor_def props_ok_def)

lemma read_neighbor_raises: "snd (read_neighbor vrf_name np) = Some e \<Longrightarrow> method_error e"
  by (cases "session_state (snd np)") (auto simp: read_neighbor_def dest: session_state_raises)

lemma read_vrf_returns_iff: "snd (read_vrf vd) = None \<longleftrightarrow> vrf_ok (snd vd)"
  by (cases "neighbors (snd vd)")
    (simp_all add: read_vrf_def vrf_ok_def read_each_returns_iff read_neighbor_returns_iff)

lemma read_vrf_ok:
  assumes "vrf_ok (snd vd)"
  shows "read_vrf vd = (vrf_entries vd, None)"
proof -
  from assms obtain ns where ns: "neighbors (snd vd) = Inr ns"
    and ok: "list_all (\<lambda>np. props_ok (snd np)) ns"
    by (auto dest: vrf_ok_neighbors)
  have "read_each (read_neighbor (fst vd)) ns =
      (concat (map (\<lambda>np. [(fst vd, fst np, snd np)]) ns), None)"
    using ok by (intro read_each_total) (simp add: list_all_iff read_neighbor_ok)
  with ns show ?thesis
    by (simp add: read_vrf_def vrf_entries_def)
qed

lemma read_vrf_raises: "snd (read_vrf vd) = Some e \<Longrightarrow> method_error e"
  by (cases "neighbors (snd vd)")
    (auto simp: read_vrf_def dest: neighbors_raises read_each_raises read_neighbor_raises)

lemma prefix_read_vrf: "prefix (fst (read_vrf vd)) (vrf_entries vd)"
proof (cases "neighbors (snd vd)")
  case (Inl e)
  then show ?thesis by (simp add: read_vrf_def)
next
  case (Inr ns)
  have "prefix (fst (read_each (read_neighbor (fst vd)) ns))
      (concat (map (\<lambda>np. [(fst vd, fst np, snd np)]) ns))"
    by (rule prefix_read_each)
      (auto simp: read_neighbor_returns_iff read_neighbor_ok read_neighbor_def read_then_def
        split: sum.splits)
  with Inr show ?thesis
    by (simp add: read_vrf_def vrf_entries_def)
qed

lemma read_snapshot_returns_iff: "snd (read_snapshot bgp_info) = None \<longleftrightarrow> snapshot_ok bgp_info"
  by (cases "vrfs_dict bgp_info")
    (simp_all add: read_snapshot_def snapshot_ok_def read_each_returns_iff read_vrf_returns_iff)

lemma read_snapshot_ok:
  assumes "snapshot_ok bgp_info"
  shows "read_snapshot bgp_info = (entries bgp_info, None)"
proof -
  from assms obtain vs where vs: "vrfs_dict bgp_info = Inr vs"
    and ok: "list_all (\<lambda>vd. vrf_ok (snd vd)) vs"
    by (auto dest: snapshot_ok_vrfs)
  have "read_each read_vrf vs = (concat (map vrf_entries vs), None)"
    using ok by (intro read_each_total) (simp add: list_all_iff read_vrf_ok)
  with vs show ?thesis
    by (simp add: read_snapshot_def entries_def)
qed

lemma read_snapshot_raises: "snd (read_snapshot bgp_info) = Some e \<Longrightarrow> method_error e"
  by (cases "vrfs_dict bgp_info")
    (auto simp: read_snapshot_def dest: vrfs_dict_raises read_each_raises read_vrf_raises)

lemma prefix_read_snapshot: "prefix (fst (read_snapshot bgp_info)) (entries bgp_info)"
  by (cases "vrfs_dict bgp_info")
    (auto simp: read_snapshot_def entries_def read_vrf_returns_iff read_vrf_ok
      intro!: prefix_read_each prefix_read_vrf)

text \<open>Whatever is read is a neighbour of the snapshot whose properties can be read.\<close>

lemma read_snapshot_props_ok:
  assumes "e \<in> set (fst (read_snapshot bgp_info))"
  shows "props_ok (snd (snd e))"
proof -
  from assms obtain vd where "e \<in> set (fst (read_vrf vd))"
    by (cases "vrfs_dict bgp_info") (auto simp: read_snapshot_def dest: read_each_subset)
  then obtain np where "e \<in> set (fst (read_neighbor (fst vd) np))"
    by (cases "neighbors (snd vd)") (auto simp: read_vrf_def dest: read_each_subset)
  then show ?thesis
    by (cases "session_state (snd np)") (simp_all add: read_neighbor_def props_ok_def)
qed

lemma read_snapshot_entries:
  "e \<in> set (fst (read_snapshot bgp_info)) \<Longrightarrow> e \<in> set (entries bgp_info)"
  using set_mono_prefix [OF prefix_read_snapshot] by auto

text \<open>The neighbours of a well-formed snapshot have well-formed properties.\<close>

lemma wf_pyval_get_items:
  assumes "wf_pyval x" and "py_get x k (PDict []) = Inr y" and "py_items y = Inr kvs"
  shows "list_all (\<lambda>kv. wf_pyval (snd kv)) kvs"
proof -
  have "wf_pyval y"
    by (rule wf_pyval_py_get [OF assms(1) _ assms(2)]) simp
  then show ?thesis
    using assms(3) by (rule wf_pyval_py_items)
qed

lemma wf_pyval_neighbors:
  assumes "wf_pyval vrf_data" and "neighbors vrf_data = Inr ns"
  shows "list_all (\<lambda>np. wf_pyval (snd np)) ns"
proof -
  from assms(2) obtain x where "py_get vrf_data ''neighbor'' (PDict []) = Inr x"
    and "py_items x = Inr ns"
    by (auto simp: neighbors_def ebind_eq_Inr_iff)
  with assms(1) show ?thesis
    by (rule wf_pyval_get_items)
qed

lemma wf_pyval_vrfs_dict:
  assumes "wf_pyval bgp_info" and "vrfs_dict bgp_info = Inr vs"
  shows "list_all (\<lambda>vd. wf_pyval (snd vd)) vs"
proof -
  from assms(2) obtain i d v where i: "py_get bgp_info ''instance'' (PDict []) = Inr i"
    and d: "py_get i ''default'' (PDict []) = Inr d" and v: "py_get d ''vrf'' (PDict []) = Inr v"
    and vs: "py_items v = Inr vs"
    by (auto simp: vrfs_dict_def ebind_eq_Inr_iff)
  have "wf_pyval i"
    by (rule wf_pyval_py_get [OF assms(1) _ i]) simp
  then have "wf_pyval d"
    by (rule wf_pyval_py_get [OF _ _ d]) simp
  then show ?thesis
    using v vs by (rule wf_pyval_get_items)
qed

lemma wf_pyval_entries:
  assumes "wf_pyval bgp_info" and "e \<in> set (entries bgp_info)"
  shows "wf_pyval (snd (snd e))"
proof (cases "vrfs_dict bgp_info")
  case (Inl x)
  with assms(2) show ?thesis
    by (simp add: entries_def)
next
  case (Inr vs)
  with assms(2) obtain vd where vd: "vd \<in> set vs" "e \<in> set (vrf_entries vd)"
    by (auto simp: entries_def)
  from wf_pyval_vrfs_dict [OF assms(1) Inr] vd(1) have wf: "wf_pyval (snd vd)"
    by (simp add: list_all_iff)
  show ?thesis
  proof (cases "neighbors (snd vd)")
    case (Inl x)
    with vd(2) show ?thesis
      by (simp add: vrf_entries_def)
  next
    case (Inr ns)
    with vd(2) obtain np where "np \<in> set ns" "snd (snd e) = snd np"
      by (auto simp: vrf_entries_def)
    with wf_pyval_neighbors [OF wf Inr] show ?thesis
      by (simp add: list_all_iff)
  qed
qed

section \<open>The verdict on the raw properties, and absent levels\<close>

text \<open>
  C32. A neighbour gets the verdict \<open>Passed\<close> exactly when its properties are a
  dictionary whose \<open>session_state\<close> is a string that spells \<open>established\<close>, each
  letter in either case: the comparison ignores case and accepts nothing else.
\<close>

theorem passed_iff_established:
  "(\<exists>state. session_state props = Inr state \<and> result state = ''Passed'') \<longleftrightarrow>
   (\<exists>d st. props = PDict d \<and> map_of d ''session_state'' = Some (PStr st) \<and>
      list_all2 (\<lambda>c l. c = l \<or> c = upper_char l) st ''established'')"
proof -
  have letters: "list_all (\<lambda>l. l \<in> set ascii_lowercase) ''established''"
    by (simp add: case_tables)
  show ?thesis
  proof (cases props)
    case (PDict d)
    show ?thesis
    proof (cases "map_of d ''session_state''")
      case None
      with PDict show ?thesis by simp
    next
      case (Some v)
      with PDict show ?thesis
        by (cases v)
          (simp_all add: session_state_present session_state_not_str
            str_lower_eq_letters [OF letters, symmetric] del: list_all2_Cons1 list_all2_Cons2 list_all2_Cons)
    qed
  qed (simp_all add: session_state_not_dict)
qed

theorem passed_iff_established_witness:
  "(\<exists>state. session_state (PDict [(''session_state'', PStr ''ESTABLISHED'')]) = Inr state \<and> result state = ''Passed'') \<and>
   (\<exists>state. session_state (PDict [(''session_state'', PStr ''Established'')]) = Inr state \<and> result state = ''Passed'') \<and>
   \<not> (\<exists>state. session_state (PDict [(''session_state'', PStr ''idle'')]) = Inr state \<and> result state = ''Passed'') \<and>
   \<not> (\<exists>state. session_state (PDict [(''session_state'', PStr [])]) = Inr state \<and> result state = ''Passed'')"
  using passed_iff_established [of "PDict [(''session_state'', PStr ''ESTABLISHED'')]"]
    passed_iff_established [of "PDict [(''session_state'', PStr ''Established'')]"]
    passed_iff_established [of "PDict [(''session_state'', PStr ''idle'')]"]
    passed_iff_established [of "PDict [(''session_state'', PStr [])]"]
  by (simp add: bgp_eval)

text \<open>
  C33. A snapshot in which \<open>instance\<close>, \<open>default\<close> under it, \<open>vrf\<close> under that, or
  \<open>neighbor\<close> in every VRF is absent is read without an exception and has no neighbour.
\<close>

theorem absent_levels_no_entries:
  assumes "map_of d ''instance'' = None \<or>
     map_of d ''instance'' = Some (PDict i) \<and>
       (map_of i ''default'' = None \<or>
        map_of i ''default'' = Some (PDict f) \<and>
          (map_of f ''vrf'' = None \<or>
           map_of f ''vrf'' = Some (PDict vs) \<and>
             list_all (\<lambda>vd. \<exists>v. snd vd = PDict v \<and> map_of v ''neighbor'' = None) vs))"
  shows "snapshot_ok (PDict d) \<and> entries (PDict d) = []"
proof -
  have vrf: "vrf_ok (PDict v)" "vrf_entries (vrf_name, PDict v) = []"
    if "map_of v ''neighbor'' = None" for v vrf_name
    using that by (simp_all add: vrf_ok_def vrf_entries_def)
  from assms show ?thesis
    by (fastforce simp: snapshot_ok_def entries_def vrfs_dict_def dict_get_def list_all_iff vrf)
qed

theorem absent_levels_no_entries_witness:
  "entries (PDict [(''instance'', PDict [(''default'', PDict [(''vrf'', PDict [(''red'', PDict [])])])])]) = [] \<and>
   entries (PDict [(''instance'', PDict [(''default'', PDict [])])]) = [] \<and>
   entries (PDict [(''instance'', PDict [])]) = [] \<and>
   snapshot_ok (PDict [(''instance'', PDict [(''default'', PDict [(''vrf'', PDict [(''red'', PDict [])])])])])"
  using absent_levels_no_entries [of "[(''instance'', PDict [(''default'', PDict [(''vrf'', PDict [(''red'', PDict [])])])])]"
      "[(''default'', PDict [(''vrf'', PDict [(''red'', PDict [])])])]" "[(''vrf'', PDict [(''red'', PDict [])])]"
      "[(''red'', PDict [])]"]
    absent_levels_no_entries [of "[(''instance'', PDict [(''default'', PDict [])])]" "[(''default'', PDict [])]" "[]"]
    absent_levels_no_entries [of "[(''instance'', PDict [])]" "[]"]
  by simp

end
