(* ===== verification/Scenarios.thy ===== *)
theory Scenarios
  imports Snapshot
begin

text \<open>
  Concrete snapshots: the scenarios of the specification (an established neighbour, an
  idle one, a snapshot without the expected keys) and two more that the theorems need
  (one address failing in two VRFs, a state that is not a string). \<open>snapshot\<close> builds a
  snapshot of the shape Genie returns from the neighbours of each VRF, and the lemmas
  compute what the accessors of the code read from it.
\<close>

section \<open>Building snapshots\<close>

definition peer :: "string \<Rightarrow> pyval" where
  "peer st = PDict [(''session_state'', PStr st), (''remote_as'', PInt 65000)]"

definition vrf_of :: "string \<times> (string, pyval) dict \<Rightarrow> string \<times> pyval" where
  "vrf_of vn = (fst vn, PDict [(''neighbor'', PDict (snd vn))])"

definition snapshot :: "(string, (string, pyval) dict) dict \<Rightarrow> pyval" where
  "snapshot vrfs =
     PDict [(''instance'', PDict [(''default'', PDict [(''vrf'', PDict (map vrf_of vrfs))])])]"

definition flat :: "(string, (string, pyval) dict) dict \<Rightarrow> (string \<times> string \<times> pyval) list" where
  "flat vrfs = concat (map (\<lambda>vn. map (\<lambda>np. (fst vn, fst np, snd np)) (snd vn)) vrfs)"

section \<open>The scenarios\<close>

definition r1_established :: pyval where
  "r1_established = snapshot [(''default'', [(''10.0.0.1'', peer ''Established'')])]"

definition r1_idle :: pyval where
  "r1_idle = snapshot [(''default'', [(''10.0.0.2'', peer ''Idle'')])]"

definition r1_mixed :: pyval where
  "r1_mixed = snapshot [(''default'',
     [(''10.0.0.1'', peer ''ESTABLISHED''), (''10.0.0.2'', peer ''Idle''),
      (''10.0.0.3'', PDict [])])]"

definition two_vrfs :: pyval where
  "two_vrfs = snapshot
     [(''red'', [(''10.0.0.9'', peer ''Idle'')]), (''blue'', [(''10.0.0.9'', peer ''Active'')])]"

definition no_keys :: pyval where
  "no_keys = PDict [(''routes'', PInt 0)]"

definition bad_state :: pyval where
  "bad_state = snapshot [(''default'', [(''10.0.0.1'', PDict [(''session_state'', PNone)])])]"

definition half_read :: pyval where
  "half_read = snapshot [(''default'',
     [(''10.0.0.5'', peer ''Idle''), (''10.0.0.6'', PDict [(''session_state'', PNone)]),
      (''10.0.0.7'', peer ''Established'')])]"

definition scenario_a :: "(string, pyval) dict" where
  "scenario_a = [(''R1'', r1_established)]"

definition scenario_b :: "(string, pyval) dict" where
  "scenario_b = [(''R1'', r1_idle)]"

definition scenario_c :: "(string, pyval) dict" where
  "scenario_c = [(''R1'', r1_established), (''R2'', r1_idle)]"

definition scenario_d :: "(string, pyval) dict" where
  "scenario_d = [(''R1'', no_keys)]"

lemmas fixture_defs = r1_established_def r1_idle_def r1_mixed_def two_vrfs_def bad_state_def
  half_read_def

lemmas scenario_defs [bgp_eval] = scenario_a_def scenario_b_def scenario_c_def scenario_d_def

section \<open>What the code reads from them\<close>

lemma session_state_peer [simp]: "session_state (peer st) = Inr (str_lower st)"
  by (simp add: peer_def session_state_present)

lemma props_ok_peer [simp]: "props_ok (peer st)"
  by (simp add: props_ok_def)

lemma state_of_peer [simp]: "state_of (peer st) = str_lower st"
  by (simp add: state_of_def)

lemma session_state_empty [simp]: "session_state (PDict []) = Inr ''unknown''"
  by simp

lemma props_ok_empty [simp]: "props_ok (PDict [])"
  by (simp add: props_ok_def)

lemma state_of_empty [simp]: "state_of (PDict []) = ''unknown''"
  by (simp add: state_of_def)

lemma neighbors_vrf_of [simp]: "neighbors (snd (vrf_of vn)) = Inr (snd vn)"
  by (simp add: vrf_of_def neighbors_present)

lemma vrf_entries_vrf_of [simp]:
  "vrf_entries (vrf_of vn) = map (\<lambda>np. (fst vn, fst np, snd np)) (snd vn)"
  by (simp add: vrf_entries_def) (simp add: vrf_of_def)

lemma vrfs_dict_snapshot [simp]: "vrfs_dict (snapshot vrfs) = Inr (map vrf_of vrfs)"
  by (simp add: snapshot_def vrfs_dict_path)

lemma entries_snapshot [simp]: "entries (snapshot vrfs) = flat vrfs"
  by (simp add: entries_def flat_def comp_def)

lemma snapshot_ok_snapshot [simp]:
  "snapshot_ok (snapshot vrfs) \<longleftrightarrow> list_all (\<lambda>e. props_ok (snd (snd e))) (flat vrfs)"
  by (simp add: snapshot_ok_def vrf_ok_def flat_def list_all_iff)

lemma snapshot_ok_scenarios [simp]:
  "snapshot_ok r1_established" "snapshot_ok r1_idle" "snapshot_ok r1_mixed"
  "snapshot_ok two_vrfs" "snapshot_ok no_keys"
  by (simp_all add: fixture_defs flat_def) (simp add: no_keys_def snapshot_ok_def)

lemma wf_pyval_scenarios [simp]:
  "wf_pyval r1_established" "wf_pyval r1_idle" "wf_pyval r1_mixed" "wf_pyval two_vrfs"
  "wf_pyval no_keys" "wf_pyval bad_state" "wf_pyval half_read"
  by (simp_all add: fixture_defs no_keys_def snapshot_def vrf_of_def peer_def)

lemma not_snapshot_ok_bad_state [simp]: "\<not> snapshot_ok bad_state"
  by (simp add: bad_state_def flat_def props_ok_iff)

lemma read_neighbor_peer [simp]:
  "read_neighbor vrf_name (nbr, peer st) = ([(vrf_name, nbr, peer st)], None)"
  by (simp add: read_neighbor_ok)

lemma read_vrf_vrf_of [simp]: "read_vrf (vrf_of vn) = read_each (read_neighbor (fst vn)) (snd vn)"
  by (simp add: read_vrf_def) (simp add: vrf_of_def)

lemma read_snapshot_snapshot [simp]:
  "read_snapshot (snapshot vrfs) = read_each (\<lambda>vn. read_each (read_neighbor (fst vn)) (snd vn)) vrfs"
  by (induction vrfs) (simp_all add: read_snapshot_def)

lemma read_half_read [simp]:
  "read_snapshot half_read =
     ([(''default'', ''10.0.0.5'', peer ''Idle'')], Some (AttributeError ''NoneType'' ''lower''))"
  by (simp add: half_read_def) (simp add: read_neighbor_def session_state_not_str)

lemma not_snapshot_ok_half_read [simp]: "\<not> snapshot_ok half_read"
  by (simp flip: read_snapshot_returns_iff)

lemma entries_scenarios [simp]:
  "entries r1_established = [(''default'', ''10.0.0.1'', peer ''Established'')]"
  "entries r1_idle = [(''default'', ''10.0.0.2'', peer ''Idle'')]"
  "entries r1_mixed = [(''default'', ''10.0.0.1'', peer ''ESTABLISHED''),
     (''default'', ''10.0.0.2'', peer ''Idle''), (''default'', ''10.0.0.3'', PDict [])]"
  "entries two_vrfs = [(''red'', ''10.0.0.9'', peer ''Idle''), (''blue'', ''10.0.0.9'', peer ''Active'')]"
  "entries no_keys = []"
  by (simp_all add: fixture_defs flat_def) (simp add: no_keys_def entries_def)

end
