(* ===== verification/Check_BGP.thy ===== *)
theory Check_BGP
  imports Failure_Index Scenarios
begin

text \<open>
  The test \<open>check_bgp\<close> of the testcase \<open>BGPNeighborsEstablished\<close>: the three nested
  loops over devices, VRFs and neighbours, one definition per loop body, and the verdict
  at the end. Each body is a statement on the state of the run: it changes
  \<open>failed_dict\<close>, \<open>results_table\<close> and the log, and it raises when a value of the
  snapshot is not of the type the code calls a method of.

  The lemmas first show that each loop body is the visit of what \<open>read_neighbor\<close>,
  \<open>read_vrf\<close> and \<open>read_snapshot\<close> read of its element; the closed forms on readable
  snapshots (\<open>visit_device\<close>, \<open>rows_of\<close>, \<open>index_of\<close>, \<open>device_logs\<close>), the
  exceptions and the state at an exception follow from that.
\<close>

section \<open>The body of the neighbour loop\<close>

definition table_row :: "string \<Rightarrow> string \<Rightarrow> string \<Rightarrow> row" where
  "table_row vrf_name nbr state = [vrf_name, nbr, str_capitalize state, result state]"

definition check_neighbor :: "string \<Rightarrow> string \<Rightarrow> string \<times> pyval \<Rightarrow> (script, exn) stmt" where
  "check_neighbor device vrf_name np =
     (case np of (nbr, props) \<Rightarrow>
        eval_then (session_state props) (\<lambda>state s.
          let s1 = (if result state = ''Failed''
                    then s\<lparr>failed_dict := record_failure device nbr props (failed_dict s)\<rparr>
                    else s)
          in (s1\<lparr>results_table := results_table s1 @ [table_row vrf_name nbr state]\<rparr>, None)))"

section \<open>The VRF loop and the device loop\<close>

definition check_vrf :: "string \<Rightarrow> string \<times> pyval \<Rightarrow> (script, exn) stmt" where
  "check_vrf device vd =
     (case vd of (vrf_name, vrf_data) \<Rightarrow>
        eval_then (neighbors vrf_data) (for_each (check_neighbor device vrf_name)))"

definition headers :: "string list" where
  "headers = [''VRF'', ''Peer'', ''State'', ''Result'']"

definition log_device :: "string \<Rightarrow> script \<Rightarrow> script" where
  "log_device device s =
     log_info (Tabulate (results_table s) headers)
       (log_info (Info (''Device '' @ device @ '' BGP Neighbors:'' @ [CHR 0x0A])) s)"

definition check_device :: "string \<times> pyval \<Rightarrow> (script, exn) stmt" where
  "check_device db =
     (case db of (device, bgp_info) \<Rightarrow>
        eval_then (vrfs_dict bgp_info) (\<lambda>vrfs.
          seq (for_each (check_vrf device) vrfs) (\<lambda>s. (log_device device s, None))))"

section \<open>The test\<close>

definition check_bgp :: "(script, exn) stmt" where
  "check_bgp s =
     (let s0 = s\<lparr>failed_dict := [], results_table := []\<rparr> in
      case all_bgp_sessions s0 of
        None \<Rightarrow> (s0, Some (AttributeError ''BGPNeighborsEstablished'' ''all_bgp_sessions''))
      | Some sessions \<Rightarrow>
          seq (for_each check_device sessions)
            (\<lambda>s. if failed_dict s \<noteq> []
                 then (log_info (Error_json (failed_dict s)) s,
                       Some (Failed_signal ''Some BGP neighbors are not established.'' []))
                 else (s, Some (Passed_signal ''All BGP neighbors are established.'')))
            s0)"

section \<open>The loops without exceptions\<close>

text \<open>
  On a neighbour whose properties the code can read, the body of the inner loop is the
  function \<open>visit\<close>: it adds the row of the neighbour and, when the neighbour fails,
  its entry in \<open>failed_dict\<close>.
\<close>

definition row_of :: "string \<times> string \<times> pyval \<Rightarrow> row" where
  "row_of e = (case e of (vrf_name, nbr, props) \<Rightarrow> table_row vrf_name nbr (state_of props))"

definition visit :: "string \<Rightarrow> string \<times> string \<times> pyval \<Rightarrow> script \<Rightarrow> script" where
  "visit device e s =
     s\<lparr>failed_dict :=
         (if failing e then record_failure device (fst (snd e)) (snd (snd e)) (failed_dict s)
          else failed_dict s),
       results_table := results_table s @ [row_of e]\<rparr>"

text \<open>
  The same for a device and for the whole dictionary of snapshots: \<open>visit_device\<close>
  visits the neighbours of a snapshot and logs the table; \<open>rows_of\<close>, \<open>index_of\<close> and
  \<open>device_logs\<close> are the table, the failures and the log that the device loop leaves.
\<close>

definition fails :: "(string \<times> string \<times> pyval) list \<Rightarrow> (string \<times> pyval) list" where
  "fails es = map snd (filter failing es)"

definition visit_device :: "string \<times> pyval \<Rightarrow> script \<Rightarrow> script" where
  "visit_device db s = log_device (fst db) (fold (visit (fst db)) (entries (snd db)) s)"

definition sessions_ok :: "(string, pyval) dict \<Rightarrow> bool" where
  "sessions_ok sessions = list_all (\<lambda>db. snapshot_ok (snd db)) sessions"

definition rows_of :: "(string, pyval) dict \<Rightarrow> row list" where
  "rows_of sessions = concat (map (\<lambda>db. map row_of (entries (snd db))) sessions)"

definition index_of :: "(string, pyval) dict \<Rightarrow> failures \<Rightarrow> failures" where
  "index_of sessions fd = fold (\<lambda>db. record_all (fst db) (fails (entries (snd db)))) sessions fd"

fun device_logs :: "row list \<Rightarrow> (string, pyval) dict \<Rightarrow> log_event list" where
  "device_logs acc [] = []"
| "device_logs acc (db # rest) =
     [Info (''Device '' @ fst db @ '' BGP Neighbors:'' @ [CHR 0x0A]),
      Tabulate (acc @ map row_of (entries (snd db))) headers]
     @ device_logs (acc @ map row_of (entries (snd db))) rest"

text \<open>
  What holds of the table and the dictionary at every point of the loops, also when
  one of them stops at an exception: every row is well formed (\<open>row_ok\<close>) and the
  dictionary satisfies \<open>fd_inv\<close>.
\<close>

definition row_ok :: "row \<Rightarrow> bool" where
  "row_ok r =
     (case r of
        [vrf_name, nbr, state, res] \<Rightarrow>
          (res = ''Passed'' \<and> state = ''Established'') \<or>
          (res = ''Failed'' \<and> state \<noteq> ''Established'')
      | _ \<Rightarrow> False)"

definition table_inv :: "script \<Rightarrow> bool" where
  "table_inv s = (fd_inv (failed_dict s) \<and> list_all row_ok (results_table s))"

text \<open>Two states with the same table and the same dictionary of failures.\<close>

definition same_tables :: "script \<Rightarrow> script \<Rightarrow> bool" where
  "same_tables s t = (failed_dict s = failed_dict t \<and> results_table s = results_table t)"

definition failed_rows :: "row list \<Rightarrow> row list" where
  "failed_rows rows = filter (\<lambda>r. last r = ''Failed'') rows"

text \<open>The state in which \<open>check_bgp\<close> starts when \<open>learn_bgp\<close> has stored these snapshots.\<close>

definition with_sessions :: "(string, pyval) dict \<Rightarrow> script" where
  "with_sessions sessions = start\<lparr>all_bgp_sessions := Some sessions\<rparr>"

lemmas check_defs [bgp_defs] =
  table_row_def check_neighbor_def check_vrf_def headers_def
  log_device_def check_device_def check_bgp_def

lemmas check_eval [bgp_eval] = result_def table_row_def rows_of_def

section \<open>Each loop is the visit of what is read\<close>

text \<open>
  The body of each loop visits the reading of its element: it leaves the state after
  the neighbours that \<open>read_neighbor\<close>, \<open>read_vrf\<close> and \<open>read_snapshot\<close> get to, and
  ends with the exception at which the reading stops. What the loops do on the snapshots
  they can read and when they raise follows from the readings.
\<close>

lemma check_neighbor_ok:
  "props_ok props \<Longrightarrow>
     check_neighbor device vrf_name (nbr, props) s = (visit device (vrf_name, nbr, props) s, None)"
  by (simp add: check_neighbor_def props_ok_state visit_def row_of_def failing_def Let_def)

lemma visits_check_neighbor:
  "visits (visit device) (read_neighbor vrf_name np) (check_neighbor device vrf_name np)"
proof (cases "session_state (snd np)")
  case (Inl e)
  then show ?thesis
    by (cases np) (simp add: visits_def check_neighbor_def read_neighbor_def)
next
  case (Inr state)
  then have "props_ok (snd np)"
    by (simp add: props_ok_def)
  then show ?thesis
    using check_neighbor_ok [of "snd np" device vrf_name "fst np"]
    by (simp add: visits_def read_neighbor_ok)
qed

lemma visits_check_vrf: "visits (visit device) (read_vrf vd) (check_vrf device vd)"
  by (cases vd)
    (simp add: check_vrf_def read_vrf_def visits_eval_then visits_for_each visits_check_neighbor)

lemma check_device_reads:
  "check_device db s =
     (case read_snapshot (snd db) of
        (es, None) \<Rightarrow> (log_device (fst db) (fold (visit (fst db)) es s), None)
      | (es, Some e) \<Rightarrow> (fold (visit (fst db)) es s, Some e))"
proof (cases "vrfs_dict (snd db)")
  case (Inl e)
  then show ?thesis
    by (cases db) (simp add: check_device_def read_snapshot_def)
next
  case (Inr vs)
  have "for_each (check_vrf (fst db)) vs s =
      (fold (visit (fst db)) (fst (read_each read_vrf vs)) s, snd (read_each read_vrf vs))"
    by (intro visitsD visits_for_each visits_check_vrf)
  with Inr show ?thesis
    by (cases db) (simp add: check_device_def read_snapshot_def seq_unfold split: prod.splits option.splits)
qed

lemma check_device_ok:
  "snapshot_ok (snd db) \<Longrightarrow>
     check_device db s = (log_device (fst db) (fold (visit (fst db)) (entries (snd db)) s), None)"
  by (simp add: check_device_reads read_snapshot_ok)

lemma check_device_stops:
  "read_snapshot (snd db) = (es, Some e) \<Longrightarrow>
     check_device db s = (fold (visit (fst db)) es s, Some e)"
  by (simp add: check_device_reads)

section \<open>The state each loop leaves\<close>

lemma visit_fields [simp]:
  "results_table (visit device e s) = results_table s @ [row_of e]"
  "failed_dict (visit device e s) =
     (if failing e then record_failure device (fst (snd e)) (snd (snd e)) (failed_dict s)
      else failed_dict s)"
  "log (visit device e s) = log s"
  "testbed (visit device e s) = testbed s"
  "devices (visit device e s) = devices s"
  "all_bgp_sessions (visit device e s) = all_bgp_sessions s"
  "device_list (visit device e s) = device_list s"
  by (simp_all add: visit_def)

lemma fold_visit_fields [simp]:
  "results_table (fold (visit device) es s) = results_table s @ map row_of es"
  "failed_dict (fold (visit device) es s) = record_all device (fails es) (failed_dict s)"
  "log (fold (visit device) es s) = log s"
  "testbed (fold (visit device) es s) = testbed s"
  "devices (fold (visit device) es s) = devices s"
  "all_bgp_sessions (fold (visit device) es s) = all_bgp_sessions s"
  "device_list (fold (visit device) es s) = device_list s"
  by (induction es arbitrary: s) (simp_all add: fails_def)

lemma log_device_fields [simp]:
  "results_table (log_device device s) = results_table s"
  "failed_dict (log_device device s) = failed_dict s"
  "log (log_device device s) =
     log s @ [Info (''Device '' @ device @ '' BGP Neighbors:'' @ [CHR 0x0A]),
              Tabulate (results_table s) headers]"
  "testbed (log_device device s) = testbed s"
  "devices (log_device device s) = devices s"
  "all_bgp_sessions (log_device device s) = all_bgp_sessions s"
  "device_list (log_device device s) = device_list s"
  by (simp_all add: log_device_def)

lemma visit_device_fields [simp]:
  "results_table (visit_device db s) = results_table s @ map row_of (entries (snd db))"
  "failed_dict (visit_device db s) = record_all (fst db) (fails (entries (snd db))) (failed_dict s)"
  "log (visit_device db s) =
     log s @ [Info (''Device '' @ fst db @ '' BGP Neighbors:'' @ [CHR 0x0A]),
              Tabulate (results_table s @ map row_of (entries (snd db))) headers]"
  "testbed (visit_device db s) = testbed s"
  "devices (visit_device db s) = devices s"
  "all_bgp_sessions (visit_device db s) = all_bgp_sessions s"
  "device_list (visit_device db s) = device_list s"
  by (simp_all add: visit_device_def)

lemma fold_visit_device_fields [simp]:
  "results_table (fold visit_device sessions s) = results_table s @ rows_of sessions"
  "failed_dict (fold visit_device sessions s) = index_of sessions (failed_dict s)"
  "log (fold visit_device sessions s) = log s @ device_logs (results_table s) sessions"
  "testbed (fold visit_device sessions s) = testbed s"
  "devices (fold visit_device sessions s) = devices s"
  "all_bgp_sessions (fold visit_device sessions s) = all_bgp_sessions s"
  "device_list (fold visit_device sessions s) = device_list s"
  by (induction sessions arbitrary: s) (simp_all add: rows_of_def index_of_def)

lemma for_each_check_device_ok:
  "sessions_ok sessions \<Longrightarrow> for_each check_device sessions s = (fold visit_device sessions s, None)"
  unfolding sessions_ok_def visit_device_def
  by (intro for_each_total) (auto simp: list_all_iff check_device_ok)

lemma check_bgp_ok:
  assumes "all_bgp_sessions s = Some sessions" and "sessions_ok sessions"
  shows "check_bgp s =
    (let s1 = fold visit_device sessions (s\<lparr>failed_dict := [], results_table := []\<rparr>)
     in if failed_dict s1 \<noteq> []
        then (log_info (Error_json (failed_dict s1)) s1,
              Some (Failed_signal ''Some BGP neighbors are not established.'' []))
        else (s1, Some (Passed_signal ''All BGP neighbors are established.'')))"
  using assms by (simp add: check_bgp_def for_each_check_device_ok Let_def)

lemma index_of_Nil [simp]: "index_of [] fd = fd"
  by (simp add: index_of_def)

lemma index_of_Cons [simp]:
  "index_of (db # sessions) fd = index_of sessions (record_all (fst db) (fails (entries (snd db))) fd)"
  by (simp add: index_of_def)

lemma dom_index_of:
  "fst ` set (index_of sessions fd) =
     fst ` set fd \<union> {fst db | db. db \<in> set sessions \<and> fails (entries (snd db)) \<noteq> []}"
  by (induction sessions arbitrary: fd) (auto simp: dom_record_all)

lemma index_of_eq_Nil:
  "index_of sessions fd = [] \<longleftrightarrow> fd = [] \<and> list_all (\<lambda>db. fails (entries (snd db)) = []) sessions"
  by (induction sessions arbitrary: fd) auto

lemma fd_inv_index_of [simp]: "fd_inv fd \<Longrightarrow> fd_inv (index_of sessions fd)"
  by (induction sessions arbitrary: fd) auto

lemma fd_lookup_index_of:
  "wf_dict sessions \<Longrightarrow>
     fd_lookup (index_of sessions fd) d n =
       (case map_of sessions d of
          None \<Rightarrow> fd_lookup fd d n
        | Some info \<Rightarrow>
            (case map_of (rev (fails (entries info))) n of
               None \<Rightarrow> fd_lookup fd d n
             | Some props \<Rightarrow> Some props))"
proof (induction sessions arbitrary: fd)
  case Nil
  then show ?case by simp
next
  case (Cons db sessions)
  obtain d0 i0 where db: "db = (d0, i0)" by (cases db)
  with Cons.prems have wf: "wf_dict sessions" and new: "map_of sessions d0 = None"
    by (auto simp: map_of_eq_None_iff)
  show ?case
    using Cons.IH [OF wf] db new
    by (auto simp: fd_lookup_record_all split: option.splits)
qed

lemma failing_iff: "failing e \<longleftrightarrow> state_of (snd (snd e)) \<noteq> ''established''"
  by (simp add: failing_def)

lemma fails_eq_Nil: "fails es = [] \<longleftrightarrow> list_all (\<lambda>e. state_of (snd (snd e)) = ''established'') es"
  by (simp add: fails_def filter_empty_conv list_all_iff failing_iff)

lemma index_of_empty_iff:
  "index_of sessions [] = [] \<longleftrightarrow>
     list_all (\<lambda>db. list_all (\<lambda>e. state_of (snd (snd e)) = ''established'') (entries (snd db))) sessions"
  by (simp add: index_of_eq_Nil fails_eq_Nil)

lemma with_sessions_fields [simp]:
  "all_bgp_sessions (with_sessions sessions) = Some sessions"
  "log (with_sessions sessions) = []"
  by (simp_all add: with_sessions_def start_def)

lemma sessions_ok_simps [simp]:
  "sessions_ok []"
  "sessions_ok (db # sessions) \<longleftrightarrow> snapshot_ok (snd db) \<and> sessions_ok sessions"
  by (simp_all add: sessions_ok_def)

lemma row_of_peer [simp]:
  "row_of (vrf_name, nbr, peer st) = table_row vrf_name nbr (str_lower st)"
  by (simp add: row_of_def)

section \<open>Where the test stops\<close>

text \<open>Either every snapshot can be read, or the reading of a first one stops.\<close>

lemma sessions_cases:
  obtains (whole) "sessions_ok sessions"
  | (stops) pre db post es e where "sessions = pre @ db # post" "sessions_ok pre"
      "read_snapshot (snd db) = (es, Some e)"
proof (cases "\<lambda>db :: string \<times> pyval. snapshot_ok (snd db)" sessions
    rule: first_failure_cases)
  case all
  then show ?thesis
    by (intro whole) (simp add: sessions_ok_def)
next
  case (first pre db post)
  then obtain es e where "read_snapshot (snd db) = (es, Some e)"
    by (cases "read_snapshot (snd db)") (auto simp flip: read_snapshot_returns_iff)
  with first show ?thesis
    by (intro stops) (simp_all add: sessions_ok_def)
qed

lemma check_bgp_stops:
  assumes "all_bgp_sessions s = Some (pre @ db # post)" and "sessions_ok pre"
    and "read_snapshot (snd db) = (es, Some e)"
  shows "check_bgp s =
     (fold (visit (fst db)) es
        (fold visit_device pre (s\<lparr>failed_dict := [], results_table := []\<rparr>)), Some e)"
  using assms
  by (simp add: check_bgp_def for_each_append for_each_check_device_ok check_device_stops)

lemma check_bgp_raises:
  assumes "all_bgp_sessions s = Some sessions" and "\<not> sessions_ok sessions"
  shows "\<exists>e. snd (check_bgp s) = Some e \<and> method_error e"
proof (cases sessions rule: sessions_cases)
  case whole
  with assms(2) show ?thesis by simp
next
  case (stops pre db post es e)
  with assms(1) read_snapshot_raises [of "snd db" e] show ?thesis
    by (simp add: check_bgp_stops)
qed

section \<open>The failure index of a run\<close>

lemma failed_dict_check_bgp:
  assumes "all_bgp_sessions s = Some sessions" and "sessions_ok sessions"
  shows "failed_dict (fst (check_bgp s)) = index_of sessions []"
  using assms by (simp add: check_bgp_ok Let_def)

lemma snd_check_bgp:
  assumes "all_bgp_sessions s = Some sessions" and "sessions_ok sessions"
  shows "snd (check_bgp s) =
     Some (if index_of sessions [] = [] then Passed_signal ''All BGP neighbors are established.''
           else Failed_signal ''Some BGP neighbors are not established.'' [])"
  using assms by (simp add: check_bgp_ok Let_def)

lemma fails_nonempty_iff: "fails es \<noteq> [] \<longleftrightarrow> (\<exists>e \<in> set es. failing e)"
  by (auto simp: fails_def filter_empty_conv)

lemma failing_peer [simp]: "failing (vrf_name, nbr, peer st) \<longleftrightarrow> str_lower st \<noteq> ''established''"
  by (simp add: failing_def)

lemma fd_size_index_of:
  "wf_dict sessions \<Longrightarrow> fd_inv fd \<Longrightarrow> fst ` set fd \<inter> fst ` set sessions = {} \<Longrightarrow>
     fd_size (index_of sessions fd) =
       fd_size fd + (\<Sum>db\<leftarrow>sessions. length (remdups (map fst (fails (entries (snd db))))))"
proof (induction sessions arbitrary: fd)
  case Nil
  then show ?case by simp
next
  case (Cons db sessions)
  let ?fd = "record_all (fst db) (fails (entries (snd db))) fd"
  obtain d info where db: "db = (d, info)" by (cases db)
  with Cons.prems have wf: "wf_dict sessions" and new: "fst db \<notin> fst ` set fd"
    and rest: "fst db \<notin> fst ` set sessions"
    by auto
  have "fst ` set ?fd \<inter> fst ` set sessions = {}"
    using Cons.prems(3) rest by (auto simp: dom_record_all split: if_splits)
  with Cons.IH [of ?fd] wf Cons.prems(2) new show ?case
    by (simp add: fd_size_record_all_new)
qed

lemma results_table_check_bgp:
  assumes "all_bgp_sessions s = Some sessions" and "sessions_ok sessions"
  shows "results_table (fst (check_bgp s)) = rows_of sessions"
  using assms by (simp add: check_bgp_ok Let_def)

section \<open>What the loops keep\<close>

lemma capitalize_established:
  "str_lower state = state \<Longrightarrow> str_capitalize state = ''Established'' \<longleftrightarrow> state = ''established''"
proof
  assume low: "str_lower state = state" and cap: "str_capitalize state = ''Established''"
  have "str_lower (str_capitalize state) = state"
    using low by simp
  with cap show "state = ''established''"
    by (simp add: bgp_eval)
next
  assume "state = ''established''"
  then show "str_capitalize state = ''Established''"
    by (simp add: bgp_eval)
qed

lemma row_ok_table_row:
  "str_lower state = state \<Longrightarrow> row_ok (table_row vrf_name nbr state)"
  by (auto simp: row_ok_def table_row_def capitalize_established)

text \<open>
  A predicate that the body of the neighbour loop keeps and that logging keeps is kept
  by the two outer loops, also when they raise; it holds after the test when it holds of
  the state with the empty table and the empty dictionary.
\<close>

lemma check_vrf_keeps:
  assumes "\<And>vrf_name np. keeps P (check_neighbor device vrf_name np)"
  shows "keeps P (check_vrf device vd)"
  unfolding check_vrf_def
  by (cases vd) (simp, intro keeps_eval_then keeps_for_each assms)

lemma check_device_keeps:
  assumes "\<And>device vrf_name np. keeps P (check_neighbor device vrf_name np)"
    and "\<And>ev s. P s \<Longrightarrow> P (log_info ev s)"
  shows "keeps P (check_device db)"
  unfolding check_device_def log_device_def
  by (cases db)
    (simp, intro keeps_eval_then keeps_seq keeps_for_each check_vrf_keeps assms(1) keepsI,
      simp add: assms(2))

lemma check_bgp_keeps:
  assumes "\<And>device vrf_name np. keeps P (check_neighbor device vrf_name np)"
    and "\<And>ev s. P s \<Longrightarrow> P (log_info ev s)"
    and "P (s\<lparr>failed_dict := [], results_table := []\<rparr>)"
  shows "P (fst (check_bgp s))"
proof -
  let ?verdict = "\<lambda>s. if failed_dict s \<noteq> []
      then (log_info (Error_json (failed_dict s)) s,
            Some (Failed_signal ''Some BGP neighbors are not established.'' []))
      else (s, Some (Passed_signal ''All BGP neighbors are established.''))"
  have "keeps P (seq (for_each check_device sessions) ?verdict)" for sessions
    by (intro keeps_seq keeps_for_each check_device_keeps assms(1,2) keepsI)
      (auto simp: assms(2))
  with assms(3) show ?thesis
    by (auto simp: check_bgp_def Let_def dest: keepsD split: option.splits)
qed

lemma table_inv_check_neighbor: "keeps table_inv (check_neighbor device vrf_name np)"
  by (rule keepsI, cases np; cases "session_state (snd np)")
    (auto simp: check_neighbor_def table_inv_def Let_def row_ok_table_row
      dest: session_state_lowered)

lemma table_inv_check_bgp: "table_inv (fst (check_bgp s))"
  by (rule check_bgp_keeps [OF table_inv_check_neighbor])
    (simp_all add: table_inv_def)

text \<open>
  The test changes nothing but its two locals and the log: it keeps every predicate
  that ignores them.
\<close>

lemma keeps_check_neighbor:
  "ignores_locals P \<Longrightarrow> keeps P (check_neighbor device vrf_name np)"
  unfolding check_neighbor_def
  by (cases np) (simp, intro keeps_eval_then keepsI, simp add: Let_def ignores_localsD)

lemma keeps_check_bgp: "ignores_locals P \<Longrightarrow> keeps P check_bgp"
  by (rule keepsI, rule check_bgp_keeps) (simp_all add: keeps_check_neighbor ignores_localsD)

lemma check_bgp_frame [simp]:
  "all_bgp_sessions (fst (check_bgp s)) = all_bgp_sessions s"
  "devices (fst (check_bgp s)) = devices s"
  "testbed (fst (check_bgp s)) = testbed s"
  by (rule keepsD [OF keeps_check_bgp]; simp)+

text \<open>
  What the test does to its two locals, and how it ends, depends on the snapshots and on
  nothing else in the state.
\<close>

lemma agrees_check_neighbor: "agrees same_tables (check_neighbor device vrf_name np)"
  unfolding check_neighbor_def
  by (cases np) (simp, intro agrees_eval_then agreesI, simp add: Let_def same_tables_def)

lemma agrees_check_vrf: "agrees same_tables (check_vrf device vd)"
  unfolding check_vrf_def
  by (cases vd) (simp, intro agrees_eval_then agrees_for_each agrees_check_neighbor)

lemma agrees_check_device: "agrees same_tables (check_device db)"
  unfolding check_device_def log_device_def
  by (cases db)
    (simp, intro agrees_eval_then agrees_seq agrees_for_each agrees_check_vrf agreesI,
      simp add: same_tables_def)

lemma check_bgp_agrees:
  assumes "all_bgp_sessions s = all_bgp_sessions t"
  shows "same_tables (fst (check_bgp s)) (fst (check_bgp t)) \<and> snd (check_bgp s) = snd (check_bgp t)"
proof (cases "all_bgp_sessions t")
  case None
  with assms show ?thesis
    by (simp add: check_bgp_def same_tables_def)
next
  case (Some sessions)
  let ?verdict = "\<lambda>s. if failed_dict s \<noteq> []
      then (log_info (Error_json (failed_dict s)) s,
            Some (Failed_signal ''Some BGP neighbors are not established.'' []))
      else (s, Some (Passed_signal ''All BGP neighbors are established.''))"
  have "agrees same_tables (seq (for_each check_device sessions) ?verdict)"
    by (intro agrees_seq agrees_for_each agrees_check_device agreesI)
      (simp add: same_tables_def)
  moreover have "same_tables (s\<lparr>failed_dict := [], results_table := []\<rparr>)
      (t\<lparr>failed_dict := [], results_table := []\<rparr>)"
    by (simp add: same_tables_def)
  ultimately show ?thesis
    using assms Some by (auto simp: check_bgp_def Let_def dest: agreesD)
qed

section \<open>Where the values of the failure index come from\<close>

text \<open>
  Every value in \<open>failed_dict\<close> is the properties of a neighbour that was read: what
  holds of the properties of every neighbour read holds of every value stored, also
  when the test stops at an exception.
\<close>

lemma list_all_fails:
  "(\<And>e. e \<in> set es \<Longrightarrow> Q (snd (snd e))) \<Longrightarrow> list_all (\<lambda>np. Q (snd np)) (fails es)"
  by (auto simp: fails_def list_all_iff)

lemma fd_all_index_of:
  assumes "\<And>db e. db \<in> set sessions \<Longrightarrow> e \<in> set (entries (snd db)) \<Longrightarrow> Q (snd (snd e))"
    and "fd_all Q fd"
  shows "fd_all Q (index_of sessions fd)"
  using assms
proof (induction sessions arbitrary: fd)
  case Nil
  then show ?case by simp
next
  case (Cons db sessions)
  have "fd_all Q (record_all (fst db) (fails (entries (snd db))) fd)"
    by (intro fd_all_record_all list_all_fails Cons.prems) simp_all
  then have "fd_all Q (index_of sessions (record_all (fst db) (fails (entries (snd db))) fd))"
    by (rule Cons.IH [rotated]) (rule Cons.prems(1), simp_all)
  then show ?case by simp
qed

lemma fd_all_check_bgp:
  assumes "\<And>sessions db e. all_bgp_sessions s = Some sessions \<Longrightarrow> db \<in> set sessions \<Longrightarrow>
      e \<in> set (fst (read_snapshot (snd db))) \<Longrightarrow> Q (snd (snd e))"
  shows "fd_all Q (failed_dict (fst (check_bgp s)))"
proof (cases "all_bgp_sessions s")
  case None
  then show ?thesis
    by (simp add: check_bgp_def)
next
  case (Some sessions)
  have read: "Q (snd (snd e))"
    if "db \<in> set sessions" "e \<in> set (fst (read_snapshot (snd db)))" for db e
    using that by (rule assms [OF Some])
  have index: "fd_all Q (index_of ds [])" if "set ds \<subseteq> set sessions" "sessions_ok ds" for ds
  proof (rule fd_all_index_of)
    fix db e
    assume "db \<in> set ds" "e \<in> set (entries (snd db))"
    with that show "Q (snd (snd e))"
      by (intro read [of db]) (auto simp: sessions_ok_def list_all_iff read_snapshot_ok)
  qed simp
  show ?thesis
  proof (cases sessions rule: sessions_cases)
    case whole
    with Some index [of sessions] show ?thesis
      by (simp add: failed_dict_check_bgp)
  next
    case (stops pre db post es e)
    have "list_all (\<lambda>np. Q (snd np)) (fails es)"
      using stops(1,3) by (intro list_all_fails read [of db]) simp_all
    moreover from stops have "fd_all Q (index_of pre [])"
      by (intro index) auto
    ultimately have "fd_all Q (record_all (fst db) (fails es) (index_of pre []))"
      by (intro fd_all_record_all)
    with Some stops show ?thesis
      by (simp add: check_bgp_stops)
  qed
qed

section \<open>The log of a run\<close>

lemma length_device_logs [simp]: "length (device_logs acc sessions) = 2 * length sessions"
  by (induction sessions arbitrary: acc) simp_all

lemma rows_of_simps [simp]:
  "rows_of [] = []"
  "rows_of (db # sessions) = map row_of (entries (snd db)) @ rows_of sessions"
  by (simp_all add: rows_of_def)

lemma device_logs_table:
  "k < length sessions \<Longrightarrow>
     device_logs acc sessions ! Suc (2 * k) = Tabulate (acc @ rows_of (take (Suc k) sessions)) headers"
proof (induction sessions arbitrary: acc k)
  case Nil
  then show ?case by simp
next
  case (Cons db sessions)
  show ?case
  proof (cases k)
    case 0
    then show ?thesis by simp
  next
    case (Suc j)
    with Cons.prems have "j < length sessions" by simp
    from Cons.IH [OF this, of "acc @ map row_of (entries (snd db))"] Suc show ?thesis
      by simp
  qed
qed

lemma title_in_device_logs:
  "Info t \<in> set (device_logs acc sessions) \<longleftrightarrow>
     (\<exists>db \<in> set sessions. t = ''Device '' @ fst db @ '' BGP Neighbors:'' @ [CHR 0x0A])"
  by (induction sessions arbitrary: acc) auto

lemma log_check_bgp:
  assumes "all_bgp_sessions s = Some sessions" and "sessions_ok sessions"
  shows "log (fst (check_bgp s)) =
     log s @ device_logs [] sessions @
       (if index_of sessions [] = [] then [] else [Error_json (index_of sessions [])])"
  using assms by (simp add: check_bgp_ok Let_def)


section \<open>The verdict and the table\<close>

text \<open>
  C5. When every snapshot can be read, \<open>check_bgp\<close> ends with \<open>self.passed\<close> if the
  lowered session state of every neighbour of every device is \<open>established\<close>, and with
  \<open>self.failed\<close> (and no \<open>goto\<close>) otherwise: one failing neighbour fails the test, and
  no device is skipped.
\<close>

theorem check_bgp_verdict:
  assumes "all_bgp_sessions s = Some sessions" and "sessions_ok sessions"
  shows "snd (check_bgp s) =
     Some (if list_all (\<lambda>db. list_all (\<lambda>e. state_of (snd (snd e)) = ''established'')
                 (entries (snd db))) sessions
           then Passed_signal ''All BGP neighbors are established.''
           else Failed_signal ''Some BGP neighbors are not established.'' [])"
  using assms by (simp add: check_bgp_ok index_of_empty_iff Let_def)

theorem check_bgp_verdict_witness:
  "snd (check_bgp (with_sessions scenario_c)) =
     Some (Failed_signal ''Some BGP neighbors are not established.'' []) \<and>
   snd (check_bgp (with_sessions scenario_a)) =
     Some (Passed_signal ''All BGP neighbors are established.'')"
  using check_bgp_verdict [of "with_sessions scenario_c" scenario_c]
    check_bgp_verdict [of "with_sessions scenario_a" scenario_a]
  by (simp add: bgp_eval)

text \<open>
  C6. When every snapshot can be read, the table that \<open>check_bgp\<close> builds holds one row
  for every neighbour of every device, in the order of the loops (devices, then VRFs,
  then neighbours): the VRF, the address, the capitalised lowered state and the verdict.
\<close>

theorem check_bgp_rows:
  assumes "all_bgp_sessions s = Some sessions" and "sessions_ok sessions"
  shows "results_table (fst (check_bgp s)) = rows_of sessions"
  using assms by (rule results_table_check_bgp)

theorem check_bgp_rows_witness:
  "results_table (fst (check_bgp (with_sessions scenario_c))) =
     [[''default'', ''10.0.0.1'', ''Established'', ''Passed''],
      [''default'', ''10.0.0.2'', ''Idle'', ''Failed'']]"
  using check_bgp_rows [of "with_sessions scenario_c" scenario_c]
  by (simp add: bgp_eval)

section \<open>The failure index\<close>

text \<open>
  C7. When every snapshot can be read, a device is a key of \<open>failed_dict\<close> after
  \<open>check_bgp\<close> exactly when one of its neighbours failed: no device with a failure is
  missing and no device without one is listed.
\<close>

theorem failed_dict_devices:
  assumes "all_bgp_sessions s = Some sessions" and "sessions_ok sessions"
  shows "device \<in> fst ` set (failed_dict (fst (check_bgp s))) \<longleftrightarrow>
     (\<exists>info. (device, info) \<in> set sessions \<and> (\<exists>e \<in> set (entries info). failing e))"
  using assms by (force simp: failed_dict_check_bgp dom_index_of fails_nonempty_iff)

theorem failed_dict_devices_witness:
  "''R2'' \<in> fst ` set (failed_dict (fst (check_bgp (with_sessions scenario_c)))) \<and>
   ''R1'' \<notin> fst ` set (failed_dict (fst (check_bgp (with_sessions scenario_c))))"
  using failed_dict_devices [of "with_sessions scenario_c" scenario_c "''R2''"]
    failed_dict_devices [of "with_sessions scenario_c" scenario_c "''R1''"]
  by (simp add: bgp_eval)

text \<open>
  C8. When every snapshot can be read and the device names are distinct, the entry of a
  device in \<open>failed_dict\<close> maps an address to the properties of the last failing
  neighbour of the device with this address, and holds no other address: the neighbour
  set of the entry is the set of failing addresses, and the values are the raw
  properties of the snapshot.
\<close>

theorem failed_dict_neighbors:
  assumes "all_bgp_sessions s = Some sessions" and "sessions_ok sessions"
    and "wf_dict sessions" and "map_of sessions device = Some info"
  shows "fd_lookup (failed_dict (fst (check_bgp s))) device nbr =
     map_of (rev (fails (entries info))) nbr"
  using assms by (simp add: failed_dict_check_bgp fd_lookup_index_of split: option.splits)

theorem failed_dict_neighbors_witness:
  "fd_lookup (failed_dict (fst (check_bgp (with_sessions [(''R1'', r1_mixed)])))) ''R1'' ''10.0.0.2''
     = Some (peer ''Idle'') \<and>
   fd_lookup (failed_dict (fst (check_bgp (with_sessions [(''R1'', r1_mixed)])))) ''R1'' ''10.0.0.1''
     = None"
  using failed_dict_neighbors [of "with_sessions [(''R1'', r1_mixed)]" "[(''R1'', r1_mixed)]"
      "''R1''" r1_mixed "''10.0.0.2''"]
    failed_dict_neighbors [of "with_sessions [(''R1'', r1_mixed)]" "[(''R1'', r1_mixed)]"
      "''R1''" r1_mixed "''10.0.0.1''"]
  by (simp add: bgp_eval fails_def failing_def)

section \<open>Exceptions\<close>

text \<open>
  C9. \<open>check_bgp\<close> ends with an \<open>AttributeError\<close> exactly when one of the snapshots
  cannot be read, that is, when a value on the path to a session state is present and
  is not of the type whose method the code calls; on all other input it ends with one
  of its two results.
\<close>

theorem check_bgp_raises_iff:
  assumes "all_bgp_sessions s = Some sessions"
  shows "(\<exists>t a. snd (check_bgp s) = Some (AttributeError t a)) \<longleftrightarrow> \<not> sessions_ok sessions"
proof (cases "sessions_ok sessions")
  case True
  with assms show ?thesis
    by (simp add: check_bgp_ok Let_def)
next
  case False
  with assms obtain e where "snd (check_bgp s) = Some e" "method_error e"
    by (auto dest: check_bgp_raises)
  with False show ?thesis
    by (auto simp: method_error_iff)
qed

theorem check_bgp_raises_iff_witness:
  "snd (check_bgp (with_sessions [(''R1'', r1_idle), (''R2'', bad_state)])) =
     Some (AttributeError ''NoneType'' ''lower'') \<and>
   \<not> sessions_ok [(''R1'', r1_idle), (''R2'', bad_state)]"
  using check_bgp_raises_iff [of "with_sessions [(''R1'', r1_idle), (''R2'', bad_state)]"
      "[(''R1'', r1_idle), (''R2'', bad_state)]"]
  by (simp add: bgp_defs bgp_eval with_sessions_def start_def seq_def bad_state_def r1_idle_def
      snapshot_def vrf_of_def peer_def dict_get_def setdefault_def Let_def log_info_def)

section \<open>Invariants\<close>

text \<open>
  C11. Whatever the input, and also when \<open>check_bgp\<close> stops at an exception,
  \<open>failed_dict\<close> is a well-formed dictionary of well-formed dictionaries, none of them
  empty: keys are distinct at both levels and a device is listed only with a neighbour.
\<close>

theorem failed_dict_invariant: "fd_inv (failed_dict (fst (check_bgp s)))"
  using table_inv_check_bgp [of s] by (simp add: table_inv_def)

text \<open>
  C12. Whatever the input, every row of \<open>results_table\<close> has four cells, its verdict is
  \<open>Passed\<close> or \<open>Failed\<close>, and it is \<open>Passed\<close> exactly when the state cell reads
  \<open>Established\<close>.
\<close>

theorem results_table_rows_ok: "list_all row_ok (results_table (fst (check_bgp s)))"
  using table_inv_check_bgp [of s] by (simp add: table_inv_def)

section \<open>Rows against entries of the failure index\<close>

text \<open>
  C13. When every snapshot can be read and the device names are distinct, \<open>failed_dict\<close>
  holds, for each device, one neighbour for each distinct failing address. An address
  that fails in two VRFs of a device is therefore one entry and two \<open>Failed\<close> rows: the
  second failure overwrites the first.
\<close>

theorem failed_dict_size:
  assumes "all_bgp_sessions s = Some sessions" and "sessions_ok sessions" and "wf_dict sessions"
  shows "fd_size (failed_dict (fst (check_bgp s))) =
     (\<Sum>db\<leftarrow>sessions. length (remdups (map fst (fails (entries (snd db))))))"
  using assms by (simp add: failed_dict_check_bgp fd_size_index_of)

theorem failed_dict_size_witness:
  "fd_size (failed_dict (fst (check_bgp (with_sessions [(''R1'', two_vrfs)])))) = 1 \<and>
   length (failed_rows (results_table (fst (check_bgp (with_sessions [(''R1'', two_vrfs)]))))) = 2"
  using failed_dict_size [of "with_sessions [(''R1'', two_vrfs)]" "[(''R1'', two_vrfs)]"]
  by (simp add: results_table_check_bgp bgp_eval fails_def failed_rows_def)

section \<open>The log\<close>

text \<open>
  C15. When every snapshot can be read, \<open>check_bgp\<close> adds to the log, for each device
  in order, its title and a table, and after the last device the dump of
  \<open>failed_dict\<close> if and only if it is not empty; nothing else is logged.
\<close>

theorem check_bgp_log:
  assumes "all_bgp_sessions s = Some sessions" and "sessions_ok sessions"
  shows "log (fst (check_bgp s)) =
     log s @ device_logs [] sessions @
       (if failed_dict (fst (check_bgp s)) = [] then []
        else [Error_json (failed_dict (fst (check_bgp s)))])"
  using assms by (simp add: log_check_bgp failed_dict_check_bgp)

theorem check_bgp_log_witness:
  "log (fst (check_bgp (with_sessions scenario_b))) =
     [Info (''Device R1 BGP Neighbors:'' @ [CHR 0x0A]),
      Tabulate [[''default'', ''10.0.0.2'', ''Idle'', ''Failed'']] [''VRF'', ''Peer'', ''State'', ''Result''],
      Error_json [(''R1'', [(''10.0.0.2'', peer ''Idle'')])]]"
  using check_bgp_log [of "with_sessions scenario_b" scenario_b]
  by (simp add: failed_dict_check_bgp bgp_eval fails_def headers_def)

text \<open>
  C14. The table logged after a device is not the table of that device: it holds the
  rows of every device visited so far, because \<open>results_table\<close> is set once, before
  the device loop. After device number \<open>k\<close> (from 0) the logged table is the rows of the
  first \<open>k + 1\<close> devices.
\<close>

theorem logged_table_cumulative:
  assumes "all_bgp_sessions s = Some sessions" and "sessions_ok sessions"
    and "k < length sessions"
  shows "log (fst (check_bgp s)) ! (length (log s) + 2 * k + 1) =
     Tabulate (rows_of (take (Suc k) sessions)) headers"
  using assms by (simp add: log_check_bgp nth_append device_logs_table)

theorem logged_table_cumulative_witness:
  "log (fst (check_bgp (with_sessions scenario_c))) ! 3 =
     Tabulate [[''default'', ''10.0.0.1'', ''Established'', ''Passed''],
               [''default'', ''10.0.0.2'', ''Idle'', ''Failed'']]
       [''VRF'', ''Peer'', ''State'', ''Result'']"
  using logged_table_cumulative [of "with_sessions scenario_c" scenario_c 1]
  by (simp add: bgp_eval headers_def numeral_3_eq_3)

section \<open>Defaults, empty snapshots and a second run\<close>

text \<open>
  C34. A neighbour whose properties have no \<open>session_state\<close> gets the row with the state
  \<open>Unknown\<close> and the verdict \<open>Failed\<close>, and is recorded in \<open>failed_dict\<close>.
\<close>

theorem missing_state_row:
  assumes "map_of d ''session_state'' = None"
  shows "check_neighbor device vrf_name (nbr, PDict d) s =
     (s\<lparr>failed_dict := record_failure device nbr (PDict d) (failed_dict s),
        results_table := results_table s @ [[vrf_name, nbr, ''Unknown'', ''Failed'']]\<rparr>, None)"
  using assms by (simp add: check_neighbor_def table_row_def bgp_eval)

theorem missing_state_row_witness:
  "check_neighbor ''R1'' ''default'' (''10.0.0.3'', PDict []) start =
     (start\<lparr>failed_dict := [(''R1'', [(''10.0.0.3'', PDict [])])],
        results_table := [[''default'', ''10.0.0.3'', ''Unknown'', ''Failed'']]\<rparr>, None)"
  using missing_state_row [of "[]" "''R1''" "''default''" "''10.0.0.3''" start]
  by (simp add: start_def)

text \<open>
  C35. When no snapshot has a neighbour, \<open>check_bgp\<close> ends with \<open>self.passed\<close>, an empty
  \<open>failed_dict\<close> and an empty table.
\<close>

theorem zero_neighbors_pass:
  assumes "all_bgp_sessions s = Some sessions" and "sessions_ok sessions"
    and "list_all (\<lambda>db. entries (snd db) = []) sessions"
  shows "snd (check_bgp s) = Some (Passed_signal ''All BGP neighbors are established.'') \<and>
     failed_dict (fst (check_bgp s)) = [] \<and> results_table (fst (check_bgp s)) = []"
proof -
  from assms(3) have "index_of sessions [] = []" "rows_of sessions = []"
    by (simp_all add: index_of_empty_iff rows_of_def list_all_iff)
  with assms(1,2) show ?thesis
    by (simp add: snd_check_bgp failed_dict_check_bgp results_table_check_bgp)
qed

theorem zero_neighbors_pass_witness:
  "snd (check_bgp (with_sessions scenario_d)) =
     Some (Passed_signal ''All BGP neighbors are established.'') \<and>
   results_table (fst (check_bgp (with_sessions scenario_d))) = []"
  using zero_neighbors_pass [of "with_sessions scenario_d" scenario_d]
  by (simp add: scenario_d_def)

text \<open>
  C36. Running \<open>check_bgp\<close> again on the state it left gives the same result, the same
  table and the same \<open>failed_dict\<close>, on every input and also when it raises: the test
  starts from the empty table and the empty dictionary each time and does not change
  the snapshots.
\<close>

theorem check_bgp_idempotent:
  "snd (check_bgp (fst (check_bgp s))) = snd (check_bgp s) \<and>
   results_table (fst (check_bgp (fst (check_bgp s)))) = results_table (fst (check_bgp s)) \<and>
   failed_dict (fst (check_bgp (fst (check_bgp s)))) = failed_dict (fst (check_bgp s))"
  using check_bgp_agrees [of "fst (check_bgp s)" s] by (simp add: same_tables_def)

theorem check_bgp_idempotent_witness:
  "results_table (fst (check_bgp (fst (check_bgp (with_sessions scenario_c))))) =
     [[''default'', ''10.0.0.1'', ''Established'', ''Passed''],
      [''default'', ''10.0.0.2'', ''Idle'', ''Failed'']]"
  using check_bgp_idempotent [of "with_sessions scenario_c"]
  by (simp add: results_table_check_bgp bgp_eval)


section \<open>The state at an exception\<close>

text \<open>
  C16. When a snapshot cannot be read, \<open>check_bgp\<close> stops in the first such snapshot
  with the \<open>AttributeError\<close> of the call that failed. The table then holds the rows of
  the devices before it and of the neighbours of that device that \<open>read_snapshot\<close> gets
  to before that call, \<open>failed_dict\<close> the failing ones among them, and the log the
  tables of the devices before it only: the rows of the unreadable device are never
  logged, the devices after it are never looked at, and no dump of the failures is
  written.
\<close>

theorem check_bgp_stops_at_unreadable:
  assumes "all_bgp_sessions s = Some (pre @ db # post)" and "sessions_ok pre"
    and "read_snapshot (snd db) = (es, Some e)"
  shows "snd (check_bgp s) = Some e \<and> method_error e \<and>
     results_table (fst (check_bgp s)) = rows_of pre @ map row_of es \<and>
     failed_dict (fst (check_bgp s)) = record_all (fst db) (fails es) (index_of pre []) \<and>
     log (fst (check_bgp s)) = log s @ device_logs [] pre"
  using assms read_snapshot_raises [of "snd db" e]
  by (simp add: check_bgp_stops)

theorem check_bgp_stops_at_unreadable_witness:
  "snd (check_bgp (with_sessions (scenario_a @ (''R2'', half_read) # [(''R3'', r1_idle)]))) =
     Some (AttributeError ''NoneType'' ''lower'') \<and>
   results_table (fst (check_bgp (with_sessions
       (scenario_a @ (''R2'', half_read) # [(''R3'', r1_idle)])))) =
     [[''default'', ''10.0.0.1'', ''Established'', ''Passed''],
      [''default'', ''10.0.0.5'', ''Idle'', ''Failed'']] \<and>
   failed_dict (fst (check_bgp (with_sessions
       (scenario_a @ (''R2'', half_read) # [(''R3'', r1_idle)])))) =
     [(''R2'', [(''10.0.0.5'', peer ''Idle'')])] \<and>
   log (fst (check_bgp (with_sessions
       (scenario_a @ (''R2'', half_read) # [(''R3'', r1_idle)])))) =
     [Info (''Device R1 BGP Neighbors:'' @ [CHR 0x0A]),
      Tabulate [[''default'', ''10.0.0.1'', ''Established'', ''Passed'']] headers]"
  using check_bgp_stops_at_unreadable [of
      "with_sessions (scenario_a @ (''R2'', half_read) # [(''R3'', r1_idle)])"
      scenario_a "(''R2'', half_read)" "[(''R3'', r1_idle)]"
      "[(''default'', ''10.0.0.5'', peer ''Idle'')]" "AttributeError ''NoneType'' ''lower''"]
  by (simp add: scenario_a_def bgp_eval fails_def)

end
