(* ===== verification/Connect.thy ===== *)
theory Connect
  imports Harness "HOL-Library.Sublist"
begin

text \<open>
  The subsection \<open>connect\<close> of \<open>CommonSetup\<close>: the loop over the devices of the testbed
  with its \<open>try\<close> around \<open>device.connect()\<close>. A device that connects is appended to
  \<open>device_list\<close>; for one that raises, the handler calls \<open>self.failed\<close>, whose signal
  leaves the handler, the loop and the subsection, so the assignment of the parameter
  \<open>devices\<close> after the loop is not reached.

  \<open>working_set\<close> is what the specification promises instead: the devices that connect,
  in the order of the inventory, whatever the others do.
\<close>

section \<open>The subsection\<close>

definition connect_message :: "device \<Rightarrow> string \<Rightarrow> string" where
  "connect_message device e =
     ''Failed to establish connection to '' @ quoted (name device) @ '': '' @ e"

definition connect_device :: "device \<Rightarrow> (script, exn) stmt" where
  "connect_device device s =
     (let s1 = log_info (Banner (''Connecting to device '' @ quoted (name device))) s in
      case connect_result device of
        Inr _ \<Rightarrow> (s1\<lparr>device_list := device_list s1 @ [device]\<rparr>, None)
      | Inl e \<Rightarrow> (s1, Some (Failed_signal (connect_message device e) [])))"

definition connect :: "device list \<Rightarrow> (script, exn) stmt" where
  "connect tb s =
     seq (for_each connect_device tb) (\<lambda>s. (s\<lparr>devices := Some (device_list s)\<rparr>, None))
       (s\<lparr>testbed := Some tb, device_list := []\<rparr>)"

lemmas connect_defs [bgp_defs] = connect_message_def connect_device_def connect_def

section \<open>What the specification promises, and the closed form of the loop\<close>

definition connects :: "device \<Rightarrow> bool" where
  "connects device = returns (connect_result device)"

definition working_set :: "device list \<Rightarrow> device list" where
  "working_set tb = filter connects tb"

definition banners :: "device list \<Rightarrow> log_event list" where
  "banners ds = map (\<lambda>d. Banner (''Connecting to device '' @ quoted (name d))) ds"

definition connect_error :: "device \<Rightarrow> string" where
  "connect_error device = (case connect_result device of Inl e \<Rightarrow> e | Inr _ \<Rightarrow> [])"

section \<open>Two devices for the witnesses\<close>

definition reachable :: "string \<Rightarrow> device" where
  "reachable n = \<lparr>name = n, connect_result = Inr (), learn_result = Inr None\<rparr>"

definition unreachable :: "string \<Rightarrow> device" where
  "unreachable n = \<lparr>name = n, connect_result = Inl ''timeout'', learn_result = Inr None\<rparr>"

section \<open>One device\<close>

lemma connects_fixtures [simp]: "connects (reachable n)" "\<not> connects (unreachable n)"
  by (simp_all add: connects_def reachable_def unreachable_def)

lemma connect_error_unreachable [simp]: "connect_error (unreachable n) = ''timeout''"
  by (simp add: connect_error_def unreachable_def)

lemma name_fixtures [simp]: "name (reachable n) = n" "name (unreachable n) = n"
  by (simp_all add: reachable_def unreachable_def)

lemma connect_device_ok:
  "connects device \<Longrightarrow>
     connect_device device s =
       (s\<lparr>log := log s @ banners [device], device_list := device_list s @ [device]\<rparr>, None)"
  by (cases "connect_result device")
    (simp_all add: connect_device_def connects_def banners_def log_info_def Let_def)

lemma connect_device_fails:
  "\<not> connects device \<Longrightarrow>
     connect_device device s =
       (s\<lparr>log := log s @ banners [device]\<rparr>,
        Some (Failed_signal (connect_message device (connect_error device)) []))"
  by (cases "connect_result device")
    (simp_all add: connect_device_def connects_def connect_error_def banners_def log_info_def Let_def)

section \<open>The loop\<close>

lemma banners_append [simp]: "banners (ds @ ds') = banners ds @ banners ds'"
  by (simp add: banners_def)

lemma for_each_connect_ok:
  "list_all connects ds \<Longrightarrow>
     for_each connect_device ds s =
       (s\<lparr>log := log s @ banners ds, device_list := device_list s @ ds\<rparr>, None)"
proof (induction ds arbitrary: s)
  case Nil
  then show ?case by (simp add: banners_def)
next
  case (Cons d ds)
  then show ?case
    by (simp add: connect_device_ok) (simp add: banners_def)
qed

lemma for_each_connect_fails:
  assumes "list_all connects pre" and "\<not> connects d"
  shows "for_each connect_device (pre @ d # post) s =
     (s\<lparr>log := log s @ banners (pre @ [d]), device_list := device_list s @ pre\<rparr>,
      Some (Failed_signal (connect_message d (connect_error d)) []))"
  using assms
  by (simp add: for_each_append seq_def for_each_connect_ok connect_device_fails)

lemma connect_ok:
  "list_all connects tb \<Longrightarrow>
     connect tb s =
       (s\<lparr>testbed := Some tb, log := log s @ banners tb, device_list := tb, devices := Some tb\<rparr>,
        None)"
  by (simp add: connect_def for_each_connect_ok)

lemma connect_fails:
  assumes "list_all connects pre" and "\<not> connects d"
  shows "connect (pre @ d # post) s =
     (s\<lparr>testbed := Some (pre @ d # post), log := log s @ banners (pre @ [d]), device_list := pre\<rparr>,
      Some (Failed_signal (connect_message d (connect_error d)) []))"
  using assms by (simp add: connect_def for_each_connect_fails)


text \<open>The subsection on the state in which a run starts, in its two cases.\<close>

lemma connect_start:
  "list_all connects tb \<Longrightarrow>
     connect tb start =
       (start\<lparr>testbed := Some tb, log := banners tb, device_list := tb, devices := Some tb\<rparr>, None)"
  "\<not> list_all connects tb \<Longrightarrow>
     \<exists>s e. connect tb start = (s, Some (Failed_signal e [])) \<and> testbed s = Some tb \<and>
       devices s = None \<and> all_bgp_sessions s = None"
proof -
  show "connect tb start =
      (start\<lparr>testbed := Some tb, log := banners tb, device_list := tb, devices := Some tb\<rparr>, None)"
    if "list_all connects tb"
    using that by (simp add: connect_ok start_def)
  show "\<exists>s e. connect tb start = (s, Some (Failed_signal e [])) \<and> testbed s = Some tb \<and>
      devices s = None \<and> all_bgp_sessions s = None"
    if "\<not> list_all connects tb"
    using that by (cases connects tb rule: first_failure_cases) (auto simp: connect_fails start_def)
qed

section \<open>What the subsection does\<close>

text \<open>
  C19. When every device of the testbed connects, the subsection ends without a result
  signal, the parameter \<open>devices\<close> holds all the devices in the order of the inventory,
  and one banner per device was logged.
\<close>

theorem connect_all_connected:
  assumes "list_all connects tb"
  shows "snd (connect tb s) = None \<and> devices (fst (connect tb s)) = Some tb \<and>
     log (fst (connect tb s)) = log s @ banners tb"
  using assms by (simp add: connect_ok)

theorem connect_all_connected_witness:
  "snd (connect [reachable ''R1'', reachable ''R2''] start) = None \<and>
   devices (fst (connect [reachable ''R1'', reachable ''R2''] start)) =
     Some [reachable ''R1'', reachable ''R2'']"
  using connect_all_connected [of "[reachable ''R1'', reachable ''R2'']" start]
  by simp

text \<open>
  C17. The first device that fails to connect ends the subsection with the result
  \<open>Failed\<close>, whose reason names the device and carries the text of the error. The devices
  after it are never tried (no banner is logged for them) and the parameter \<open>devices\<close>
  is left as it was: line 46 is not reached.
\<close>

theorem connect_failure_ends_setup:
  assumes "tb = pre @ d # post" and "list_all connects pre" and "\<not> connects d"
  shows "snd (connect tb s) =
       Some (Failed_signal (''Failed to establish connection to '' @ quoted (name d) @ '': ''
         @ connect_error d) []) \<and>
     devices (fst (connect tb s)) = devices s \<and>
     log (fst (connect tb s)) = log s @ banners (pre @ [d])"
  using assms by (simp add: connect_fails connect_message_def)

theorem connect_failure_ends_setup_witness:
  "snd (connect [reachable ''R1'', unreachable ''R2'', reachable ''R3''] start) =
     Some (Failed_signal
       (''Failed to establish connection to '' @ quoted ''R2'' @ '': timeout'') []) \<and>
   devices (fst (connect [reachable ''R1'', unreachable ''R2'', reachable ''R3''] start)) = None \<and>
   log (fst (connect [reachable ''R1'', unreachable ''R2'', reachable ''R3''] start)) =
     banners [reachable ''R1'', unreachable ''R2'']"
  using connect_failure_ends_setup
    [of "[reachable ''R1'', unreachable ''R2'', reachable ''R3'']"
      "[reachable ''R1'']" "unreachable ''R2''" "[reachable ''R3'']" start]
  by (simp add: start_def)

text \<open>
  C18. The specification promises that the working set is the devices that connect,
  whatever the others do. Started with no parameter \<open>devices\<close>, the subsection delivers
  that working set exactly when every device connects: with one unreachable device the
  reachable ones are not handed on.
\<close>

theorem connect_meets_spec_iff:
  assumes "devices s = None"
  shows "devices (fst (connect tb s)) = Some (working_set tb) \<longleftrightarrow> list_all connects tb"
proof (cases connects tb rule: first_failure_cases)
  case all
  then have "working_set tb = tb"
    by (simp add: working_set_def list_all_iff)
  with all show ?thesis
    by (simp add: connect_ok)
next
  case (first pre d post)
  with assms show ?thesis
    by (simp add: connect_fails)
qed

theorem connect_meets_spec_iff_witness:
  "devices (fst (connect [reachable ''R1'', unreachable ''R2''] start)) \<noteq>
     Some (working_set [reachable ''R1'', unreachable ''R2'']) \<and>
   working_set [reachable ''R1'', unreachable ''R2''] = [reachable ''R1'']"
  using connect_meets_spec_iff [of start "[reachable ''R1'', unreachable ''R2'']"]
  by (simp add: start_def working_set_def)

text \<open>
  C20. Whatever the testbed and however the subsection ends, the local \<open>device_list\<close>
  is a prefix of the testbed and holds only devices that connected: no device is
  listed without a connection, and the order of the inventory is kept.
\<close>

theorem device_list_connected_prefix:
  "prefix (device_list (fst (connect tb s))) tb \<and>
   list_all connects (device_list (fst (connect tb s)))"
proof (cases connects tb rule: first_failure_cases)
  case all
  then show ?thesis by (simp add: connect_ok)
next
  case (first pre d post)
  then show ?thesis by (simp add: connect_fails)
qed

end
