(* ===== verification/Learn_BGP.thy ===== *)
theory Learn_BGP
  imports Harness
begin

text \<open>
  The test \<open>learn_bgp\<close> of \<open>BGPNeighborsEstablished\<close> (lines 57 to 70) and the
  subsection \<open>clean_up\<close> of \<open>CommonCleanup\<close> (lines 114 to 116).

  \<open>learn_bgp\<close> first sets \<open>self.all_bgp_sessions\<close> to the empty dictionary and then reads
  the parameter \<open>devices\<close>: when the setup never set it, the subscript raises
  \<open>KeyError\<close>. For each device it logs a banner and calls \<open>bgp.learn()\<close>, whose outcome
  the device carries in \<open>learn_result\<close>: an exception text, an object without the
  attribute \<open>info\<close> (\<open>Inr None\<close>) or the snapshot. The three calls of lines 63 to 65
  (\<open>Lookup.from_device\<close>, \<open>Bgp(device)\<close>, \<open>bgp.learn()\<close>) are this one outcome: whichever
  of them raises, the test ends with that exception, of the class \<open>Exception\<close>. A snapshot is stored under the name of
  the device; a missing one ends the test with the result \<open>Failed\<close> and the request to
  go to \<open>common_cleanup\<close>; an exception of the call ends it as it is.

  The closed forms \<open>learned\<close> and \<open>learn_banners\<close> say what a run over devices that all
  deliver a snapshot stores and logs; under a name that occurs twice \<open>learned\<close> holds
  the snapshot of the last device of that name.
\<close>

section \<open>The test and the cleanup\<close>

definition learn_message :: "device \<Rightarrow> string" where
  "learn_message device = ''Failed to learn BGP info from device '' @ name device"

definition store_info :: "string \<Rightarrow> pyval \<Rightarrow> (script, exn) stmt" where
  "store_info device info s =
     (case all_bgp_sessions s of
        None \<Rightarrow> (s, Some (AttributeError ''BGPNeighborsEstablished'' ''all_bgp_sessions''))
      | Some sessions \<Rightarrow> (s\<lparr>all_bgp_sessions := Some (AList.update device info sessions)\<rparr>, None))"

definition learn_device :: "device \<Rightarrow> (script, exn) stmt" where
  "learn_device device s =
     (let s1 = log_info (Banner (''Gathering BGP Information from '' @ name device)) s in
      case learn_result device of
        Inl e \<Rightarrow> (s1, Some (Exception e))
      | Inr (Some info) \<Rightarrow> store_info (name device) info s1
      | Inr None \<Rightarrow> (s1, Some (Failed_signal (learn_message device) [''common_cleanup''])))"

definition learn_bgp :: "(script, exn) stmt" where
  "learn_bgp s =
     (let s0 = s\<lparr>all_bgp_sessions := Some []\<rparr> in
      case devices s0 of
        None \<Rightarrow> (s0, Some (KeyError ''devices''))
      | Some ds \<Rightarrow> for_each learn_device ds s0)"

definition clean_up :: "(script, exn) stmt" where
  "clean_up s = (log_info (Info ''Aetest Common Cleanup'') s, None)"

lemmas learn_defs [bgp_defs] = learn_message_def store_info_def learn_device_def learn_bgp_def
  clean_up_def

section \<open>The closed form of the loop\<close>

definition info_of :: "device \<Rightarrow> pyval option" where
  "info_of device = (case learn_result device of Inr (Some info) \<Rightarrow> Some info | _ \<Rightarrow> None)"

definition learns :: "device \<Rightarrow> bool" where
  "learns device = (info_of device \<noteq> None)"

definition learn_exit :: "device \<Rightarrow> exn" where
  "learn_exit device =
     (case learn_result device of
        Inl e \<Rightarrow> Exception e
      | Inr _ \<Rightarrow> Failed_signal (learn_message device) [''common_cleanup''])"

definition store_all :: "device list \<Rightarrow> (string, pyval) dict \<Rightarrow> (string, pyval) dict" where
  "store_all ds m = fold (\<lambda>d. AList.update (name d) (the (info_of d))) ds m"

definition learned :: "device list \<Rightarrow> (string, pyval) dict" where
  "learned ds = store_all ds []"

definition learn_banners :: "device list \<Rightarrow> log_event list" where
  "learn_banners ds = map (\<lambda>d. Banner (''Gathering BGP Information from '' @ name d)) ds"

section \<open>Devices for the witnesses\<close>

definition router :: "string \<Rightarrow> pyval \<Rightarrow> device" where
  "router n info = \<lparr>name = n, connect_result = Inr (), learn_result = Inr (Some info)\<rparr>"

definition silent :: "string \<Rightarrow> device" where
  "silent n = \<lparr>name = n, connect_result = Inr (), learn_result = Inr None\<rparr>"

definition broken :: "string \<Rightarrow> device" where
  "broken n = \<lparr>name = n, connect_result = Inr (), learn_result = Inl ''parser error''\<rparr>"

section \<open>One device\<close>

lemma learn_fixtures [simp]:
  "learns (router n info)" "\<not> learns (silent n)" "\<not> learns (broken n)"
  "info_of (router n info) = Some info"
  "name (router n info) = n" "name (silent n) = n" "name (broken n) = n"
  "learn_exit (silent n) = Failed_signal (''Failed to learn BGP info from device '' @ n)
     [''common_cleanup'']"
  "learn_exit (broken n) = Exception ''parser error''"
  by (simp_all add: learns_def info_of_def router_def silent_def broken_def learn_exit_def
      learn_message_def)

lemma router_eq_iff: "router n info = router n' info' \<longleftrightarrow> n = n' \<and> info = info'"
  by (auto simp: router_def)

lemma learns_cases:
  obtains (info) info where "learn_result d = Inr (Some info)" "learns d" "info_of d = Some info"
  | (absent) "learn_result d = Inr None" "\<not> learns d"
  | (raised) e where "learn_result d = Inl e" "\<not> learns d"
  by (cases "learn_result d" rule: sum.exhaust [case_names Inl Inr];
      cases "projr (learn_result d)")
    (auto simp: learns_def info_of_def)

lemma learn_device_ok:
  assumes "learns d" and "all_bgp_sessions s = Some m"
  shows "learn_device d s =
     (s\<lparr>log := log s @ learn_banners [d],
        all_bgp_sessions := Some (AList.update (name d) (the (info_of d)) m)\<rparr>, None)"
  using assms
  by (cases d rule: learns_cases)
    (simp_all add: learn_device_def store_info_def learn_banners_def log_info_def)

lemma learn_device_fails:
  assumes "\<not> learns d"
  shows "learn_device d s = (s\<lparr>log := log s @ learn_banners [d]\<rparr>, Some (learn_exit d))"
  using assms
  by (cases d rule: learns_cases)
    (simp_all add: learn_device_def learn_exit_def learn_banners_def log_info_def)

section \<open>The loop\<close>

lemma learn_banners_append [simp]:
  "learn_banners (ds @ ds') = learn_banners ds @ learn_banners ds'"
  by (simp add: learn_banners_def)

lemma store_all_simps [simp]:
  "store_all [] m = m"
  "store_all (d # ds) m = store_all ds (AList.update (name d) (the (info_of d)) m)"
  "store_all (ds @ ds') m = store_all ds' (store_all ds m)"
  by (simp_all add: store_all_def)

lemma for_each_learn_ok:
  assumes "list_all learns ds" and "all_bgp_sessions s = Some m"
  shows "for_each learn_device ds s =
     (s\<lparr>log := log s @ learn_banners ds, all_bgp_sessions := Some (store_all ds m)\<rparr>, None)"
  using assms
proof (induction ds arbitrary: s m)
  case Nil
  then show ?case by (simp add: learn_banners_def)
next
  case (Cons d ds)
  then show ?case
    by (simp add: learn_device_ok seq_def learn_banners_def)
qed

lemma for_each_learn_fails:
  assumes "list_all learns pre" and "\<not> learns d" and "all_bgp_sessions s = Some m"
  shows "for_each learn_device (pre @ d # post) s =
     (s\<lparr>log := log s @ learn_banners (pre @ [d]), all_bgp_sessions := Some (store_all pre m)\<rparr>,
      Some (learn_exit d))"
  using assms
  by (simp add: for_each_append for_each_learn_ok learn_device_fails seq_def)

lemma learn_bgp_ok:
  assumes "devices s = Some ds" and "list_all learns ds"
  shows "learn_bgp s =
     (s\<lparr>all_bgp_sessions := Some (learned ds), log := log s @ learn_banners ds\<rparr>, None)"
  using assms by (simp add: learn_bgp_def for_each_learn_ok [where m = "[]"] learned_def)

lemma learn_bgp_fails:
  assumes "devices s = Some (pre @ d # post)" and "list_all learns pre" and "\<not> learns d"
  shows "learn_bgp s =
     (s\<lparr>all_bgp_sessions := Some (learned pre), log := log s @ learn_banners (pre @ [d])\<rparr>,
      Some (learn_exit d))"
  using assms by (simp add: learn_bgp_def for_each_learn_fails [where m = "[]"] learned_def)

lemma learn_bgp_no_devices:
  "devices s = None \<Longrightarrow> learn_bgp s = (s\<lparr>all_bgp_sessions := Some []\<rparr>, Some (KeyError ''devices''))"
  by (simp add: learn_bgp_def)

text \<open>The three ways in which the test ends.\<close>

lemma learn_bgp_cases:
  obtains (none) "devices s = None"
      "learn_bgp s = (s\<lparr>all_bgp_sessions := Some []\<rparr>, Some (KeyError ''devices''))"
  | (all) ds where "devices s = Some ds" "list_all learns ds"
      "learn_bgp s =
         (s\<lparr>all_bgp_sessions := Some (learned ds), log := log s @ learn_banners ds\<rparr>, None)"
  | (first) pre d post where "devices s = Some (pre @ d # post)" "list_all learns pre"
      "\<not> learns d"
      "learn_bgp s =
         (s\<lparr>all_bgp_sessions := Some (learned pre), log := log s @ learn_banners (pre @ [d])\<rparr>,
          Some (learn_exit d))"
proof (cases "devices s")
  case None
  then show ?thesis
    by (intro none) (simp_all add: learn_bgp_no_devices)
next
  case (Some ds)
  show ?thesis
  proof (cases learns ds rule: first_failure_cases)
    case all
    with Some show ?thesis
      by (intro that(2)) (simp_all add: learn_bgp_ok)
  next
    case (first pre d post)
    with Some show ?thesis
      by (intro that(3)) (simp_all add: learn_bgp_fails)
  qed
qed

section \<open>What is stored\<close>

lemma keys_store_all:
  "fst ` set (store_all ds m) = fst ` set m \<union> name ` set ds"
  by (induction ds arbitrary: m) (auto simp: dom_update)

lemma wf_dict_store_all: "wf_dict m \<Longrightarrow> wf_dict (store_all ds m)"
  by (induction ds arbitrary: m) (simp_all add: wf_dict_update)

lemma store_all_fresh:
  assumes "distinct (map name ds)" and "name ` set ds \<inter> fst ` set m = {}"
  shows "store_all ds m = m @ map (\<lambda>d. (name d, the (info_of d))) ds"
  using assms
proof (induction ds arbitrary: m)
  case Nil
  then show ?case by simp
next
  case (Cons d ds)
  from Cons.prems have fresh: "name d \<notin> fst ` set m"
    by auto
  then have "AList.update (name d) (the (info_of d)) m = m @ [(name d, the (info_of d))]"
    by (induction m) auto
  with Cons show ?case
    by (auto simp: image_Un)
qed

lemma learned_distinct:
  "distinct (map name ds) \<Longrightarrow> learned ds = map (\<lambda>d. (name d, the (info_of d))) ds"
  by (simp add: learned_def store_all_fresh)

lemma wf_dict_learned [simp]: "wf_dict (learned ds)"
  by (simp add: learned_def wf_dict_store_all)

lemma keys_learned [simp]: "fst ` set (learned ds) = name ` set ds"
  by (simp add: learned_def keys_store_all)

lemma learned_keys: "map fst (learned ds) = first_seen (map name ds)"
  by (simp add: learned_def store_all_def keys_fold_update)

lemma map_of_learned:
  "map_of (learned ds) = map_of (rev (map (\<lambda>d. (name d, the (info_of d))) ds))"
  by (simp add: learned_def store_all_def map_of_fold_update)

lemma clean_up_fields [simp]:
  "snd (clean_up s) = None"
  "log (fst (clean_up s)) = log s @ [Info ''Aetest Common Cleanup'']"
  "failed_dict (fst (clean_up s)) = failed_dict s"
  "results_table (fst (clean_up s)) = results_table s"
  "all_bgp_sessions (fst (clean_up s)) = all_bgp_sessions s"
  "devices (fst (clean_up s)) = devices s"
  by (simp_all add: clean_up_def)


text \<open>
  However the test ends, it has set \<open>all_bgp_sessions\<close> and has left the parameters
  and the locals of \<open>check_bgp\<close> alone.
\<close>

lemma learn_bgp_frame:
  "\<exists>m. all_bgp_sessions (fst (learn_bgp s)) = Some m \<and> wf_dict m"
  "devices (fst (learn_bgp s)) = devices s"
  "testbed (fst (learn_bgp s)) = testbed s"
  "results_table (fst (learn_bgp s)) = results_table s"
  "failed_dict (fst (learn_bgp s)) = failed_dict s"
  by (cases s rule: learn_bgp_cases; simp)+

section \<open>What the test does\<close>

text \<open>
  C21. When every device handed on by the setup delivers a snapshot and the names of
  the devices differ, the test ends without a result signal and \<open>all_bgp_sessions\<close>
  holds one snapshot per device, keyed by its name, in the order of the devices; one
  banner per device was logged.
\<close>

theorem learn_bgp_all_learned:
  assumes "devices s = Some ds" and "list_all learns ds" and "distinct (map name ds)"
  shows "snd (learn_bgp s) = None \<and>
     all_bgp_sessions (fst (learn_bgp s)) = Some (map (\<lambda>d. (name d, the (info_of d))) ds) \<and>
     log (fst (learn_bgp s)) = log s @ learn_banners ds"
  using assms by (simp add: learn_bgp_ok learned_distinct)

theorem learn_bgp_all_learned_witness:
  "snd (learn_bgp (start\<lparr>devices := Some [router ''R1'' PNone, router ''R2'' (PDict [])]\<rparr>)) = None \<and>
   all_bgp_sessions (fst (learn_bgp (start\<lparr>devices := Some [router ''R1'' PNone, router ''R2'' (PDict [])]\<rparr>))) =
     Some [(''R1'', PNone), (''R2'', PDict [])]"
  using learn_bgp_all_learned [of "start\<lparr>devices := Some [router ''R1'' PNone, router ''R2'' (PDict [])]\<rparr>"
      "[router ''R1'' PNone, router ''R2'' (PDict [])]"]
  by simp

text \<open>
  C23. The first device whose \<open>learn\<close> leaves no attribute \<open>info\<close> ends the test with
  the result \<open>Failed\<close>, a reason that names the device, and the request to go to
  \<open>common_cleanup\<close>. The snapshots of the devices before it stay stored; the devices
  after it are never asked.
\<close>

theorem learn_bgp_failure:
  assumes "devices s = Some (pre @ d # post)" and "list_all learns pre"
    and "learn_result d = Inr None"
  shows "snd (learn_bgp s) =
       Some (Failed_signal (''Failed to learn BGP info from device '' @ name d) [''common_cleanup'']) \<and>
     all_bgp_sessions (fst (learn_bgp s)) = Some (learned pre) \<and>
     log (fst (learn_bgp s)) = log s @ learn_banners (pre @ [d])"
proof -
  from assms(3) have "\<not> learns d" "learn_exit d = Failed_signal (learn_message d) [''common_cleanup'']"
    by (simp_all add: learns_def info_of_def learn_exit_def)
  with assms(1,2) show ?thesis
    by (simp add: learn_bgp_fails learn_message_def)
qed

theorem learn_bgp_failure_witness:
  "snd (learn_bgp (start\<lparr>devices := Some [router ''R1'' PNone, silent ''R2'', router ''R3'' PNone]\<rparr>)) =
     Some (Failed_signal ''Failed to learn BGP info from device R2'' [''common_cleanup'']) \<and>
   all_bgp_sessions (fst (learn_bgp (start\<lparr>devices := Some [router ''R1'' PNone, silent ''R2'', router ''R3'' PNone]\<rparr>))) =
     Some [(''R1'', PNone)]"
  using learn_bgp_failure [of "start\<lparr>devices := Some [router ''R1'' PNone, silent ''R2'', router ''R3'' PNone]\<rparr>"
      "[router ''R1'' PNone]" "silent ''R2''" "[router ''R3'' PNone]"]
  by (simp add: learned_def silent_def)

text \<open>
  C24. The test raises \<open>KeyError\<close> for the key \<open>devices\<close> exactly when the parameter was
  never set: this is how a failed setup shows in the testcase. (An exception of an
  external call is an \<open>Exception\<close> with a text in the model, so it is never this
  \<open>KeyError\<close>.)
\<close>

theorem learn_bgp_needs_devices:
  "devices s = None \<longleftrightarrow> snd (learn_bgp s) = Some (KeyError ''devices'')"
  by (cases s rule: learn_bgp_cases) (auto simp: learn_exit_def split: sum.splits)

theorem learn_bgp_needs_devices_witness:
  "snd (learn_bgp start) = Some (KeyError ''devices'')"
  using learn_bgp_needs_devices [of start] by (simp add: start_def)

text \<open>
  C25. However the test ends, \<open>all_bgp_sessions\<close> is set, holds every key once, and
  its keys are names of devices of the parameter \<open>devices\<close> that delivered a snapshot.
\<close>

theorem learn_bgp_sessions_wf:
  "\<exists>m. all_bgp_sessions (fst (learn_bgp s)) = Some m \<and> wf_dict m \<and>
     fst ` set m \<subseteq> name ` set (filter learns (case devices s of None \<Rightarrow> [] | Some ds \<Rightarrow> ds))"
  by (cases s rule: learn_bgp_cases) (auto simp: list_all_iff)

text \<open>
  C22. When every device delivers a snapshot, whether or not a name occurs twice among
  the devices: \<open>all_bgp_sessions\<close> holds one entry for each name, at the place where
  the name first occurs, and under a name the snapshot of the last device of that
  name. The assignment of line 68 overwrites: of two devices with one name only the
  later one is left to be evaluated.
\<close>

theorem learn_bgp_last_wins:
  assumes "devices s = Some ds" and "list_all learns ds"
  shows "map_option (map fst) (all_bgp_sessions (fst (learn_bgp s))) =
       Some (first_seen (map name ds)) \<and>
     map_option (\<lambda>m. map_of m n) (all_bgp_sessions (fst (learn_bgp s))) =
       Some (map_of (rev (map (\<lambda>d. (name d, the (info_of d))) ds)) n)"
  using assms by (simp add: learn_bgp_ok learned_keys map_of_learned)

theorem learn_bgp_last_wins_witness:
  "map_option (map fst) (all_bgp_sessions (fst (learn_bgp
       (start\<lparr>devices := Some [router ''R1'' PNone, router ''R2'' PNone, router ''R1'' (PDict [])]\<rparr>)))) =
     Some [''R1'', ''R2''] \<and>
   map_option (\<lambda>m. map_of m ''R1'') (all_bgp_sessions (fst (learn_bgp
       (start\<lparr>devices := Some [router ''R1'' PNone, router ''R2'' PNone, router ''R1'' (PDict [])]\<rparr>)))) =
     Some (Some (PDict []))"
  using learn_bgp_last_wins [of
      "start\<lparr>devices := Some [router ''R1'' PNone, router ''R2'' PNone, router ''R1'' (PDict [])]\<rparr>"
      "[router ''R1'' PNone, router ''R2'' PNone, router ''R1'' (PDict [])]" "''R1''"]
  by simp

end
