(* ===== verification/Lifecycle.thy ===== *)
theory Lifecycle
  imports Check_BGP Connect Learn_BGP
begin

text \<open>
  The order in which the harness runs the sections of the script, as the specification
  describes it: the setup, the two tests of the testcase, the cleanup.

  \<open>run\<close> is the whole run as one function. \<open>step\<close> is the same run one section at a
  time, as a relation on configurations (the section to run next, the state, the
  verdicts so far); the lemmas give the path of a run (four steps, or three when
  \<open>learn_bgp\<close> sends the run to the cleanup; it ends in what \<open>run\<close> computes) and what
  holds of the state whenever a section starts. That the steps are deterministic and
  never block holds by construction, whatever the sections do, and is used in the
  proofs only.
\<close>

section \<open>The run as a function\<close>

datatype verdict = Passed | Failed | Errored | Skipped

record report =
  setup_verdict :: verdict
  learn_verdict :: verdict
  check_verdict :: verdict
  cleanup_verdict :: verdict

fun verdict_of :: "exn option \<Rightarrow> verdict" where
  "verdict_of None = Passed"
| "verdict_of (Some (Passed_signal _)) = Passed"
| "verdict_of (Some (Failed_signal _ _)) = Failed"
| "verdict_of (Some _) = Errored"

fun goto_of :: "exn option \<Rightarrow> string list" where
  "goto_of (Some (Failed_signal _ goto)) = goto"
| "goto_of _ = []"

definition testcase :: "script \<Rightarrow> script \<times> verdict \<times> verdict" where
  "testcase s =
     (case learn_bgp s of (s1, e1) \<Rightarrow>
        if ''common_cleanup'' \<in> set (goto_of e1) then (s1, verdict_of e1, Skipped)
        else case check_bgp s1 of (s2, e2) \<Rightarrow> (s2, verdict_of e1, verdict_of e2))"

definition run :: "device list \<Rightarrow> script \<times> report" where
  "run tb =
     (case connect tb start of (s1, e1) \<Rightarrow>
      case testcase s1 of (s2, v1, v2) \<Rightarrow>
      case clean_up s2 of (s3, e3) \<Rightarrow>
        (s3, \<lparr>setup_verdict = verdict_of e1, learn_verdict = v1, check_verdict = v2,
              cleanup_verdict = verdict_of e3\<rparr>))"

definition snapshots :: "device list \<Rightarrow> (string, pyval) dict" where
  "snapshots tb = map (\<lambda>d. (name d, the (info_of d))) tb"

section \<open>The run one section at a time\<close>

datatype stage = Common_setup | Learn | Check | Common_cleanup | Finished

type_synonym config = "stage \<times> script \<times> report"

definition not_run :: report where
  "not_run = \<lparr>setup_verdict = Skipped, learn_verdict = Skipped, check_verdict = Skipped,
     cleanup_verdict = Skipped\<rparr>"

definition initial :: config where
  "initial = (Common_setup, start, not_run)"

inductive step :: "device list \<Rightarrow> config \<Rightarrow> config \<Rightarrow> bool" for tb :: "device list" where
  connect_step: "connect tb s = (s', e) \<Longrightarrow>
     step tb (Common_setup, s, r) (Learn, s', r\<lparr>setup_verdict := verdict_of e\<rparr>)"
| learn_step: "learn_bgp s = (s', e) \<Longrightarrow> ''common_cleanup'' \<notin> set (goto_of e) \<Longrightarrow>
     step tb (Learn, s, r) (Check, s', r\<lparr>learn_verdict := verdict_of e\<rparr>)"
| goto_step: "learn_bgp s = (s', e) \<Longrightarrow> ''common_cleanup'' \<in> set (goto_of e) \<Longrightarrow>
     step tb (Learn, s, r) (Common_cleanup, s', r\<lparr>learn_verdict := verdict_of e\<rparr>)"
| check_step: "check_bgp s = (s', e) \<Longrightarrow>
     step tb (Check, s, r) (Common_cleanup, s', r\<lparr>check_verdict := verdict_of e\<rparr>)"
| cleanup_step: "clean_up s = (s', e) \<Longrightarrow>
     step tb (Common_cleanup, s, r) (Finished, s', r\<lparr>cleanup_verdict := verdict_of e\<rparr>)"

code_pred step .

inductive_cases step_setupE [elim!]: "step tb (Common_setup, s, r) c"
inductive_cases step_learnE [elim!]: "step tb (Learn, s, r) c"
inductive_cases step_checkE [elim!]: "step tb (Check, s, r) c"
inductive_cases step_cleanupE [elim!]: "step tb (Common_cleanup, s, r) c"
inductive_cases step_finishedE [elim!]: "step tb (Finished, s, r) c"

text \<open>The same step as a function: the configuration after the section that runs next.\<close>

fun next_config :: "device list \<Rightarrow> config \<Rightarrow> config option" where
  "next_config tb (Common_setup, s, r) =
     (case connect tb s of (s', e) \<Rightarrow> Some (Learn, s', r\<lparr>setup_verdict := verdict_of e\<rparr>))"
| "next_config tb (Learn, s, r) =
     (case learn_bgp s of (s', e) \<Rightarrow>
        Some (if ''common_cleanup'' \<in> set (goto_of e) then Common_cleanup else Check, s',
              r\<lparr>learn_verdict := verdict_of e\<rparr>))"
| "next_config tb (Check, s, r) =
     (case check_bgp s of (s', e) \<Rightarrow>
        Some (Common_cleanup, s', r\<lparr>check_verdict := verdict_of e\<rparr>))"
| "next_config tb (Common_cleanup, s, r) =
     (case clean_up s of (s', e) \<Rightarrow> Some (Finished, s', r\<lparr>cleanup_verdict := verdict_of e\<rparr>))"
| "next_config tb (Finished, s, r) = None"

definition run_reaches :: "device list \<Rightarrow> config \<Rightarrow> bool" where
  "run_reaches tb c = (step tb)\<^sup>*\<^sup>* initial c"

text \<open>What holds of the state when a section is about to run.\<close>

fun stage_inv :: "device list \<Rightarrow> config \<Rightarrow> bool" where
  "stage_inv tb (Common_setup, s, r) = (s = start)"
| "stage_inv tb (Learn, s, r) =
     (testbed s = Some tb \<and> all_bgp_sessions s = None \<and>
      (devices s = Some tb \<and> setup_verdict r = Passed \<and> list_all connects tb \<or>
       devices s = None \<and> setup_verdict r = Failed \<and> \<not> list_all connects tb))"
| "stage_inv tb (Check, s, r) =
     (\<exists>m. all_bgp_sessions s = Some m \<and> wf_dict m \<and> learn_verdict r \<noteq> Skipped)"
| "stage_inv tb (Common_cleanup, s, r) = (all_bgp_sessions s \<noteq> None \<and> learn_verdict r \<noteq> Skipped)"
| "stage_inv tb (Finished, s, r) =
     (cleanup_verdict r = Passed \<and> log s \<noteq> [] \<and> last (log s) = Info ''Aetest Common Cleanup'')"

section \<open>Verdicts\<close>

lemma verdict_of_not_Skipped [simp]: "verdict_of e \<noteq> Skipped"
  by (cases e rule: verdict_of.cases) simp_all

lemma verdict_of_clean_up [simp]: "verdict_of (snd (clean_up s)) = Passed"
  by (simp add: clean_up_def)

lemma harness_fixtures [simp]:
  "connects (router n info)" "connects (silent n)" "connects (broken n)"
  "learn_result (silent n) = Inr None" "learn_result (broken n) = Inl ''parser error''"
  by (simp_all add: connects_def router_def silent_def broken_def)

lemma snapshots_simps [simp]:
  "snapshots [] = []"
  "snapshots (d # tb) = (name d, the (info_of d)) # snapshots tb"
  by (simp_all add: snapshots_def)

section \<open>The testcase and the run, case by case\<close>

text \<open>The testcase when \<open>learn_bgp\<close> does not send the run to the cleanup.\<close>

lemma testcase_checked:
  assumes "learn_bgp s = (s1, e)" and "''common_cleanup'' \<notin> set (goto_of e)"
    and "all_bgp_sessions s1 = Some sessions" and "sessions_ok sessions"
  shows "fst (snd (testcase s)) = verdict_of e"
    "snd (snd (testcase s)) = (if index_of sessions [] = [] then Passed else Failed)"
    "results_table (fst (testcase s)) = rows_of sessions"
    "failed_dict (fst (testcase s)) = index_of sessions []"
    "log (fst (testcase s)) =
       log s1 @ device_logs [] sessions @
         (if index_of sessions [] = [] then [] else [Error_json (index_of sessions [])])"
proof -
  from assms(1,2)
  have tc: "testcase s = (fst (check_bgp s1), verdict_of e, verdict_of (snd (check_bgp s1)))"
    by (simp add: testcase_def split: prod.splits)
  from assms(3,4) show "fst (snd (testcase s)) = verdict_of e"
    "snd (snd (testcase s)) = (if index_of sessions [] = [] then Passed else Failed)"
    "results_table (fst (testcase s)) = rows_of sessions"
    "failed_dict (fst (testcase s)) = index_of sessions []"
    "log (fst (testcase s)) =
       log s1 @ device_logs [] sessions @
         (if index_of sessions [] = [] then [] else [Error_json (index_of sessions [])])"
    by (simp_all add: tc snd_check_bgp results_table_check_bgp failed_dict_check_bgp
        log_check_bgp)
qed

lemma testcase_ok:
  assumes "devices s = Some ds" and "list_all learns ds" and "distinct (map name ds)"
    and "sessions_ok (snapshots ds)"
  shows "fst (snd (testcase s)) = Passed"
    "snd (snd (testcase s)) = (if index_of (snapshots ds) [] = [] then Passed else Failed)"
    "results_table (fst (testcase s)) = rows_of (snapshots ds)"
    "failed_dict (fst (testcase s)) = index_of (snapshots ds) []"
    "log (fst (testcase s)) =
       log s @ learn_banners ds @ device_logs [] (snapshots ds) @
         (if index_of (snapshots ds) [] = [] then []
          else [Error_json (index_of (snapshots ds) [])])"
proof -
  from assms(1-3) have "learn_bgp s =
      (s\<lparr>all_bgp_sessions := Some (snapshots ds), log := log s @ learn_banners ds\<rparr>, None)"
    by (simp add: learn_bgp_ok learned_distinct snapshots_def)
  from testcase_checked [OF this _ _ assms(4)]
  show "fst (snd (testcase s)) = Passed"
    "snd (snd (testcase s)) = (if index_of (snapshots ds) [] = [] then Passed else Failed)"
    "results_table (fst (testcase s)) = rows_of (snapshots ds)"
    "failed_dict (fst (testcase s)) = index_of (snapshots ds) []"
    "log (fst (testcase s)) =
       log s @ learn_banners ds @ device_logs [] (snapshots ds) @
         (if index_of (snapshots ds) [] = [] then []
          else [Error_json (index_of (snapshots ds) [])])"
    by simp_all
qed

lemma testcase_learn_raises:
  assumes "devices s = Some (pre @ d # post)" and "list_all learns pre"
    and "learn_result d = Inl e" and "distinct (map name pre)" and "sessions_ok (snapshots pre)"
  shows "fst (snd (testcase s)) = Errored"
    "snd (snd (testcase s)) = (if index_of (snapshots pre) [] = [] then Passed else Failed)"
    "results_table (fst (testcase s)) = rows_of (snapshots pre)"
    "log (fst (testcase s)) =
       log s @ learn_banners (pre @ [d]) @ device_logs [] (snapshots pre) @
         (if index_of (snapshots pre) [] = [] then []
          else [Error_json (index_of (snapshots pre) [])])"
proof -
  from assms(3) have "\<not> learns d" "learn_exit d = Exception e"
    by (simp_all add: learns_def info_of_def learn_exit_def)
  with assms(1,2,4) have "learn_bgp s =
      (s\<lparr>all_bgp_sessions := Some (snapshots pre), log := log s @ learn_banners (pre @ [d])\<rparr>,
       Some (Exception e))"
    by (simp add: learn_bgp_fails learned_distinct snapshots_def)
  from testcase_checked [OF this _ _ assms(5)]
  show "fst (snd (testcase s)) = Errored"
    "snd (snd (testcase s)) = (if index_of (snapshots pre) [] = [] then Passed else Failed)"
    "results_table (fst (testcase s)) = rows_of (snapshots pre)"
    "log (fst (testcase s)) =
       log s @ learn_banners (pre @ [d]) @ device_logs [] (snapshots pre) @
         (if index_of (snapshots pre) [] = [] then []
          else [Error_json (index_of (snapshots pre) [])])"
    by simp_all
qed

lemma testcase_no_devices:
  assumes "devices s = None"
  shows "testcase s =
     (s\<lparr>all_bgp_sessions := Some [], failed_dict := [], results_table := []\<rparr>, Errored, Passed)"
proof -
  let ?s1 = "s\<lparr>all_bgp_sessions := Some []\<rparr>"
  have "check_bgp ?s1 = (?s1\<lparr>failed_dict := [], results_table := []\<rparr>,
      Some (Passed_signal ''All BGP neighbors are established.''))"
    by (simp add: check_bgp_ok [where sessions = "[]"])
  with assms show ?thesis
    by (simp add: testcase_def learn_bgp_no_devices)
qed

lemma testcase_learn_fails:
  assumes "devices s = Some (pre @ d # post)" and "list_all learns pre"
    and "learn_result d = Inr None"
  shows "testcase s =
     (s\<lparr>all_bgp_sessions := Some (learned pre), log := log s @ learn_banners (pre @ [d])\<rparr>,
      Failed, Skipped)"
proof -
  from assms(3) have "\<not> learns d"
    and "learn_exit d = Failed_signal (learn_message d) [''common_cleanup'']"
    by (simp_all add: learns_def info_of_def learn_exit_def)
  with assms(1,2) show ?thesis
    by (simp add: testcase_def learn_bgp_fails)
qed

lemma run_unfold:
  "run tb =
     (fst (clean_up (fst (testcase (fst (connect tb start))))),
      \<lparr>setup_verdict = verdict_of (snd (connect tb start)),
       learn_verdict = fst (snd (testcase (fst (connect tb start)))),
       check_verdict = snd (snd (testcase (fst (connect tb start)))),
       cleanup_verdict = Passed\<rparr>)"
  by (simp add: run_def clean_up_def split: prod.splits)

section \<open>The steps\<close>

lemma step_iff_next: "step tb c c' \<longleftrightarrow> next_config tb c = Some c'"
proof
  show "step tb c c' \<Longrightarrow> next_config tb c = Some c'"
    by (induction rule: step.induct) simp_all
  show "next_config tb c = Some c' \<Longrightarrow> step tb c c'"
    by (cases "(tb, c)" rule: next_config.cases)
      (auto split: prod.splits if_splits intro: step.intros)
qed

lemma step_unique: "step tb c c1 \<Longrightarrow> step tb c c2 \<Longrightarrow> c1 = c2"
  by (simp add: step_iff_next)

lemma steps_next:
  "(step tb ^^ Suc n) c c' \<longleftrightarrow> (\<exists>b. next_config tb c = Some b \<and> (step tb ^^ n) b c')"
proof
  assume "(step tb ^^ Suc n) c c'"
  then obtain b where "step tb c b" "(step tb ^^ n) b c'"
    by (blast dest: relpowp_Suc_D2)
  then show "\<exists>b. next_config tb c = Some b \<and> (step tb ^^ n) b c'"
    by (auto simp: step_iff_next)
next
  assume "\<exists>b. next_config tb c = Some b \<and> (step tb ^^ n) b c'"
  then obtain b where "step tb c b" "(step tb ^^ n) b c'"
    by (auto simp: step_iff_next)
  then show "(step tb ^^ Suc n) c c'"
    by (rule relpowp_Suc_I2)
qed

lemma finished_final [simp]: "\<not> step tb (Finished, s, r) c"
  by (simp add: step_iff_next)

lemma stage_inv_step:
  assumes "step tb c c'" and "stage_inv tb c"
  shows "stage_inv tb c'"
  using assms
proof (induction rule: step.induct)
  case (connect_step s s' e r)
  then show ?case
    using connect_start [of tb] by (cases "list_all connects tb") auto
next
  case (learn_step s s' e r)
  then show ?case
    using learn_bgp_frame(1) [of s] by simp
next
  case (goto_step s s' e r)
  then show ?case
    using learn_bgp_frame(1) [of s] by auto
next
  case (check_step s s' e r)
  then show ?case
    using check_bgp_frame(1) [of s] by auto
next
  case (cleanup_step s s' e r)
  then show ?case
    using clean_up_fields(1,2) [of s] by auto
qed

lemma run_reaches_initial [simp]: "run_reaches tb initial"
  by (simp add: run_reaches_def)

lemma run_reaches_step: "run_reaches tb c \<Longrightarrow> step tb c c' \<Longrightarrow> run_reaches tb c'"
  by (auto simp: run_reaches_def)

text \<open>
  The path of a run: four steps, or three when \<open>learn_bgp\<close> sends the run to the
  cleanup, and they end in what \<open>run\<close> computes.
\<close>

lemma run_path:
  "(step tb ^^ (if ''common_cleanup'' \<in> set (goto_of (snd (learn_bgp (fst (connect tb start)))))
                then 3 else 4))
     initial (Finished, fst (run tb), snd (run tb))"
  by (simp add: eval_nat_numeral steps_next step_iff_next initial_def run_def testcase_def
      split_beta not_run_def clean_up_def del: relpowp.simps(2))

lemma run_reaches_check:
  assumes "''common_cleanup'' \<notin> set (goto_of (snd (learn_bgp (fst (connect tb start)))))"
  shows "run_reaches tb (Check, fst (learn_bgp (fst (connect tb start))),
     not_run\<lparr>setup_verdict := verdict_of (snd (connect tb start)),
       learn_verdict := verdict_of (snd (learn_bgp (fst (connect tb start))))\<rparr>)"
proof -
  have "run_reaches tb (Learn, fst (connect tb start),
      not_run\<lparr>setup_verdict := verdict_of (snd (connect tb start))\<rparr>)"
    by (rule run_reaches_step [OF run_reaches_initial])
      (simp add: initial_def step_iff_next split: prod.splits)
  moreover from assms have "step tb
      (Learn, fst (connect tb start), not_run\<lparr>setup_verdict := verdict_of (snd (connect tb start))\<rparr>)
      (Check, fst (learn_bgp (fst (connect tb start))),
       not_run\<lparr>setup_verdict := verdict_of (snd (connect tb start)),
         learn_verdict := verdict_of (snd (learn_bgp (fst (connect tb start))))\<rparr>)"
    by (auto simp: step_iff_next split: prod.splits)
  ultimately show ?thesis
    by (rule run_reaches_step)
qed

lemma stage_inv_reached: "run_reaches tb c \<Longrightarrow> stage_inv tb c"
  unfolding run_reaches_def
  by (induction rule: rtranclp_induct) (simp_all add: initial_def stage_inv_step)

section \<open>What holds when a section starts\<close>

text \<open>
  C31. Whenever a section is about to run, the state is what the section relies on
  (\<open>stage_inv\<close>): \<open>learn_bgp\<close> starts with \<open>devices\<close> set exactly when the setup
  passed, \<open>check_bgp\<close> starts with \<open>all_bgp_sessions\<close> set to a dictionary with distinct
  keys, and the run ends with the line of the cleanup.
\<close>

theorem run_reaches_stage_inv: "run_reaches tb c \<Longrightarrow> stage_inv tb c"
  by (rule stage_inv_reached)

theorem run_reaches_stage_inv_witness:
  "stage_inv [router ''R1'' r1_idle]
     (Check, fst (learn_bgp (fst (connect [router ''R1'' r1_idle] start))),
      not_run\<lparr>setup_verdict := Passed, learn_verdict := Passed\<rparr>)"
  using run_reaches_stage_inv [OF run_reaches_check [of "[router ''R1'' r1_idle]"]]
  by (simp add: connect_ok learn_bgp_ok)

end
