(* ===== verification/Evaluator_Spec.thy ===== *)
theory Evaluator_Spec
  imports Check_BGP
begin

text \<open>
  The evaluator as the specification describes it, and the test \<open>check_bgp\<close> as an
  implementation of it.

  The specification speaks of a snapshot as a mapping from VRF name to neighbour
  address to attributes, of a table of rows, and of a failure index from device and
  neighbour address to attributes. \<open>evaluate\<close> computes the three results from such
  snapshots without a loop, a state or an exception. \<open>abs_snapshot\<close> reads the
  mapping out of the nested dictionary that Genie delivers, by the accessors of the
  code; \<open>snapshot\<close> of \<open>Scenarios\<close> builds the dictionary from the mapping; and
  \<open>abs_outcome\<close> reads the results out of the state and the signal that \<open>check_bgp\<close>
  leaves.
\<close>

section \<open>The evaluator of the specification\<close>

type_synonym asnapshot = "(string, (string, pyval) dict) dict"

record evaluation =
  rows :: "row list"
  index :: "string \<Rightarrow> string \<Rightarrow> pyval option"
  passed :: bool

definition spec_state :: "pyval \<Rightarrow> string" where
  "spec_state attrs =
     (case attrs of
        PDict d \<Rightarrow> (case map_of d ''session_state'' of Some (PStr st) \<Rightarrow> st | _ \<Rightarrow> ''Unknown'')
      | _ \<Rightarrow> ''Unknown'')"

definition spec_verdict :: "pyval \<Rightarrow> string" where
  "spec_verdict attrs =
     (if str_lower (spec_state attrs) = ''established'' then ''Passed'' else ''Failed'')"

definition spec_row :: "string \<times> string \<times> pyval \<Rightarrow> row" where
  "spec_row e =
     (case e of (vrf_name, nbr, attrs) \<Rightarrow>
        [vrf_name, nbr, str_capitalize (spec_state attrs), spec_verdict attrs])"

definition failing_neighbors :: "asnapshot \<Rightarrow> (string, pyval) dict" where
  "failing_neighbors snap =
     filter (\<lambda>na. spec_verdict (snd na) = ''Failed'') (concat (map snd snap))"

definition evaluate :: "(string, asnapshot) dict \<Rightarrow> evaluation" where
  "evaluate input =
     \<lparr>rows = concat (map (\<lambda>ds. map spec_row (flat (snd ds))) input),
      index = (\<lambda>device nbr.
        case map_of input device of
          None \<Rightarrow> None
        | Some snap \<Rightarrow> map_of (failing_neighbors snap) nbr),
      passed = list_all (\<lambda>ds. failing_neighbors (snd ds) = []) input\<rparr>"

section \<open>From the dictionaries of the code to the mappings of the specification\<close>

definition abs_vrf :: "string \<times> pyval \<Rightarrow> string \<times> (string, pyval) dict" where
  "abs_vrf vd = (fst vd, case neighbors (snd vd) of Inl _ \<Rightarrow> [] | Inr ns \<Rightarrow> ns)"

definition abs_snapshot :: "pyval \<Rightarrow> asnapshot" where
  "abs_snapshot bgp_info = (case vrfs_dict bgp_info of Inl _ \<Rightarrow> [] | Inr vs \<Rightarrow> map abs_vrf vs)"

definition abs_sessions :: "(string, pyval) dict \<Rightarrow> (string, asnapshot) dict" where
  "abs_sessions sessions = map (\<lambda>db. (fst db, abs_snapshot (snd db))) sessions"

definition abs_outcome :: "script \<times> exn option \<Rightarrow> evaluation" where
  "abs_outcome out =
     \<lparr>rows = results_table (fst out),
      index = fd_lookup (failed_dict (fst out)),
      passed = (snd out = Some (Passed_signal ''All BGP neighbors are established.''))\<rparr>"

text \<open>
  The snapshots on which the specification's index is a mapping: no neighbour address
  occurs twice in a device, and every neighbour has attributes that can be read.
\<close>

definition addresses_distinct :: "asnapshot \<Rightarrow> bool" where
  "addresses_distinct snap = distinct (map fst (concat (map snd snap)))"

definition readable :: "asnapshot \<Rightarrow> bool" where
  "readable snap = list_all (\<lambda>na. props_ok (snd na)) (concat (map snd snap))"

section \<open>Reading and building\<close>

lemma fst_abs_vrf [simp]: "fst (abs_vrf vd) = fst vd"
  by (simp add: abs_vrf_def)

lemma vrf_entries_abs_vrf [simp]: "map (Pair (fst vd)) (snd (abs_vrf vd)) = vrf_entries vd"
  by (simp add: vrf_entries_def abs_vrf_def split: sum.splits)

lemma flat_abs_snapshot [simp]: "flat (abs_snapshot bgp_info) = entries bgp_info"
  by (cases "vrfs_dict bgp_info") (simp_all add: abs_snapshot_def entries_def flat_def o_def)

lemma abs_snapshot_snapshot [simp]: "abs_snapshot (snapshot vrfs) = vrfs"
  by (simp add: abs_snapshot_def abs_vrf_def o_def vrf_of_def neighbors_present map_idI)

lemma neighbors_of_flat: "concat (map snd snap) = map snd (flat snap)"
  by (induction snap) (simp_all add: flat_def o_def)

section \<open>The code's row and verdict are the specification's\<close>

lemma state_of_spec_state: "props_ok props \<Longrightarrow> state_of props = str_lower (spec_state props)"
  by (auto simp: props_ok_iff state_of_def spec_state_def session_state_def dict_get_def
      split: option.splits pyval.splits)

lemma row_of_spec_row: "props_ok (snd (snd e)) \<Longrightarrow> row_of e = spec_row e"
  by (cases e)
    (simp add: row_of_def spec_row_def table_row_def spec_verdict_def result_def
      state_of_spec_state)

lemma failing_spec_verdict:
  "props_ok (snd (snd e)) \<Longrightarrow> failing e \<longleftrightarrow> spec_verdict (snd (snd e)) = ''Failed''"
  by (simp add: failing_iff spec_verdict_def state_of_spec_state)

section \<open>The three results\<close>

lemma map_of_rev_distinct: "distinct (map fst xs) \<Longrightarrow> map_of (rev xs) = map_of xs"
  by (simp add: map_of_inject_set rev_map [symmetric])

lemma rows_refine:
  "snapshot_ok bgp_info \<Longrightarrow> map row_of (entries bgp_info) = map spec_row (entries bgp_info)"
  by (simp add: row_of_spec_row entries_props_ok)

lemma fails_refine:
  assumes "snapshot_ok bgp_info"
  shows "fails (entries bgp_info) = failing_neighbors (abs_snapshot bgp_info)"
proof -
  have "filter failing (entries bgp_info) =
      filter (\<lambda>e. spec_verdict (snd (snd e)) = ''Failed'') (entries bgp_info)"
    using assms by (intro filter_cong refl failing_spec_verdict entries_props_ok)
  then show ?thesis
    by (simp add: fails_def failing_neighbors_def neighbors_of_flat filter_map o_def)
qed

lemma rows_of_refine:
  "sessions_ok sessions \<Longrightarrow> rows_of sessions = rows (evaluate (abs_sessions sessions))"
  by (induction sessions) (simp_all add: evaluate_def abs_sessions_def rows_refine)

lemma passed_refine:
  "sessions_ok sessions \<Longrightarrow>
     index_of sessions [] = [] \<longleftrightarrow> passed (evaluate (abs_sessions sessions))"
  by (induction sessions)
    (simp_all add: index_of_eq_Nil evaluate_def abs_sessions_def fails_refine)

lemma map_of_abs_sessions:
  "map_of (abs_sessions sessions) device = map_option abs_snapshot (map_of sessions device)"
  by (induction sessions) (simp_all add: abs_sessions_def)

lemma index_refine:
  assumes "wf_dict sessions" and "sessions_ok sessions"
    and "list_all (\<lambda>db. addresses_distinct (abs_snapshot (snd db))) sessions"
  shows "fd_lookup (index_of sessions []) = index (evaluate (abs_sessions sessions))"
proof (intro ext)
  fix device nbr
  show "fd_lookup (index_of sessions []) device nbr =
      index (evaluate (abs_sessions sessions)) device nbr"
  proof (cases "map_of sessions device")
    case None
    with assms(1) show ?thesis
      by (simp add: fd_lookup_index_of evaluate_def map_of_abs_sessions)
  next
    case (Some bgp_info)
    then have "(device, bgp_info) \<in> set sessions"
      by (rule map_of_SomeD)
    with assms(2,3) have "snapshot_ok bgp_info" "addresses_distinct (abs_snapshot bgp_info)"
      by (auto simp: sessions_ok_def list_all_iff)
    then have "map_of (rev (fails (entries bgp_info))) = map_of (failing_neighbors (abs_snapshot bgp_info))"
      by (simp add: fails_refine map_of_rev_distinct failing_neighbors_def addresses_distinct_def
          distinct_map_filter)
    with assms(1) Some show ?thesis
      by (simp add: fd_lookup_index_of evaluate_def map_of_abs_sessions split: option.splits)
  qed
qed

text \<open>
  The evaluator of the specification on the snapshots the code has learned, in the terms
  of the closed forms of the loops.
\<close>

lemma evaluate_sessions:
  assumes "sessions_ok sessions" and "wf_dict sessions"
    and "list_all (\<lambda>db. addresses_distinct (abs_snapshot (snd db))) sessions"
  shows "evaluate (abs_sessions sessions) =
     \<lparr>rows = rows_of sessions, index = fd_lookup (index_of sessions []),
      passed = (index_of sessions [] = [])\<rparr>"
  using assms
  by (intro evaluation.equality) (simp_all add: rows_of_refine index_refine passed_refine)

lemma abs_snapshot_scenarios [simp]:
  "abs_snapshot r1_established = [(''default'', [(''10.0.0.1'', peer ''Established'')])]"
  "abs_snapshot r1_idle = [(''default'', [(''10.0.0.2'', peer ''Idle'')])]"
  by (simp_all add: r1_established_def r1_idle_def)

lemma spec_peer [simp]: "spec_state (peer st) = st"
  by (simp add: spec_state_def peer_def)

section \<open>The test implements the evaluator\<close>

text \<open>
  C1. On snapshots that can be read, with distinct device names and no neighbour
  address twice in a device, what \<open>check_bgp\<close> leaves (its table, its \<open>failed_dict\<close>
  read as a mapping, and whether it ended with \<open>self.passed\<close>) is what the evaluator of
  the specification computes from the snapshots read as mappings.
\<close>

theorem check_bgp_refines:
  assumes "all_bgp_sessions s = Some sessions" and "sessions_ok sessions"
    and "wf_dict sessions"
    and "list_all (\<lambda>db. addresses_distinct (abs_snapshot (snd db))) sessions"
  shows "abs_outcome (check_bgp s) = evaluate (abs_sessions sessions)"
  using assms
  by (simp add: abs_outcome_def evaluate_sessions results_table_check_bgp failed_dict_check_bgp
      snd_check_bgp)

theorem check_bgp_refines_witness:
  "rows (abs_outcome (check_bgp (with_sessions scenario_c))) =
     [[''default'', ''10.0.0.1'', ''Established'', ''Passed''],
      [''default'', ''10.0.0.2'', ''Idle'', ''Failed'']] \<and>
   index (abs_outcome (check_bgp (with_sessions scenario_c))) ''R2'' ''10.0.0.2'' =
     Some (peer ''Idle'') \<and>
   \<not> passed (abs_outcome (check_bgp (with_sessions scenario_c)))"
  using check_bgp_refines [of "with_sessions scenario_c" scenario_c]
  by (simp add: scenario_c_def addresses_distinct_def evaluate_def abs_sessions_def flat_def
      spec_row_def spec_verdict_def failing_neighbors_def bgp_eval)

text \<open>
  C39. Building the nested dictionary of a snapshot from a mapping of VRFs to
  neighbours and reading it back with the accessors of the code gives the mapping
  back: the path \<open>instance\<close>, \<open>default\<close>, \<open>vrf\<close>, VRF name, \<open>neighbor\<close>, address that
  the code walks is the shape in which the snapshot was built, and the snapshot can be
  read exactly when the attributes of every neighbour can.
\<close>

theorem snapshot_round_trip:
  "abs_snapshot (snapshot vrfs) = vrfs \<and> entries (snapshot vrfs) = flat vrfs \<and>
   (snapshot_ok (snapshot vrfs) \<longleftrightarrow> readable vrfs)"
  by (simp add: readable_def neighbors_of_flat list_all_iff)

end
