(* ===== verification/Pipeline.thy ===== *)
theory Pipeline
  imports Lifecycle Evaluator_Spec
begin

text \<open>
  The three stages as the specification describes them, and the run of the script as an
  implementation of them.

  \<open>pipeline\<close> computes from the inventory what the specification promises of a run: the
  working set of the devices that connect, whether a connection failed, whether a
  device delivered no snapshot (which ends the run before the evaluation), and
  otherwise what the evaluator makes of the snapshots of the working set. \<open>abs_run\<close>
  reads the same four results out of the state and the verdicts that \<open>run\<close> leaves.
\<close>

section \<open>The stages of the specification\<close>

record outcome =
  working :: "string list"
  setup_failed :: bool
  collection_failed :: bool
  evaluated :: "evaluation option"

definition pipeline :: "device list \<Rightarrow> outcome" where
  "pipeline tb =
     (let ws = working_set tb in
      \<lparr>working = map name ws,
       setup_failed = (\<not> list_all connects tb),
       collection_failed = (\<not> list_all learns ws),
       evaluated =
         (if list_all learns ws then Some (evaluate (abs_sessions (snapshots ws))) else None)\<rparr>)"

definition abs_run :: "script \<times> report \<Rightarrow> outcome" where
  "abs_run out =
     \<lparr>working = (case devices (fst out) of None \<Rightarrow> [] | Some ds \<Rightarrow> map name ds),
      setup_failed = (setup_verdict (snd out) \<noteq> Passed),
      collection_failed = (learn_verdict (snd out) \<noteq> Passed),
      evaluated =
        (if check_verdict (snd out) = Skipped then None
         else Some \<lparr>rows = results_table (fst out),
                    index = fd_lookup (failed_dict (fst out)),
                    passed = (check_verdict (snd out) = Passed)\<rparr>)\<rparr>"

text \<open>
  The devices the specification speaks of: the call of \<open>bgp.learn()\<close> returns, with a
  snapshot or without one, and a snapshot can be read and names no neighbour twice.
\<close>

definition delivers :: "device \<Rightarrow> bool" where
  "delivers d =
     (case learn_result d of
        Inl e \<Rightarrow> False
      | Inr None \<Rightarrow> True
      | Inr (Some bgp_info) \<Rightarrow> snapshot_ok bgp_info \<and> addresses_distinct (abs_snapshot bgp_info))"

section \<open>The run on such devices\<close>

lemma delivers_unreachable [simp]: "delivers (unreachable n)"
  by (simp add: delivers_def unreachable_def)


lemma working_set_all [simp]: "list_all connects tb \<Longrightarrow> working_set tb = tb"
  by (simp add: working_set_def list_all_iff)

lemma delivers_learns:
  "delivers d \<Longrightarrow> learns d \<Longrightarrow>
     snapshot_ok (the (info_of d)) \<and> addresses_distinct (abs_snapshot (the (info_of d)))"
  by (cases d rule: learns_cases) (simp_all add: delivers_def)

lemma delivers_absent: "delivers d \<Longrightarrow> \<not> learns d \<Longrightarrow> learn_result d = Inr None"
  by (cases d rule: learns_cases) (simp_all add: delivers_def)

lemma delivers_fixtures [simp]:
  "delivers (router n bgp_info) \<longleftrightarrow>
     snapshot_ok bgp_info \<and> addresses_distinct (abs_snapshot bgp_info)"
  "delivers (silent n)" "\<not> delivers (broken n)"
  by (simp_all add: delivers_def router_def silent_def broken_def)

lemma snapshots_delivered:
  assumes "list_all delivers tb" and "list_all learns tb"
  shows "sessions_ok (snapshots tb)"
    and "list_all (\<lambda>db. addresses_distinct (abs_snapshot (snd db))) (snapshots tb)"
  using assms by (induction tb) (simp_all add: delivers_learns)

lemma wf_dict_snapshots [simp]: "wf_dict (snapshots tb) \<longleftrightarrow> distinct (map name tb)"
  by (simp add: wf_dict_def snapshots_def o_def)

lemma testcase_frame [simp]: "devices (fst (testcase s)) = devices s"
  by (simp add: testcase_def learn_bgp_frame split: prod.splits)
    (metis check_bgp_frame(2) fst_conv learn_bgp_frame(2))

lemma abs_run_unfold:
  "abs_run (run tb) =
     \<lparr>working = (case devices (fst (connect tb start)) of None \<Rightarrow> [] | Some ds \<Rightarrow> map name ds),
      setup_failed = (verdict_of (snd (connect tb start)) \<noteq> Passed),
      collection_failed = (fst (snd (testcase (fst (connect tb start)))) \<noteq> Passed),
      evaluated =
        (if snd (snd (testcase (fst (connect tb start)))) = Skipped then None
         else Some \<lparr>rows = results_table (fst (testcase (fst (connect tb start)))),
                    index = fd_lookup (failed_dict (fst (testcase (fst (connect tb start))))),
                    passed = (snd (snd (testcase (fst (connect tb start)))) = Passed)\<rparr>)\<rparr>"
  by (simp add: abs_run_def run_unfold)

lemma run_refines:
  assumes "list_all connects tb" and "list_all delivers tb" and "distinct (map name tb)"
  shows "abs_run (run tb) = pipeline tb"
proof (cases learns tb rule: first_failure_cases)
  case all
  from assms(1) have conn: "devices (fst (connect tb start)) = Some tb"
    "snd (connect tb start) = None"
    by (simp_all add: connect_ok)
  from assms(2) all have ok: "sessions_ok (snapshots tb)"
    and distinct: "list_all (\<lambda>db. addresses_distinct (abs_snapshot (snd db))) (snapshots tb)"
    by (rule snapshots_delivered)+
  from conn all assms(1,3) ok distinct show ?thesis
    by (simp add: abs_run_unfold pipeline_def testcase_ok evaluate_sessions)
next
  case (first pre d post)
  with assms(1) have conn: "devices (fst (connect tb start)) = Some (pre @ d # post)"
    "snd (connect tb start) = None"
    by (simp_all add: connect_ok)
  from assms(2) first have "learn_result d = Inr None"
    by (simp add: delivers_absent)
  with conn first assms(1) show ?thesis
    by (simp add: abs_run_unfold pipeline_def testcase_learn_fails)
qed

text \<open>
  After a failed setup the run reports both a failed collection and an evaluation; the
  stages of the specification never do.
\<close>

lemma run_after_failed_setup:
  assumes "\<not> list_all connects tb"
  shows "collection_failed (abs_run (run tb))" and "evaluated (abs_run (run tb)) \<noteq> None"
proof -
  from connect_start(2) [OF assms] obtain s e where
    "connect tb start = (s, Some (Failed_signal e []))" "devices s = None"
    by auto
  then show "collection_failed (abs_run (run tb))" and "evaluated (abs_run (run tb)) \<noteq> None"
    by (simp_all add: abs_run_unfold testcase_no_devices)
qed

lemma pipeline_stops: "collection_failed (pipeline tb) \<Longrightarrow> evaluated (pipeline tb) = None"
  by (simp add: pipeline_def Let_def)

section \<open>The run implements the stages exactly when every device connects\<close>

text \<open>
  C2. On an inventory of devices with distinct names whose calls of \<open>bgp.learn()\<close>
  return (a readable snapshot that names no neighbour twice, or none), the run of the
  script gives what the three stages of the specification give (the working set, the
  two failure marks and the evaluation of the snapshots, or no evaluation after a
  device without a snapshot) exactly when every device connects. When a device does not
  connect the two differ, whatever the other devices are.
\<close>

theorem run_refines_pipeline_iff:
  assumes "list_all delivers tb" and "distinct (map name tb)"
  shows "abs_run (run tb) = pipeline tb \<longleftrightarrow> list_all connects tb"
proof
  assume "list_all connects tb"
  with assms show "abs_run (run tb) = pipeline tb"
    by (simp add: run_refines)
next
  assume eq: "abs_run (run tb) = pipeline tb"
  show "list_all connects tb"
  proof (rule ccontr)
    assume "\<not> list_all connects tb"
    from run_after_failed_setup [OF this] pipeline_stops [of tb] eq show False
      by simp
  qed
qed

theorem run_refines_pipeline_iff_witness:
  "working (abs_run (run [router ''R1'' r1_established, router ''R2'' r1_idle])) = [''R1'', ''R2''] \<and>
   map_option rows (evaluated (abs_run (run [router ''R1'' r1_established, router ''R2'' r1_idle]))) =
     Some [[''default'', ''10.0.0.1'', ''Established'', ''Passed''],
           [''default'', ''10.0.0.2'', ''Idle'', ''Failed'']] \<and>
   map_option passed (evaluated (abs_run (run [router ''R1'' r1_established, router ''R2'' r1_idle]))) =
     Some False \<and>
   abs_run (run [router ''R1'' r1_idle, silent ''R2'', router ''R3'' r1_idle]) =
     \<lparr>working = [''R1'', ''R2'', ''R3''], setup_failed = False, collection_failed = True,
      evaluated = None\<rparr> \<and>
   abs_run (run [router ''R1'' r1_idle, unreachable ''R2'']) \<noteq>
     pipeline [router ''R1'' r1_idle, unreachable ''R2'']"
  using run_refines_pipeline_iff [of "[router ''R1'' r1_established, router ''R2'' r1_idle]"]
    run_refines_pipeline_iff [of "[router ''R1'' r1_idle, silent ''R2'', router ''R3'' r1_idle]"]
    run_refines_pipeline_iff [of "[router ''R1'' r1_idle, unreachable ''R2'']"]
  by (simp add: pipeline_def addresses_distinct_def evaluate_def abs_sessions_def flat_def
      failing_neighbors_def spec_row_def spec_verdict_def bgp_eval)

end
