(* ===== verification/Outcomes.thy ===== *)
theory Outcomes
  imports Lifecycle
begin

text \<open>
  A run as a function of the inventory: the verdicts of the four sections (\<open>verdicts\<close>),
  the log (\<open>run_log\<close>), the table (\<open>run_rows\<close>) and \<open>failed_dict\<close> (\<open>run_index\<close>),
  computed from the outcomes of the external calls of the devices, without a state and
  without a loop. \<open>learn_outcome\<close> is the verdict of \<open>learn_bgp\<close> on the devices it is
  handed and \<open>checked\<close> the snapshots that \<open>check_bgp\<close> is given; \<open>check_outcome\<close>,
  \<open>check_trace\<close>, \<open>check_rows\<close> and \<open>check_index\<close> are the verdict, the log, the table
  and \<open>failed_dict\<close> of \<open>check_bgp\<close> on any dictionary of snapshots, readable or not.

  The lemmas show that \<open>check_bgp\<close>, the testcase and the run give exactly these, on
  every input: there is no inventory on which a run does anything else.
\<close>

section \<open>The outcome of the test and of a run\<close>

definition check_outcome :: "(string, pyval) dict \<Rightarrow> verdict" where
  "check_outcome sessions =
     (if \<not> sessions_ok sessions then Errored
      else if index_of sessions [] = [] then Passed else Failed)"

definition check_trace :: "(string, pyval) dict \<Rightarrow> log_event list" where
  "check_trace sessions =
     device_logs [] (takeWhile (\<lambda>db. snapshot_ok (snd db)) sessions) @
     (if sessions_ok sessions \<and> index_of sessions [] \<noteq> []
      then [Error_json (index_of sessions [])] else [])"

text \<open>
  The neighbours that \<open>check_bgp\<close> visits, device by device: all neighbours of the
  snapshots before the first unreadable one, and of that one those that are read before
  the call that raises.
\<close>

definition visited :: "(string, pyval) dict \<Rightarrow> (string \<times> (string \<times> string \<times> pyval) list) list" where
  "visited sessions =
     map (\<lambda>db. (fst db, fst (read_snapshot (snd db))))
       (tried (\<lambda>db. snapshot_ok (snd db)) sessions)"

definition check_rows :: "(string, pyval) dict \<Rightarrow> row list" where
  "check_rows sessions = concat (map (\<lambda>v. map row_of (snd v)) (visited sessions))"

definition check_index :: "(string, pyval) dict \<Rightarrow> failures" where
  "check_index sessions = fold (\<lambda>v. record_all (fst v) (fails (snd v))) (visited sessions) []"

definition learn_outcome :: "device list \<Rightarrow> verdict" where
  "learn_outcome ds =
     (case dropWhile learns ds of
        [] \<Rightarrow> Passed
      | d # _ \<Rightarrow> (case learn_result d of Inl _ \<Rightarrow> Errored | Inr _ \<Rightarrow> Failed))"

text \<open>The snapshots that \<open>check_bgp\<close> is given in a run, if it is not skipped.\<close>

definition checked :: "device list \<Rightarrow> (string, pyval) dict option" where
  "checked tb =
     (if \<not> list_all connects tb then Some []
      else if learn_outcome tb = Failed then None
      else Some (learned (takeWhile learns tb)))"

definition verdicts :: "device list \<Rightarrow> report" where
  "verdicts tb =
     \<lparr>setup_verdict = (if list_all connects tb then Passed else Failed),
      learn_verdict = (if list_all connects tb then learn_outcome tb else Errored),
      check_verdict = (case checked tb of None \<Rightarrow> Skipped | Some m \<Rightarrow> check_outcome m),
      cleanup_verdict = Passed\<rparr>"

definition run_log :: "device list \<Rightarrow> log_event list" where
  "run_log tb =
     banners (tried connects tb) @
     (if list_all connects tb then learn_banners (tried learns tb) else []) @
     (case checked tb of None \<Rightarrow> [] | Some m \<Rightarrow> check_trace m) @
     [Info ''Aetest Common Cleanup'']"

definition run_rows :: "device list \<Rightarrow> row list" where
  "run_rows tb = (case checked tb of None \<Rightarrow> [] | Some m \<Rightarrow> check_rows m)"

definition run_index :: "device list \<Rightarrow> failures" where
  "run_index tb = (case checked tb of None \<Rightarrow> [] | Some m \<Rightarrow> check_index m)"

section \<open>The test on any snapshots\<close>

lemma verdict_of_method_error: "method_error e \<Longrightarrow> verdict_of (Some e) = Errored"
  by (cases e) simp_all

lemma visited_whole:
  assumes "sessions_ok sessions"
  shows "visited sessions = map (\<lambda>db. (fst db, entries (snd db))) sessions"
  using assms
  by (simp add: visited_def sessions_ok_def all_good_simps list_all_iff read_snapshot_ok)

lemma visited_stops:
  assumes "sessions_ok pre" and "read_snapshot (snd db) = (es, Some e)"
  shows "visited (pre @ db # post) = map (\<lambda>db. (fst db, entries (snd db))) pre @ [(fst db, es)]"
proof -
  from assms(2) have "\<not> snapshot_ok (snd db)"
    by (simp flip: read_snapshot_returns_iff)
  with assms show ?thesis
    by (simp add: visited_def sessions_ok_def first_failure_simps list_all_iff read_snapshot_ok)
qed

lemma check_tables_whole:
  assumes "sessions_ok sessions"
  shows "check_rows sessions = rows_of sessions" "check_index sessions = index_of sessions []"
  using assms
  by (simp_all add: check_rows_def check_index_def visited_whole rows_of_def index_of_def
      fold_map comp_def)

lemma check_tables_stops:
  assumes "sessions_ok pre" and "read_snapshot (snd db) = (es, Some e)"
  shows "check_rows (pre @ db # post) = rows_of pre @ map row_of es"
    "check_index (pre @ db # post) = record_all (fst db) (fails es) (index_of pre [])"
  using assms
  by (simp_all add: check_rows_def check_index_def visited_stops rows_of_def index_of_def
      fold_map comp_def)

lemma check_bgp_total:
  assumes "all_bgp_sessions s = Some sessions"
  shows "verdict_of (snd (check_bgp s)) = check_outcome sessions"
    and "log (fst (check_bgp s)) = log s @ check_trace sessions"
    and "results_table (fst (check_bgp s)) = check_rows sessions"
    and "failed_dict (fst (check_bgp s)) = check_index sessions"
proof -
  have "verdict_of (snd (check_bgp s)) = check_outcome sessions \<and>
      log (fst (check_bgp s)) = log s @ check_trace sessions \<and>
      results_table (fst (check_bgp s)) = check_rows sessions \<and>
      failed_dict (fst (check_bgp s)) = check_index sessions"
  proof (cases sessions rule: sessions_cases)
    case whole
    with assms show ?thesis
      by (simp add: snd_check_bgp log_check_bgp results_table_check_bgp failed_dict_check_bgp
          check_outcome_def check_trace_def check_tables_whole
          all_good_simps [OF whole [unfolded sessions_ok_def]])
  next
    case (stops pre db post es e)
    then have bad: "\<not> snapshot_ok (snd db)"
      by (simp flip: read_snapshot_returns_iff)
    note split = first_failure_simps [OF stops(2) [unfolded sessions_ok_def] bad, of post]
    from stops(3) have "method_error e"
      using read_snapshot_raises [of "snd db" e] by simp
    with assms stops split bad show ?thesis
      by (simp add: check_bgp_stops check_outcome_def check_trace_def sessions_ok_def
          verdict_of_method_error check_tables_stops [unfolded sessions_ok_def])
  qed
  then show "verdict_of (snd (check_bgp s)) = check_outcome sessions"
    and "log (fst (check_bgp s)) = log s @ check_trace sessions"
    and "results_table (fst (check_bgp s)) = check_rows sessions"
    and "failed_dict (fst (check_bgp s)) = check_index sessions"
    by simp_all
qed

lemma check_empty [simp]:
  "check_outcome [] = Passed" "check_trace [] = []" "check_rows [] = []" "check_index [] = []"
  by (simp_all add: check_outcome_def check_trace_def check_rows_def check_index_def
      visited_def tried_def)

section \<open>The testcase on any devices\<close>

lemma learn_outcome_simps:
  "list_all learns ds \<Longrightarrow> learn_outcome ds = Passed"
  "list_all learns pre \<Longrightarrow> learn_result d = Inr None \<Longrightarrow> learn_outcome (pre @ d # post) = Failed"
  "list_all learns pre \<Longrightarrow> learn_result d = Inl e \<Longrightarrow> learn_outcome (pre @ d # post) = Errored"
  by (simp_all add: learn_outcome_def all_good_simps first_failure_simps learns_def info_of_def)

text \<open>
  The testcase when the setup has handed on devices: \<open>check_bgp\<close> is skipped when
  \<open>learn_bgp\<close> fails, and evaluates what was stored otherwise.
\<close>

lemma testcase_total:
  assumes "devices s = Some ds"
  shows "testcase s =
     (if learn_outcome ds = Failed
      then (fst (learn_bgp s), Failed, Skipped)
      else (fst (check_bgp (fst (learn_bgp s))), learn_outcome ds,
            check_outcome (learned (takeWhile learns ds))))"
    and "all_bgp_sessions (fst (learn_bgp s)) = Some (learned (takeWhile learns ds))"
    and "log (fst (learn_bgp s)) = log s @ learn_banners (tried learns ds)"
proof -
  have "testcase s =
     (if learn_outcome ds = Failed
      then (fst (learn_bgp s), Failed, Skipped)
      else (fst (check_bgp (fst (learn_bgp s))), learn_outcome ds,
            check_outcome (learned (takeWhile learns ds)))) \<and>
    all_bgp_sessions (fst (learn_bgp s)) = Some (learned (takeWhile learns ds)) \<and>
    log (fst (learn_bgp s)) = log s @ learn_banners (tried learns ds)"
  proof (cases learns ds rule: first_failure_cases)
    case all
    with assms show ?thesis
      by (simp add: testcase_def split_beta learn_bgp_ok check_bgp_total learn_outcome_simps
          all_good_simps)
  next
    case (first pre d post)
    note split = first_failure_simps [OF first(2,3), of post]
    from first(3) show ?thesis
    proof (cases d rule: learns_cases)
      case absent
      then have "learn_exit d = Failed_signal (learn_message d) [''common_cleanup'']"
        by (simp add: learn_exit_def)
      with assms first split absent show ?thesis
        by (simp add: testcase_def learn_bgp_fails learn_outcome_simps)
    next
      case (raised e)
      then have "learn_exit d = Exception e"
        by (simp add: learn_exit_def)
      with assms first split raised show ?thesis
        by (simp add: testcase_def split_beta learn_bgp_fails check_bgp_total
            learn_outcome_simps)
    qed simp
  qed
  then show "testcase s =
     (if learn_outcome ds = Failed
      then (fst (learn_bgp s), Failed, Skipped)
      else (fst (check_bgp (fst (learn_bgp s))), learn_outcome ds,
            check_outcome (learned (takeWhile learns ds))))"
    and "all_bgp_sessions (fst (learn_bgp s)) = Some (learned (takeWhile learns ds))"
    and "log (fst (learn_bgp s)) = log s @ learn_banners (tried learns ds)"
    by simp_all
qed

section \<open>The run on any inventory\<close>

lemma run_outcome:
  "snd (run tb) = verdicts tb" "log (fst (run tb)) = run_log tb"
  "results_table (fst (run tb)) = run_rows tb" "failed_dict (fst (run tb)) = run_index tb"
proof -
  have "snd (run tb) = verdicts tb \<and> log (fst (run tb)) = run_log tb \<and>
      results_table (fst (run tb)) = run_rows tb \<and> failed_dict (fst (run tb)) = run_index tb"
  proof (cases connects tb rule: first_failure_cases)
    case all
    let ?s = "fst (connect tb start)"
    from all have "devices ?s = Some tb" "snd (connect tb start) = None" "log ?s = banners tb"
      "results_table ?s = []" "failed_dict ?s = []"
      by (simp_all add: connect_start(1))
    with all testcase_total [of ?s tb] show ?thesis
      by (simp add: run_unfold check_bgp_total learn_bgp_frame(4,5) verdicts_def run_log_def
          run_rows_def run_index_def checked_def all_good_simps)
  next
    case (first pre d post)
    note split = first_failure_simps [OF first(2,3), of post]
    from first have "devices (fst (connect tb start)) = None"
      and "snd (connect tb start) = Some (Failed_signal (connect_message d (connect_error d)) [])"
      and "log (fst (connect tb start)) = banners (pre @ [d])"
      by (simp_all add: connect_fails start_def)
    with first split show ?thesis
      by (simp add: run_unfold testcase_no_devices verdicts_def run_log_def run_rows_def
          run_index_def checked_def)
  qed
  then show "snd (run tb) = verdicts tb" "log (fst (run tb)) = run_log tb"
    "results_table (fst (run tb)) = run_rows tb" "failed_dict (fst (run tb)) = run_index tb"
    by simp_all
qed

lemma learn_outcome_Passed_iff: "learn_outcome ds = Passed \<longleftrightarrow> list_all learns ds"
proof (cases learns ds rule: first_failure_cases)
  case all
  then show ?thesis by (simp add: learn_outcome_simps)
next
  case (first pre d post)
  from first(3) have "learn_outcome (pre @ d # post) \<noteq> Passed"
    using first(2) by (cases d rule: learns_cases) (simp_all add: learn_outcome_simps)
  with first show ?thesis
    by (simp add: first_failure_simps)
qed

text \<open>
  C3. Whatever the inventory is, the verdicts of the four sections, the log, the table
  and \<open>failed_dict\<close> of a run are those computed from the outcomes of the external
  calls. A device that does not connect fails the setup, makes \<open>learn_bgp\<close> end with
  an error and \<open>check_bgp\<close> pass on no snapshot; otherwise \<open>learn_bgp\<close> passes, fails
  at the first device without a snapshot (and \<open>check_bgp\<close> is skipped) or ends with the
  exception of the first call that raises, and \<open>check_bgp\<close> evaluates the snapshots
  stored until then: it ends with an error when one of them cannot be read, passes when
  none has a failing neighbour and fails otherwise. The log holds the banners of the
  devices each loop got to, a table for every snapshot before the first unreadable
  one, the dump of the failures when \<open>check_bgp\<close> fails, and the line of the cleanup;
  the table and \<open>failed_dict\<close> hold the neighbours that \<open>check_bgp\<close> visited.
\<close>

theorem run_total:
  "snd (run tb) = verdicts tb \<and> log (fst (run tb)) = run_log tb \<and>
   results_table (fst (run tb)) = run_rows tb \<and> failed_dict (fst (run tb)) = run_index tb"
  by (simp add: run_outcome)

theorem run_total_witness:
  "snd (run [router ''R1'' r1_idle, router ''R2'' half_read, broken ''R3'', silent ''R4'']) =
     \<lparr>setup_verdict = Passed, learn_verdict = Errored, check_verdict = Errored,
      cleanup_verdict = Passed\<rparr> \<and>
   log (fst (run [router ''R1'' r1_idle, router ''R2'' half_read, broken ''R3'', silent ''R4''])) =
     banners [router ''R1'' r1_idle, router ''R2'' half_read, broken ''R3'', silent ''R4''] @
     learn_banners [router ''R1'' r1_idle, router ''R2'' half_read, broken ''R3''] @
     [Info (''Device R1 BGP Neighbors:'' @ [CHR 0x0A]),
      Tabulate [[''default'', ''10.0.0.2'', ''Idle'', ''Failed'']] headers,
      Info ''Aetest Common Cleanup''] \<and>
   results_table (fst (run [router ''R1'' r1_idle, router ''R2'' half_read, broken ''R3'', silent ''R4''])) =
     [[''default'', ''10.0.0.2'', ''Idle'', ''Failed''],
      [''default'', ''10.0.0.5'', ''Idle'', ''Failed'']] \<and>
   failed_dict (fst (run [router ''R1'' r1_idle, router ''R2'' half_read, broken ''R3'', silent ''R4''])) =
     [(''R1'', [(''10.0.0.2'', peer ''Idle'')]), (''R2'', [(''10.0.0.5'', peer ''Idle'')])]"
  using run_total [of "[router ''R1'' r1_idle, router ''R2'' half_read, broken ''R3'', silent ''R4'']"]
  by (simp add: verdicts_def run_log_def run_rows_def run_index_def checked_def
      learn_outcome_def check_outcome_def check_trace_def check_rows_def check_index_def
      visited_def tried_def learned_def fails_def read_snapshot_ok bgp_eval)

text \<open>
  C4. What a run with four passed sections means: the four verdicts are \<open>Passed\<close>
  exactly when every device of the inventory connects, every device delivers a
  snapshot, every snapshot that \<open>learn_bgp\<close> has stored can be read, and the lowered
  session state of every neighbour in them is \<open>established\<close>. The snapshots stored are
  those of \<open>learned\<close>: one for each device name, so the snapshot of every device when
  no name occurs twice in the inventory.
\<close>

theorem run_all_passed_iff:
  "snd (run tb) =
     \<lparr>setup_verdict = Passed, learn_verdict = Passed, check_verdict = Passed,
      cleanup_verdict = Passed\<rparr> \<longleftrightarrow>
   list_all connects tb \<and> list_all learns tb \<and> sessions_ok (learned tb) \<and>
   list_all (\<lambda>db. list_all (\<lambda>e. state_of (snd (snd e)) = ''established'')
       (entries (snd db))) (learned tb)"
proof (cases "list_all connects tb \<and> list_all learns tb")
  case True
  then show ?thesis
    by (simp add: run_outcome verdicts_def checked_def learn_outcome_Passed_iff [THEN iffD2]
        all_good_simps check_outcome_def index_of_empty_iff)
next
  case False
  then show ?thesis
    by (auto simp: run_outcome verdicts_def learn_outcome_Passed_iff)
qed

theorem run_all_passed_iff_witness:
  "snd (run [router ''R1'' r1_established, router ''R2'' r1_established]) =
     \<lparr>setup_verdict = Passed, learn_verdict = Passed, check_verdict = Passed,
      cleanup_verdict = Passed\<rparr> \<and>
   snd (run [router ''R1'' r1_established, router ''R2'' r1_idle]) \<noteq>
     \<lparr>setup_verdict = Passed, learn_verdict = Passed, check_verdict = Passed,
      cleanup_verdict = Passed\<rparr> \<and>
   snd (run [router ''R1'' r1_established, silent ''R2'']) \<noteq>
     \<lparr>setup_verdict = Passed, learn_verdict = Passed, check_verdict = Passed,
      cleanup_verdict = Passed\<rparr>"
  using run_all_passed_iff [of "[router ''R1'' r1_established, router ''R2'' r1_established]"]
    run_all_passed_iff [of "[router ''R1'' r1_established, router ''R2'' r1_idle]"]
    run_all_passed_iff [of "[router ''R1'' r1_established, silent ''R2'']"]
  by (simp add: learned_def bgp_eval)

section \<open>How a run ends and which devices it reports on\<close>

lemma goes_to_cleanup_iff:
  "''common_cleanup'' \<in> set (goto_of (snd (learn_bgp (fst (connect tb start))))) \<longleftrightarrow>
     list_all connects tb \<and> learn_outcome tb = Failed"
proof (cases "list_all connects tb")
  case True
  let ?s = "fst (connect tb start)"
  from True have "devices ?s = Some tb"
    by (simp add: connect_start(1))
  then show ?thesis
  proof (cases ?s rule: learn_bgp_cases)
    case (first pre d post)
    with \<open>devices ?s = Some tb\<close> have tb: "tb = pre @ d # post"
      by simp
    from first(2) have "learn_result d = Inr None \<Longrightarrow> learn_outcome tb = Failed"
      and "learn_result d = Inl e \<Longrightarrow> learn_outcome tb = Errored" for e
      by (simp_all add: tb learn_outcome_simps)
    with first(3,4) True show ?thesis
      by (cases d rule: learns_cases) (simp_all add: learn_exit_def)
  qed (simp_all add: True learn_outcome_simps)
next
  case False
  then obtain s e where "connect tb start = (s, e)" "devices s = None"
    using connect_start(2) [of tb] by auto
  with False show ?thesis
    by (simp add: learn_bgp_no_devices)
qed

text \<open>
  C30. Every run ends: from the initial configuration the steps reach \<open>Finished\<close>
  after exactly four sections, or after exactly three when \<open>check_bgp\<close> is skipped, and
  in no other number of steps; the configuration they end in is the state and the
  verdicts that \<open>run\<close> computes. \<open>check_bgp\<close> is skipped exactly when every device
  connects and the first device that delivers no snapshot left no \<open>info\<close> (and did not
  raise), which is where \<open>learn_bgp\<close> fails with \<open>goto\<close> \<open>common_cleanup\<close>.
\<close>

theorem run_ends:
  "(step tb ^^ n) initial (Finished, s, r) \<longleftrightarrow>
     n = (if list_all connects tb \<and> learn_outcome tb = Failed then 3 else 4) \<and>
     (s, r) = run tb"
proof -
  let ?n = "if list_all connects tb \<and> learn_outcome tb = Failed then 3 else 4 :: nat"
  have path: "(step tb ^^ ?n) initial (Finished, fst (run tb), snd (run tb))"
    using run_path [of tb] by (simp add: goes_to_cleanup_iff)
  show ?thesis
  proof
    assume steps: "(step tb ^^ n) initial (Finished, s, r)"
    have "n = ?n \<and> (Finished, s, r) = (Finished, fst (run tb), snd (run tb))"
    proof (rule final_steps_unique [where R = "step tb" and a = initial])
      show "b = c" if "step tb a b" and "step tb a c" for a b c
        using that by (rule step_unique)
    qed (rule steps path finished_final)+
    then show "n = ?n \<and> (s, r) = run tb"
      by (simp add: prod_eq_iff)
  next
    assume "n = ?n \<and> (s, r) = run tb"
    with path show "(step tb ^^ n) initial (Finished, s, r)"
      by (cases "run tb") simp
  qed
qed

theorem run_ends_witness:
  "(step [router ''R1'' r1_idle, silent ''R2''] ^^ 3) initial
     (Finished, run [router ''R1'' r1_idle, silent ''R2'']) \<and>
   \<not> (step [router ''R1'' r1_idle, silent ''R2''] ^^ 4) initial
     (Finished, run [router ''R1'' r1_idle, silent ''R2'']) \<and>
   (step [router ''R1'' r1_idle, broken ''R2''] ^^ 4) initial
     (Finished, run [router ''R1'' r1_idle, broken ''R2''])"
  using run_ends [where tb = "[router ''R1'' r1_idle, silent ''R2'']" and n = 3
      and s = "fst (run [router ''R1'' r1_idle, silent ''R2''])"
      and r = "snd (run [router ''R1'' r1_idle, silent ''R2''])"]
    run_ends [where tb = "[router ''R1'' r1_idle, silent ''R2'']" and n = 4
      and s = "fst (run [router ''R1'' r1_idle, silent ''R2''])"
      and r = "snd (run [router ''R1'' r1_idle, silent ''R2''])"]
    run_ends [where tb = "[router ''R1'' r1_idle, broken ''R2'']" and n = 4
      and s = "fst (run [router ''R1'' r1_idle, broken ''R2''])"
      and r = "snd (run [router ''R1'' r1_idle, broken ''R2''])"]
  by (simp add: learn_outcome_def del: relpowp.simps)

lemma title_in_run_log:
  "Info (''Device '' @ n @ '' BGP Neighbors:'' @ [CHR 0x0A]) \<in> set (run_log tb) \<longleftrightarrow>
     (\<exists>m. checked tb = Some m \<and> n \<in> fst ` set (takeWhile (\<lambda>db. snapshot_ok (snd db)) m))"
  by (cases "checked tb")
    (auto simp: run_log_def check_trace_def banners_def learn_banners_def
      title_in_device_logs image_iff)

text \<open>
  The snapshots that \<open>check_bgp\<close> reads to the end in a run on an inventory with
  distinct names: those of the devices before the first one that delivers no snapshot
  or one that cannot be read.
\<close>

lemma readable_learned:
  assumes "distinct (map name tb)"
  shows "takeWhile (\<lambda>db. snapshot_ok (snd db)) (learned (takeWhile learns tb)) =
     map (\<lambda>d. (name d, the (info_of d)))
       (takeWhile (\<lambda>d. learns d \<and> snapshot_ok (the (info_of d))) tb)"
proof -
  from assms have "distinct (map name (takeWhile learns tb @ dropWhile learns tb))"
    by simp
  then have "distinct (map name (takeWhile learns tb))"
    by (simp del: takeWhile_dropWhile_id)
  then show ?thesis
    by (simp add: learned_distinct takeWhile_map comp_def takeWhile_takeWhile_conj)
qed

text \<open>
  C29. Which devices a run reports on. On an inventory with distinct names, the title
  of a device, which precedes its table, is logged exactly when every device connects,
  \<open>learn_bgp\<close> does not fail at a device that left no \<open>info\<close>, and the device and
  every device before it delivered a snapshot that can be read. So every device is
  evaluated when all devices connect and deliver readable snapshots, and no device at
  all when one does not connect or leaves no \<open>info\<close>.
\<close>

theorem device_reported_iff:
  assumes "distinct (map name tb)" and "d \<in> set tb"
  shows "Info (''Device '' @ name d @ '' BGP Neighbors:'' @ [CHR 0x0A]) \<in> set (log (fst (run tb)))
     \<longleftrightarrow>
     list_all connects tb \<and> learn_outcome tb \<noteq> Failed \<and>
     d \<in> set (takeWhile (\<lambda>d. learns d \<and> snapshot_ok (the (info_of d))) tb)"
proof -
  let ?ds = "takeWhile (\<lambda>d. learns d \<and> snapshot_ok (the (info_of d))) tb"
  have "name d \<in> name ` set ?ds \<longleftrightarrow> d \<in> set ?ds"
  proof
    assume "name d \<in> name ` set ?ds"
    then obtain x where x: "x \<in> set ?ds" "name d = name x"
      by auto
    from x(1) have "x \<in> set tb"
      by (auto dest: set_takeWhileD)
    with assms x(2) have "x = d"
      by (auto simp: distinct_map dest: inj_onD)
    with x(1) show "d \<in> set ?ds"
      by simp
  qed auto
  moreover from assms(1)
  have "(\<exists>m. checked tb = Some m \<and>
        name d \<in> fst ` set (takeWhile (\<lambda>db. snapshot_ok (snd db)) m)) \<longleftrightarrow>
      list_all connects tb \<and> learn_outcome tb \<noteq> Failed \<and> name d \<in> name ` set ?ds"
    by (auto simp: checked_def readable_learned image_image)
  ultimately show ?thesis
    by (simp only: run_outcome title_in_run_log)
qed

theorem device_reported_iff_witness:
  "Info (''Device R1 BGP Neighbors:'' @ [CHR 0x0A]) \<in>
     set (log (fst (run [router ''R1'' r1_idle, router ''R2'' half_read, router ''R3'' r1_idle]))) \<and>
   Info (''Device R2 BGP Neighbors:'' @ [CHR 0x0A]) \<notin>
     set (log (fst (run [router ''R1'' r1_idle, router ''R2'' half_read, router ''R3'' r1_idle]))) \<and>
   Info (''Device R3 BGP Neighbors:'' @ [CHR 0x0A]) \<notin>
     set (log (fst (run [router ''R1'' r1_idle, router ''R2'' half_read, router ''R3'' r1_idle])))"
  using device_reported_iff [of "[router ''R1'' r1_idle, router ''R2'' half_read, router ''R3'' r1_idle]"
      "router ''R1'' r1_idle"]
    device_reported_iff [of "[router ''R1'' r1_idle, router ''R2'' half_read, router ''R3'' r1_idle]"
      "router ''R2'' half_read"]
    device_reported_iff [of "[router ''R1'' r1_idle, router ''R2'' half_read, router ''R3'' r1_idle]"
      "router ''R3'' r1_idle"]
  by (simp add: learn_outcome_def router_eq_iff)

end
