(* ===== verification/Snapshot_Types.thy ===== *)
theory Snapshot_Types
  imports Check_BGP
begin

text \<open>
  A schema for snapshots. The code never checks the type of what it reads; the types
  it relies on are those of the values on the path from a snapshot to a session state.
  \<open>pytype\<close> describes such types: the types of the leaves, lists, dictionaries whose
  values all have one type (\<open>TDict\<close>), and dictionaries in which some keys, when they
  are present, hold a value of a given type (\<open>TRecord\<close>; other keys are free).
  \<open>bgp_schema\<close> is the type of a snapshot. The lemmas show that it is exactly the type
  of the snapshots that \<open>check_bgp\<close> reads without an exception, that every value
  the test stores in \<open>failed_dict\<close> has the type of the attributes of a neighbour, and
  that \<open>failed_dict\<close> is a well-formed value when the snapshots are.
\<close>

section \<open>Types of values\<close>

datatype pytype =
    TAny
  | TNone
  | TBool
  | TInt
  | TStr
  | TList pytype
  | TDict pytype
  | TRecord "(string \<times> pytype) list"

fun has_type :: "pyval \<Rightarrow> pytype \<Rightarrow> bool" where
  "has_type v TAny = True"
| "has_type v TNone = (v = PNone)"
| "has_type v TBool = (case v of PBool _ \<Rightarrow> True | _ \<Rightarrow> False)"
| "has_type v TInt = (case v of PInt _ \<Rightarrow> True | _ \<Rightarrow> False)"
| "has_type v TStr = is_str v"
| "has_type v (TList t) = (case v of PList vs \<Rightarrow> list_all (\<lambda>x. has_type x t) vs | _ \<Rightarrow> False)"
| "has_type v (TDict t) =
     (case v of PDict d \<Rightarrow> list_all (\<lambda>kv. has_type (snd kv) t) d | _ \<Rightarrow> False)"
| "has_type v (TRecord fts) =
     (case v of
        PDict d \<Rightarrow>
          list_all (\<lambda>ft. case map_of d (fst ft) of None \<Rightarrow> True | Some x \<Rightarrow> has_type x (snd ft))
            fts
      | _ \<Rightarrow> False)"

definition neighbor_schema :: pytype where
  "neighbor_schema = TRecord [(''session_state'', TStr)]"

definition vrf_schema :: pytype where
  "vrf_schema = TRecord [(''neighbor'', TDict neighbor_schema)]"

definition bgp_schema :: pytype where
  "bgp_schema =
     TRecord [(''instance'', TRecord [(''default'', TRecord [(''vrf'', TDict vrf_schema)])])]"

text \<open>An expression returns, and what it returns satisfies a predicate.\<close>

definition reads :: "('e, 'a) raising \<Rightarrow> ('a \<Rightarrow> bool) \<Rightarrow> bool" where
  "reads m Q = (case m of Inl _ \<Rightarrow> False | Inr y \<Rightarrow> Q y)"

text \<open>
  The type of \<open>failed_dict\<close>: device name to neighbour address to attributes of a
  neighbour. \<open>sessions_wf\<close> says that \<open>self.all_bgp_sessions\<close>, when it is set, is a
  well-formed value: no dictionary in it holds a key twice.
\<close>

definition failures_schema :: pytype where
  "failures_schema = TDict (TDict neighbor_schema)"

definition sessions_wf :: "script \<Rightarrow> bool" where
  "sessions_wf s =
     (case all_bgp_sessions s of None \<Rightarrow> True | Some sessions \<Rightarrow> wf_pyval (PDict sessions))"

section \<open>The accessors and the schema\<close>

text \<open>
  One step of a path: \<open>x.get(k, dflt)\<close> followed by an expression that reads values of
  type \<open>t\<close> reads exactly the dictionaries in which \<open>k\<close>, when present, has type \<open>t\<close>.
\<close>

lemma reads_get:
  assumes "\<And>v. reads (f v) Q \<longleftrightarrow> has_type v t" and "has_type dflt t"
  shows "reads (ebind (py_get x k dflt) f) Q \<longleftrightarrow> has_type x (TRecord [(k, t)])"
  using assms by (cases x) (simp_all add: reads_def dict_get_def split: option.splits)

lemma reads_items:
  assumes "\<And>kv. P kv \<longleftrightarrow> has_type (snd kv) t"
  shows "reads (py_items v) (list_all P) \<longleftrightarrow> has_type v (TDict t)"
  using assms by (cases v) (simp_all add: reads_def list_all_iff)

lemma reads_lower: "reads (py_lower v) (\<lambda>_. True) \<longleftrightarrow> has_type v TStr"
  by (cases v) (simp_all add: reads_def)

lemma props_ok_iff_typed: "props_ok props \<longleftrightarrow> has_type props neighbor_schema"
  unfolding neighbor_schema_def session_state_def
    props_ok_def [unfolded returns_def, folded reads_def [of _ "\<lambda>_. True"]]
  by (intro reads_get reads_lower) simp

lemma vrf_ok_iff_typed: "vrf_ok vrf_data \<longleftrightarrow> has_type vrf_data vrf_schema"
  unfolding vrf_schema_def neighbors_def vrf_ok_def [folded reads_def]
  by (intro reads_get reads_items props_ok_iff_typed) simp

lemma snapshot_ok_typed: "snapshot_ok bgp_info \<longleftrightarrow> has_type bgp_info bgp_schema"
  unfolding bgp_schema_def vrfs_dict_def snapshot_ok_def [folded reads_def]
  by (intro reads_get reads_items vrf_ok_iff_typed) simp_all

section \<open>The dictionary of failures\<close>

lemma has_type_fd_value:
  "has_type (fd_value fd) failures_schema \<longleftrightarrow> fd_all (\<lambda>v. has_type v neighbor_schema) fd"
  by (simp add: fd_value_def failures_schema_def fd_all_def list_all_iff)

lemma sessions_wf_with_sessions [simp]:
  "sessions_wf (with_sessions sessions) \<longleftrightarrow> wf_pyval (PDict sessions)"
  by (simp add: sessions_wf_def)

lemma sessions_wfD:
  "sessions_wf s \<Longrightarrow> all_bgp_sessions s = Some sessions \<Longrightarrow> db \<in> set sessions \<Longrightarrow>
     wf_pyval (snd db)"
  by (simp add: sessions_wf_def list_all_iff)

section \<open>Typed snapshots\<close>

text \<open>
  C10. \<open>check_bgp\<close> ends with one of its two results, and not with an exception,
  exactly when every snapshot has the type \<open>bgp_schema\<close>: the levels \<open>instance\<close>,
  \<open>default\<close>, \<open>vrf\<close> and \<open>neighbor\<close> are dictionaries where they are present, and a
  \<open>session_state\<close> that is present is a string.
\<close>

theorem typed_iff_no_exception:
  assumes "all_bgp_sessions s = Some sessions"
  shows "list_all (\<lambda>db. has_type (snd db) bgp_schema) sessions \<longleftrightarrow>
     snd (check_bgp s) = Some (Passed_signal ''All BGP neighbors are established.'') \<or>
     snd (check_bgp s) = Some (Failed_signal ''Some BGP neighbors are not established.'' [])"
proof (cases "sessions_ok sessions")
  case True
  with assms show ?thesis
    by (simp add: snd_check_bgp sessions_ok_def snapshot_ok_typed)
next
  case False
  with assms obtain e where "snd (check_bgp s) = Some e" "method_error e"
    by (auto dest: check_bgp_raises)
  with False show ?thesis
    by (auto simp: sessions_ok_def snapshot_ok_typed method_error_iff)
qed

theorem typed_iff_no_exception_witness:
  "has_type no_keys bgp_schema \<and> \<not> has_type bad_state bgp_schema \<and>
   snd (check_bgp (with_sessions [(''R1'', no_keys)])) =
     Some (Passed_signal ''All BGP neighbors are established.'') \<and>
   snd (check_bgp (with_sessions [(''R1'', bad_state)])) \<noteq>
     Some (Failed_signal ''Some BGP neighbors are not established.'' [])"
  using typed_iff_no_exception [of "with_sessions [(''R1'', no_keys)]" "[(''R1'', no_keys)]"]
    typed_iff_no_exception [of "with_sessions [(''R1'', bad_state)]" "[(''R1'', bad_state)]"]
  by (simp add: snapshot_ok_typed [symmetric] snd_check_bgp bgp_eval fails_def)

text \<open>
  C37. Whatever the snapshots are, and also when \<open>check_bgp\<close> stops at an exception,
  \<open>failed_dict\<close> has the type of a dictionary of dictionaries of attributes of
  neighbours: every value stored in it is a dictionary whose \<open>session_state\<close>, when it
  has one, is a string. When the snapshots are well-formed values, so is \<open>failed_dict\<close>,
  the value that \<open>json.dumps\<close> is given: no dictionary in it holds a key twice.
\<close>

theorem failed_dict_typed:
  "has_type (fd_value (failed_dict (fst (check_bgp s)))) failures_schema \<and>
   (sessions_wf s \<longrightarrow> wf_pyval (fd_value (failed_dict (fst (check_bgp s)))))"
proof (intro conjI impI)
  show "has_type (fd_value (failed_dict (fst (check_bgp s)))) failures_schema"
    unfolding has_type_fd_value
    by (rule fd_all_check_bgp) (simp add: props_ok_iff_typed [symmetric] read_snapshot_props_ok)
next
  assume wf: "sessions_wf s"
  have "fd_all wf_pyval (failed_dict (fst (check_bgp s)))"
    by (rule fd_all_check_bgp) (blast intro: wf_pyval_entries read_snapshot_entries sessions_wfD [OF wf])
  moreover have "fd_inv (failed_dict (fst (check_bgp s)))"
    using table_inv_check_bgp [of s] by (simp add: table_inv_def)
  ultimately show "wf_pyval (fd_value (failed_dict (fst (check_bgp s))))"
    by (rule wf_pyval_fd_value [rotated])
qed

theorem failed_dict_typed_witness:
  "has_type (fd_value (failed_dict (fst (check_bgp (with_sessions [(''R1'', r1_mixed), (''R2'', half_read)])))))
     failures_schema \<and>
   wf_pyval (fd_value (failed_dict (fst (check_bgp (with_sessions [(''R1'', r1_mixed), (''R2'', half_read)])))))"
  using failed_dict_typed [of "with_sessions [(''R1'', r1_mixed), (''R2'', half_read)]"]
  by simp

end
