(* ===== verification/Device_Order.thy ===== *)
theory Device_Order
  imports Check_BGP "HOL-Library.Multiset"
begin

text \<open>
  The order of the devices. \<open>check_bgp\<close> walks the snapshots in the order in which
  \<open>learn_bgp\<close> stored them. The lemmas show what does not depend on that order when
  every snapshot can be read: the result, the rows of the table as a multiset, and
  \<open>failed_dict\<close> read as a mapping. (The order of the rows, the order of the keys of
  \<open>failed_dict\<close> and the tables logged on the way do depend on it.)
\<close>

section \<open>Two orders of the same snapshots\<close>

lemma mset_rows_of:
  "mset (rows_of sessions) = (\<Sum>db\<in>#mset sessions. mset (map row_of (entries (snd db))))"
  by (induction sessions) simp_all

lemma sessions_ok_mset:
  "mset sessions = mset sessions' \<Longrightarrow> sessions_ok sessions \<longleftrightarrow> sessions_ok sessions'"
  using mset_eq_setD [of sessions sessions'] by (simp add: sessions_ok_def list_all_iff)

lemma wf_dict_mset: "mset sessions = mset sessions' \<Longrightarrow> wf_dict sessions \<longleftrightarrow> wf_dict sessions'"
  using mset_eq_imp_distinct_iff [of "map fst sessions" "map fst sessions'"]
  by (simp add: wf_dict_def)

lemma map_of_mset:
  assumes "mset sessions = mset sessions'" and "wf_dict sessions"
  shows "map_of sessions = map_of sessions'"
proof -
  from assms wf_dict_mset [OF assms(1)]
  have "distinct (map fst sessions)" "distinct (map fst sessions')"
    by (simp_all add: wf_dict_def)
  moreover from assms(1) have "set sessions = set sessions'"
    by (rule mset_eq_setD)
  ultimately show ?thesis
    by (simp only: map_of_inject_set)
qed

lemma index_of_empty_mset:
  "mset sessions = mset sessions' \<Longrightarrow> index_of sessions [] = [] \<longleftrightarrow> index_of sessions' [] = []"
  using mset_eq_setD [of sessions sessions'] by (simp add: index_of_eq_Nil list_all_iff)

section \<open>What does not depend on the order\<close>

text \<open>
  C38. Two runs of \<open>check_bgp\<close> on the same readable snapshots under distinct device
  names, stored in two different orders, end with the same result, build tables with
  the same rows, each as often, and leave the same mapping from device and neighbour
  to attributes in \<open>failed_dict\<close>.
\<close>

theorem check_bgp_order_independent:
  assumes "all_bgp_sessions s = Some sessions" and "all_bgp_sessions t = Some sessions'"
    and "mset sessions = mset sessions'" and "sessions_ok sessions" and "wf_dict sessions"
  shows "snd (check_bgp s) = snd (check_bgp t) \<and>
     mset (results_table (fst (check_bgp s))) = mset (results_table (fst (check_bgp t))) \<and>
     fd_lookup (failed_dict (fst (check_bgp s))) = fd_lookup (failed_dict (fst (check_bgp t)))"
proof -
  from assms(4,5) sessions_ok_mset [OF assms(3)] wf_dict_mset [OF assms(3)]
  have ok: "sessions_ok sessions'" and wf: "wf_dict sessions'"
    by simp_all
  have "fd_lookup (index_of sessions []) device nbr = fd_lookup (index_of sessions' []) device nbr"
    for device nbr
    using assms(5) wf map_of_mset [OF assms(3,5)] by (simp add: fd_lookup_index_of)
  then have "fd_lookup (index_of sessions []) = fd_lookup (index_of sessions' [])"
    by (intro ext)
  with assms ok index_of_empty_mset [OF assms(3)] show ?thesis
    by (simp add: snd_check_bgp results_table_check_bgp failed_dict_check_bgp mset_rows_of)
qed

theorem check_bgp_order_independent_witness:
  "snd (check_bgp (with_sessions [(''R2'', r1_idle), (''R1'', r1_established)])) =
     Some (Failed_signal ''Some BGP neighbors are not established.'' []) \<and>
   fd_lookup (failed_dict (fst (check_bgp (with_sessions [(''R2'', r1_idle), (''R1'', r1_established)]))))
     ''R2'' ''10.0.0.2'' = Some (peer ''Idle'')"
  using check_bgp_order_independent [of "with_sessions scenario_c" scenario_c
      "with_sessions [(''R2'', r1_idle), (''R1'', r1_established)]"
      "[(''R2'', r1_idle), (''R1'', r1_established)]"]
  by (simp add: scenario_c_def snd_check_bgp failed_dict_check_bgp fd_lookup_def
      bgp_eval fails_def)

end
