(* ===== verification/Spec2Isabelle.thy ===== *)
theory Spec2Isabelle
  imports Pipeline Outcomes Snapshot_Types Device_Order
begin

text \<open>
  \<^bold>\<open>A verification development for the pyATS script
  \<^verbatim>\<open>src/bgp_adjacencies/BGP_Neighbors_Established_Revised.py\<close>.\<close>

  \<^bold>\<open>The program.\<close> The script is run by the aetest harness of pyATS in three parts.
  \<^verbatim>\<open>CommonSetup.connect\<close> connects to every device of the testbed and hands the
  connected ones on as the parameter \<^verbatim>\<open>devices\<close>. The testcase
  \<^verbatim>\<open>BGPNeighborsEstablished\<close> has two tests: \<^verbatim>\<open>learn_bgp\<close> asks the Genie library for the
  BGP state of each device and stores the snapshots in \<^verbatim>\<open>self.all_bgp_sessions\<close>, keyed
  by device name; \<^verbatim>\<open>check_bgp\<close> walks every snapshot (device, VRF, neighbour), lowers the
  session state of each neighbour, compares it with \<^verbatim>\<open>established\<close>, collects a table
  row for every neighbour and an entry of \<^verbatim>\<open>failed_dict\<close> for every failing one, logs
  the table after each device and ends with \<^verbatim>\<open>self.passed\<close> or, after logging
  \<^verbatim>\<open>failed_dict\<close>, with \<^verbatim>\<open>self.failed\<close>. \<^verbatim>\<open>CommonCleanup.clean_up\<close> writes one log line.

  \<^bold>\<open>The theories.\<close>
  \<^item> \<open>BGP_Prelude\<close>: expressions that may raise (\<open>'e + 'a\<close>, \<open>ebind\<close>), statements on a
    state that may raise and keep the state when they do (\<open>stmt\<close>, \<open>eval_then\<close>, \<open>seq\<close>),
    the \<open>for\<close> loop (\<open>for_each\<close>) with its rules, Python dictionaries as association
    lists in insertion order (\<open>dict_get\<close>, \<open>setdefault\<close>, \<open>AList.update\<close>, \<open>wf_dict\<close>),
    the collections \<open>bgp_defs\<close>, \<open>raise_iff\<close> and \<open>bgp_eval\<close>, readings (what a loop
    gets to before it stops, computed without a state: \<open>read_then\<close>, \<open>read_seq\<close>,
    \<open>read_each\<close>), and the three judgements on statements that carry the proofs about
    the loops: \<open>keeps\<close> (an invariant), \<open>agrees\<close> (the same outcome in related states)
    and \<open>visits\<close> (the statement is the visit of the elements of a reading and ends
    with its exception).
  \<^item> \<open>Py_Values\<close>: the values of a snapshot (\<open>pyval\<close>), the exceptions (\<open>exn\<close>), the
    method calls \<open>.get\<close>, \<open>.items\<close>, \<open>.lower\<close> with their \<open>AttributeError\<close>, and
    \<open>str.lower\<close>, \<open>str.capitalize\<close> on ASCII text.
  \<^item> \<open>Snapshot\<close>: the three accessor expressions of \<^verbatim>\<open>check_bgp\<close> (line 79 with the
    \<^verbatim>\<open>.items()\<close> of line 81, line 82 with that of line 84, and line 85),
    the verdict of line 86 (\<open>result\<close>), the snapshots they read without an exception
    (\<open>snapshot_ok\<close>), the neighbours of a snapshot in loop order (\<open>entries\<close>), and
    what the loops read of any snapshot before the first value that makes an accessor
    raise (\<open>read_neighbor\<close>, \<open>read_vrf\<close>, \<open>read_snapshot\<close>).
  \<^item> \<open>Scenarios\<close>: the snapshots of the scenarios of the specification, built from
    \<open>peer\<close>, \<open>vrf_of\<close> and \<open>snapshot\<close>, with what the accessors read from them.
  \<^item> \<open>Harness\<close>: devices with the outcomes of their external calls, the log as a list of
    events, and the record \<open>script\<close>: the state of a run.
  \<^item> \<open>Failure_Index\<close>: \<^verbatim>\<open>failed_dict\<close> and its one operation (line 90), with its
    invariant, its reading as a map from device and neighbour to properties
    (\<open>fd_lookup\<close>) and as the value that \<^verbatim>\<open>json.dumps\<close> is given (\<open>fd_value\<close>).
  \<^item> \<open>Check_BGP\<close>: the test \<^verbatim>\<open>check_bgp\<close> (lines 73 to 103), one definition per loop
    body (\<open>check_neighbor\<close>, \<open>check_vrf\<close>, \<open>check_device\<close>) and \<open>check_bgp\<close> itself.
  \<^item> \<open>Evaluator_Spec\<close>: the evaluator as the specification describes it (\<open>evaluate\<close>,
    on snapshots as mappings from VRF to neighbour to attributes), the functions that
    read such a mapping out of a snapshot (\<open>abs_snapshot\<close>) and the results out of the
    state that \<^verbatim>\<open>check_bgp\<close> leaves (\<open>abs_outcome\<close>).
  \<^item> \<open>Snapshot_Types\<close>: types of values (\<open>pytype\<close>, \<open>has_type\<close>) and the type of a
    snapshot (\<open>bgp_schema\<close>).
  \<^item> \<open>Device_Order\<close>: what of \<^verbatim>\<open>check_bgp\<close> does not depend on the order of the devices.
  \<^item> \<open>Connect\<close>: the subsection \<^verbatim>\<open>connect\<close> (lines 31 to 46): \<open>connect_device\<close> is the
    body of its loop, \<open>working_set\<close> what the specification promises of it.
  \<^item> \<open>Learn_BGP\<close>: the test \<^verbatim>\<open>learn_bgp\<close> (lines 57 to 70) with the body of its loop
    \<open>learn_device\<close>, and the subsection \<^verbatim>\<open>clean_up\<close> (lines 114 to 116).
  \<^item> \<open>Lifecycle\<close>: the order in which the harness runs the sections, as a function
    (\<open>testcase\<close>, \<open>run\<close>) and as a step relation on configurations (\<open>step\<close>,
    \<open>next_config\<close>, \<open>run_reaches\<close>), with what holds when a section starts (\<open>stage_inv\<close>).
  \<^item> \<open>Pipeline\<close>: the three stages as the specification describes them (\<open>pipeline\<close>:
    working set, failure marks, evaluation), and \<open>abs_run\<close>, which reads the same
    results out of what \<open>run\<close> leaves.
  \<^item> \<open>Outcomes\<close>: the verdicts, the log, the table and \<^verbatim>\<open>failed_dict\<close> of a run as
    functions of the inventory (\<open>verdicts\<close>, \<open>run_log\<close>, \<open>run_rows\<close>, \<open>run_index\<close>),
    computed from the outcomes of the external calls without a state and without a loop,
    with the number of steps of a run and the devices it reports on.
  \<^item> This theory: the properties of a whole run, which span the components.

  \<^bold>\<open>State and effects.\<close> Every section is a statement \<open>script \<Rightarrow> script \<times> exn option\<close>:
  the state after it and the exception it ended with, if any. The results that
  \<^verbatim>\<open>self.passed\<close> and \<^verbatim>\<open>self.failed\<close> report are exceptions too (aetest raises a signal
  that ends the section), so a section that calls one of them ends there. An exception
  keeps the state as it was when it was raised: what was logged before stays logged.
  The external calls \<^verbatim>\<open>device.connect()\<close> and \<^verbatim>\<open>bgp.learn()\<close> are read from the device:
  \<open>connect_result\<close> and \<open>learn_result\<close> hold what the call does on that device.

  \<^bold>\<open>The harness.\<close> The code of aetest is not part of the repository. \<open>run\<close> follows the
  lifecycle the specification describes: the setup, then the testcase, then the cleanup;
  a section that ends with no signal or with \<^verbatim>\<open>passed\<close> is \<open>Passed\<close>, one that ends with
  \<^verbatim>\<open>failed\<close> is \<open>Failed\<close>, one that ends with any other exception is \<open>Errored\<close>; a failed
  setup does not keep the testcase from running; a test that fails with
  \<^verbatim>\<open>goto=['common_cleanup']\<close> skips the tests after it; the cleanup always runs.
  These are assumptions taken from the specification, which no code of the repository
  can confirm: every property of \<open>run\<close> and \<open>step\<close> holds of the script under them.
  That the steps are deterministic and that no section blocks the run holds of any
  sections at all, so it is used in the proofs and not stated as a property.

  \<^bold>\<open>What the lemmas show.\<close> For the accessors (\<open>Snapshot\<close>): that a neighbour passes
  exactly when its state spells \<^verbatim>\<open>established\<close> in any mix of cases, and that a snapshot
  with an absent level is read as one without neighbours.
  For the evaluator of the specification: that \<^verbatim>\<open>check_bgp\<close> implements it (its table, its
  \<^verbatim>\<open>failed_dict\<close> read as a mapping and its result are what \<open>evaluate\<close> computes) on
  readable snapshots with distinct device names and no neighbour address twice in a
  device, and that building a snapshot from a mapping and reading it back is the
  identity. For the schema: that \<^verbatim>\<open>check_bgp\<close> ends without an exception exactly on the
  snapshots of type \<open>bgp_schema\<close>, that every value it stores in \<^verbatim>\<open>failed_dict\<close> has
  the type of the attributes of a neighbour, and that \<^verbatim>\<open>failed_dict\<close> is a well-formed
  value (no dictionary in it holds a key twice) when the snapshots are. For the order of the devices: that the
  result, the multiset of rows and the mapping of failures do not depend on it.
  For \<^verbatim>\<open>check_bgp\<close>: on which snapshots it raises and on
  which it does not; that on the others every neighbour gets exactly one row, in loop
  order, with the state \<^verbatim>\<open>Unknown\<close> when it has none; that the verdict is \<^verbatim>\<open>Passed\<close>
  exactly when every state is \<^verbatim>\<open>established\<close> up to the case of its letters, so also
  when there is no neighbour at all; that each loop is the visit of what the reading of
  its element gets to, so that the test stops in the first snapshot it cannot read, with
  the table and \<^verbatim>\<open>failed_dict\<close> of exactly the neighbours that \<open>read_snapshot\<close> reads
  of it, and without having logged the failures; that its outcome depends on the
  snapshots alone,
  so that a second run gives the same outcome; that \<^verbatim>\<open>failed_dict\<close> holds exactly the
  devices with a
  failing neighbour and exactly their failing neighbour addresses, with distinct keys
  and no empty entry; how many entries it holds (one per address, not one per failing
  neighbour, when an address fails in two VRFs); and what the log holds (the table
  logged after a device also holds the rows of the devices before it).
  For \<^verbatim>\<open>connect\<close>: that it hands on all devices when all connect, and that the first
  failure ends it before the parameter \<^verbatim>\<open>devices\<close> is set, so that it delivers the
  working set of the specification exactly when no device fails.
  For \<^verbatim>\<open>learn_bgp\<close>: what it stores and logs, also when a name occurs twice among the
  devices (one entry for a name, with the snapshot of the last device), how it ends on a device without a
  snapshot, and that it raises \<^verbatim>\<open>KeyError\<close> exactly when the setup did not set
  \<^verbatim>\<open>devices\<close>. For the stages of the specification: that a run gives what they give
  (working set, failure marks, evaluation) exactly when every device connects, on
  inventories with distinct names whose snapshots can be read.
  For a whole run: that its verdicts, its log, its table and its \<^verbatim>\<open>failed_dict\<close> are
  those that \<open>verdicts\<close>, \<open>run_log\<close>, \<open>run_rows\<close> and \<open>run_index\<close> compute, whatever
  the inventory is (devices that do not connect, that deliver no snapshot, whose
  \<^verbatim>\<open>bgp.learn()\<close> raises, whose snapshot cannot be read, names that occur twice); that
  the four sections all pass exactly when every device connects and delivers a snapshot
  that can be read and in which every neighbour is established; and what verdicts, log
  and table are when all goes well, when a device does not connect and when
  \<^verbatim>\<open>bgp.learn()\<close> raises; which devices a run reports on (those before the first one
  that delivers no snapshot or one that cannot be read, and none when a device does not
  connect or leaves no \<^verbatim>\<open>info\<close>). For the steps of a run: that they reach the end after
  exactly four sections, or three when \<^verbatim>\<open>check_bgp\<close> is skipped, which is decided by
  the devices, and end in what \<open>run\<close> computes; and that every section
  starts in a state it can rely on; in particular \<^verbatim>\<open>check_bgp\<close> never reads
  \<^verbatim>\<open>self.all_bgp_sessions\<close> before \<^verbatim>\<open>learn_bgp\<close> has set it.

  \<^bold>\<open>Fixtures.\<close> The closed theorems that end in \<open>_witness\<close> apply a property to the
  snapshots of \<open>Scenarios\<close> and to the devices \<open>reachable\<close>, \<open>unreachable\<close>, \<open>router\<close>,
  \<open>silent\<close> and \<open>broken\<close>; they evaluate with the collection \<open>bgp_eval\<close>.

  \<^bold>\<open>Bounds.\<close> No loop of the script can run forever: each is over a finite list, so the
  model needs no fuel and every function is total. Dictionary keys are strings.
  Strings are ASCII: a character outside \<open>A\<close> to \<open>Z\<close> is its own lower case.

  \<^bold>\<open>Not modelled.\<close> The text that \<^verbatim>\<open>banner\<close>, \<^verbatim>\<open>tabulate\<close> and \<^verbatim>\<open>json.dumps\<close> render
  (an event of the log holds their arguments); the Genie and pyATS libraries behind
  \<^verbatim>\<open>Genie.init\<close>, \<^verbatim>\<open>device.connect\<close>, \<^verbatim>\<open>Lookup.from_device\<close> and \<^verbatim>\<open>Bgp.learn\<close> (a device
  carries the outcome of each call, and \<^verbatim>\<open>Genie.init\<close> is taken to return the testbed);
  exceptions that are not subclasses of \<^verbatim>\<open>Exception\<close>; the reporting of aetest beyond
  the verdict of each section.
\<close>

section \<open>Properties of a whole run\<close>

text \<open>
  C26. A run on a testbed whose devices all connect and all deliver a readable snapshot,
  under distinct names: the setup and \<open>learn_bgp\<close> pass, \<open>check_bgp\<close> passes exactly
  when no neighbour of any snapshot fails, the table holds the rows of the snapshots of
  the devices in the order of the inventory, \<open>failed_dict\<close> holds their failures, and
  the log holds, in this order, the banners of the setup, the banners of \<open>learn_bgp\<close>,
  a title and a table for each device, the dump of \<open>failed_dict\<close> when there is a
  failure, and the line of the cleanup.
\<close>

theorem run_healthy:
  assumes "list_all connects tb" and "list_all learns tb" and "distinct (map name tb)"
    and "sessions_ok (snapshots tb)"
  shows "snd (run tb) =
       \<lparr>setup_verdict = Passed, learn_verdict = Passed,
        check_verdict = (if index_of (snapshots tb) [] = [] then Passed else Failed),
        cleanup_verdict = Passed\<rparr> \<and>
     results_table (fst (run tb)) = rows_of (snapshots tb) \<and>
     failed_dict (fst (run tb)) = index_of (snapshots tb) [] \<and>
     log (fst (run tb)) =
       banners tb @ learn_banners tb @ device_logs [] (snapshots tb) @
       (if index_of (snapshots tb) [] = [] then []
        else [Error_json (index_of (snapshots tb) [])]) @
       [Info ''Aetest Common Cleanup'']"
proof -
  from assms(1) have "devices (fst (connect tb start)) = Some tb" "snd (connect tb start) = None"
    "log (fst (connect tb start)) = banners tb"
    by (simp_all add: connect_ok start_def)
  with assms(2-4) show ?thesis
    by (simp add: run_unfold testcase_ok)
qed

theorem run_healthy_witness:
  "check_verdict (snd (run [router ''R1'' r1_established, router ''R2'' r1_idle])) = Failed \<and>
   failed_dict (fst (run [router ''R1'' r1_established, router ''R2'' r1_idle])) =
     [(''R2'', [(''10.0.0.2'', peer ''Idle'')])] \<and>
   check_verdict (snd (run [router ''R1'' r1_established])) = Passed"
  using run_healthy [of "[router ''R1'' r1_established, router ''R2'' r1_idle]"]
    run_healthy [of "[router ''R1'' r1_established]"]
  by (simp add: bgp_eval fails_def)

text \<open>
  C27. A run on a testbed with a device that does not connect: the setup fails,
  \<open>learn_bgp\<close> ends with the \<open>KeyError\<close> of the missing parameter, and \<open>check_bgp\<close>
  passes on the empty dictionary of snapshots. No neighbour of the devices that did
  connect is evaluated: the table stays empty, whatever their sessions are, and the log
  holds nothing but the banners of the setup up to that device and the line of the
  cleanup.
\<close>

theorem run_connection_failure:
  assumes "tb = pre @ d # post" and "list_all connects pre" and "\<not> connects d"
  shows "snd (run tb) =
       \<lparr>setup_verdict = Failed, learn_verdict = Errored, check_verdict = Passed,
        cleanup_verdict = Passed\<rparr> \<and>
     all_bgp_sessions (fst (run tb)) = Some [] \<and> results_table (fst (run tb)) = [] \<and>
     log (fst (run tb)) = banners (pre @ [d]) @ [Info ''Aetest Common Cleanup'']"
proof -
  from assms have "devices (fst (connect tb start)) = None"
    and "snd (connect tb start) = Some (Failed_signal (connect_message d (connect_error d)) [])"
    and "log (fst (connect tb start)) = banners (pre @ [d])"
    by (simp_all add: connect_fails start_def)
  then show ?thesis
    by (simp add: run_unfold testcase_no_devices)
qed

theorem run_connection_failure_witness:
  "snd (run [router ''R1'' r1_idle, unreachable ''R2'']) =
     \<lparr>setup_verdict = Failed, learn_verdict = Errored, check_verdict = Passed,
      cleanup_verdict = Passed\<rparr> \<and>
   results_table (fst (run [router ''R1'' r1_idle, unreachable ''R2''])) = []"
  using run_connection_failure [of "[router ''R1'' r1_idle, unreachable ''R2'']"
      "[router ''R1'' r1_idle]" "unreachable ''R2''" "[]"]
  by simp

text \<open>
  C28. A run in which \<open>bgp.learn()\<close> raises on a device: \<open>learn_bgp\<close> ends with that
  exception, and \<open>check_bgp\<close> still runs, on the snapshots of the devices before it
  only; its verdict, its table and the tables it logs are those of these snapshots.
\<close>

theorem run_learn_exception:
  assumes "list_all connects (pre @ d # post)" and "list_all learns pre"
    and "learn_result d = Inl e" and "distinct (map name pre)" and "sessions_ok (snapshots pre)"
  shows "snd (run (pre @ d # post)) =
       \<lparr>setup_verdict = Passed, learn_verdict = Errored,
        check_verdict = (if index_of (snapshots pre) [] = [] then Passed else Failed),
        cleanup_verdict = Passed\<rparr> \<and>
     results_table (fst (run (pre @ d # post))) = rows_of (snapshots pre) \<and>
     log (fst (run (pre @ d # post))) =
       banners (pre @ d # post) @ learn_banners (pre @ [d]) @ device_logs [] (snapshots pre) @
       (if index_of (snapshots pre) [] = [] then []
        else [Error_json (index_of (snapshots pre) [])]) @
       [Info ''Aetest Common Cleanup'']"
proof -
  let ?tb = "pre @ d # post"
  from assms(1) have "devices (fst (connect ?tb start)) = Some ?tb"
    and "snd (connect ?tb start) = None" and "log (fst (connect ?tb start)) = banners ?tb"
    by (simp_all add: connect_ok start_def)
  with assms(2-5) show ?thesis
    by (simp add: run_unfold testcase_learn_raises)
qed

theorem run_learn_exception_witness:
  "snd (run [router ''R1'' r1_established, broken ''R2'', router ''R3'' r1_idle]) =
     \<lparr>setup_verdict = Passed, learn_verdict = Errored, check_verdict = Passed,
      cleanup_verdict = Passed\<rparr>"
  using run_learn_exception [of "[router ''R1'' r1_established]" "broken ''R2''"
      "[router ''R3'' r1_idle]" "''parser error''"]
  by (simp add: bgp_eval fails_def)

end
